(* ===== verification/Prelude.thy ===== *)
theory Prelude
  imports Complex_Main "HOL-Library.Sublist"
begin

text \<open>
  Shared vocabulary of the development: the JavaScript built-ins the sources call
  (truthiness of optional strings, \<open>||\<close>, \<open>String.prototype.trim\<close>,
  \<open>toLowerCase\<close>, \<open>includes\<close>, \<open>Array.prototype.findIndex\<close>,
  \<open>Array.prototype.slice\<close>, \<open>Math.ceil\<close> of a quotient, number-to-string
  in a template literal), each as an executable HOL function with the lemmas the
  component theories use. Strings are \<open>char list\<close>; case folding and white space
  are modelled on ASCII (the sources only ever compare ASCII search terms and
  identifiers in the properties stated).
\<close>

named_theorems js_simps "evaluation rules for the modelled JavaScript built-ins"

named_theorems store_simps "characteristic equations of the registrant store operations"

named_theorems view_simps "characteristic equations of the dashboard view and its handlers"

section \<open>Truthiness of optional strings\<close>

text \<open>
  An optional string field (\<open>photoData?: string\<close>) is \<open>undefined\<close> (\<open>None\<close>) or a
  string. JavaScript treats \<open>undefined\<close> and \<open>''\<close> as false.
\<close>

definition js_truthy :: "string option \<Rightarrow> bool" where
  "js_truthy v = (case v of None \<Rightarrow> False | Some s \<Rightarrow> s \<noteq> [])"

text \<open>\<open>a || b\<close> on optional strings: \<open>a\<close> when it is truthy, else \<open>b\<close>.\<close>

definition js_or :: "string option \<Rightarrow> string option \<Rightarrow> string option" where
  "js_or a b = (if js_truthy a then a else b)"

section \<open>Strings\<close>

text \<open>White space as \<open>trim\<close> removes it (the ASCII part: tab, line feed,
  vertical tab, form feed, carriage return, space).\<close>

definition is_js_space :: "char \<Rightarrow> bool" where
  "is_js_space c = (of_char c = (32::nat) \<or> (9 \<le> (of_char c::nat) \<and> (of_char c::nat) \<le> 13))"

definition js_trim :: "string \<Rightarrow> string" where
  "js_trim s = rev (dropWhile is_js_space (rev (dropWhile is_js_space s)))"

text \<open>\<open>toLowerCase\<close> on one character: an ASCII capital (codes 65 to 90) gets bit 5
  set, which adds 32 (lemma \<open>of_char_to_lower_char\<close>); every other character is
  kept.\<close>

definition to_lower_char :: "char \<Rightarrow> char" where
  "to_lower_char c =
     (if 65 \<le> (of_char c::nat) \<and> (of_char c::nat) \<le> 90
      then (case c of Char b0 b1 b2 b3 b4 b5 b6 b7 \<Rightarrow> Char b0 b1 b2 b3 b4 True b6 b7)
      else c)"

definition js_to_lower :: "string \<Rightarrow> string" where
  "js_to_lower s = map to_lower_char s"

text \<open>\<open>haystack.includes(needle)\<close>, by scanning the start positions of the haystack.\<close>

fun starts_with :: "string \<Rightarrow> string \<Rightarrow> bool" where
  "starts_with s [] = True"
| "starts_with [] (c # cs) = False"
| "starts_with (h # hs) (c # cs) = (h = c \<and> starts_with hs cs)"

fun str_includes :: "string \<Rightarrow> string \<Rightarrow> bool" where
  "str_includes [] needle = (needle = [])"
| "str_includes (h # hs) needle = (starts_with (h # hs) needle \<or> str_includes hs needle)"

section \<open>Arrays\<close>

text \<open>
  \<open>Array.prototype.findIndex\<close>: the index of the first element satisfying the
  predicate, or \<open>-1\<close>. The result is a JavaScript number, so it is an \<open>int\<close>.
\<close>

fun js_find_index :: "('a \<Rightarrow> bool) \<Rightarrow> 'a list \<Rightarrow> int" where
  "js_find_index P [] = -1"
| "js_find_index P (x # xs) =
     (if P x then 0 else (let i = js_find_index P xs in if i = -1 then -1 else i + 1))"

text \<open>
  \<open>Array.prototype.slice(start, end)\<close> with integer arguments: a negative
  argument counts from the end, and both are clamped to \<open>[0, length]\<close>.
\<close>

definition js_slice :: "'a list \<Rightarrow> int \<Rightarrow> int \<Rightarrow> 'a list" where
  "js_slice xs s e =
     (let n = int (length xs);
          s' = (if s < 0 then max (n + s) 0 else min s n);
          e' = (if e < 0 then max (n + e) 0 else min e n)
      in take (nat (e' - s')) (drop (nat s') xs))"

section \<open>Numbers\<close>

text \<open>\<open>Math.ceil(a / b)\<close> for naturals and a positive divisor.\<close>

definition ceil_div :: "nat \<Rightarrow> nat \<Rightarrow> nat" where
  "ceil_div a b = (a + b - 1) div b"

text \<open>A number in a template literal: its decimal digits.\<close>

definition digit_char :: "nat \<Rightarrow> char" where
  "digit_char d = char_of (48 + d)"

fun show_nat :: "nat \<Rightarrow> string" where
  "show_nat n = (if n < 10 then [digit_char n] else show_nat (n div 10) @ [digit_char (n mod 10)])"

section \<open>Lemmas on the built-ins\<close>

subsection \<open>Truthiness\<close>

lemma js_truthy_simps [simp, js_simps]:
  "js_truthy None = False"
  "js_truthy (Some s) = (s \<noteq> [])"
  by (simp_all add: js_truthy_def)

lemma js_or_truthy [simp]: "js_truthy a \<Longrightarrow> js_or a b = a"
  and js_or_falsy [simp]: "\<not> js_truthy a \<Longrightarrow> js_or a b = b"
  by (simp_all add: js_or_def)

subsection \<open>Strings\<close>

lemma all_set_dropWhile: "(\<forall>x \<in> set (dropWhile P s). P x) \<longleftrightarrow> (\<forall>x \<in> set s. P x)"
  by (induction s) auto

lemma js_trim_empty_iff: "js_trim s = [] \<longleftrightarrow> (\<forall>c \<in> set s. is_js_space c)"
  by (simp add: js_trim_def dropWhile_eq_Nil_conv all_set_dropWhile)

lemma of_char_to_lower_char:
  "of_char (to_lower_char c) =
     (if 65 \<le> (of_char c::nat) \<and> (of_char c::nat) \<le> 90 then of_char c + (32::nat) else of_char c)"
  by (cases c) (simp add: to_lower_char_def)

lemma length_js_to_lower [simp]: "length (js_to_lower s) = length s"
  by (simp add: js_to_lower_def)

lemma js_to_lower_append [simp]: "js_to_lower (s @ t) = js_to_lower s @ js_to_lower t"
  by (simp add: js_to_lower_def)

lemma js_to_lower_Cons [simp]: "js_to_lower (c # s) = to_lower_char c # js_to_lower s"
  by (simp add: js_to_lower_def)

lemma js_to_lower_Nil [simp]: "js_to_lower [] = []"
  by (simp add: js_to_lower_def)

lemma starts_with_prefix: "starts_with s p \<longleftrightarrow> prefix p s"
  by (induction s p rule: starts_with.induct) auto

lemma str_includes_sublist: "str_includes s n \<longleftrightarrow> sublist n s"
  by (induction s) (simp_all add: starts_with_prefix sublist_Cons_right)

lemma str_includes_Nil_needle [simp]: "str_includes s []"
  by (cases s) simp_all

lemma str_includes_append_left: "str_includes t n \<Longrightarrow> str_includes (s @ t) n"
  by (induction s) simp_all

lemma str_includes_append_prefix: "str_includes (n @ t) n"
proof (cases "n @ t")
  case (Cons a l)
  then have "prefix n (a # l)"
    by (metis prefixI)
  with Cons show ?thesis
    by (simp add: starts_with_prefix)
qed simp

subsection \<open>Arrays\<close>

text \<open>\<open>filter\<close> removes nothing exactly when every element passes.\<close>

lemma length_filter_eq_iff: "length (filter P xs) = length xs \<longleftrightarrow> (\<forall>x \<in> set xs. P x)"
proof (induction xs)
  case (Cons x xs)
  have le: "length (filter P xs) \<le> length xs"
    by (rule length_filter_le)
  show ?case
  proof (cases "P x")
    case False
    have "length (filter P xs) \<noteq> Suc (length xs)"
      using le by linarith
    with False show ?thesis by simp
  qed (simp add: Cons.IH)
qed simp

lemma js_find_index_ge: "-1 \<le> js_find_index P xs"
  by (induction xs) (auto simp: Let_def)

lemma js_find_index_none: "js_find_index P xs = -1 \<longleftrightarrow> (\<forall>x \<in> set xs. \<not> P x)"
proof (induction xs)
  case (Cons x xs)
  have "js_find_index P xs + 1 \<noteq> -1"
    using js_find_index_ge [of P xs] by linarith
  with Cons.IH show ?case by (auto simp: Let_def)
qed simp

lemma js_find_index_bounds:
  "js_find_index P xs \<noteq> -1 \<Longrightarrow> 0 \<le> js_find_index P xs \<and> js_find_index P xs < int (length xs)"
  by (induction xs) (auto simp: Let_def split: if_splits)

lemma js_find_index_nth:
  "js_find_index P xs \<noteq> -1 \<Longrightarrow> P (xs ! nat (js_find_index P xs))"
proof (induction xs)
  case Nil
  then show ?case by simp
next
  case (Cons x xs)
  show ?case
  proof (cases "P x")
    case False
    with Cons.prems have ne: "js_find_index P xs \<noteq> -1"
      by (auto simp: Let_def split: if_splits)
    have "0 \<le> js_find_index P xs"
      using js_find_index_bounds [OF ne] by simp
    then have "nat (js_find_index P xs + 1) = Suc (nat (js_find_index P xs))"
      by simp
    with False ne Cons.IH show ?thesis by (simp add: Let_def)
  qed simp
qed

lemma js_find_index_first:
  "js_find_index P xs \<noteq> -1 \<Longrightarrow> j < nat (js_find_index P xs) \<Longrightarrow> \<not> P (xs ! j)"
proof (induction xs arbitrary: j)
  case Nil
  then show ?case by simp
next
  case (Cons x xs)
  show ?case
  proof (cases "P x")
    case False
    with Cons.prems(1) have ne: "js_find_index P xs \<noteq> -1"
      by (auto simp: Let_def split: if_splits)
    have nn: "0 \<le> js_find_index P xs"
      using js_find_index_bounds [OF ne] by simp
    show ?thesis
    proof (cases j)
      case (Suc k)
      with Cons.prems(2) False ne nn have "k < nat (js_find_index P xs)"
        by (simp add: Let_def nat_add_distrib)
      with ne Suc show ?thesis by (simp add: Cons.IH)
    qed (simp add: False)
  qed (use Cons.prems in simp)
qed

lemma js_slice_nonneg:
  "0 \<le> s \<Longrightarrow> s \<le> e \<Longrightarrow> js_slice xs s e = take (nat e - nat s) (drop (nat s) xs)"
  by (auto simp: js_slice_def Let_def min_def nat_diff_distrib take_all)

subsection \<open>Numbers\<close>

declare show_nat.simps [simp del]

lemma ceil_div_bounds:
  assumes b: "0 < b"
  shows "ceil_div a b * b < a + b" and "a \<le> ceil_div a b * b"
proof -
  let ?q = "ceil_div a b"
  have lo: "?q * b \<le> a + b - 1" and hi: "a + b - 1 < ?q * b + b"
    using b by (simp_all add: ceil_div_def div_times_less_eq_dividend)
      (metis add.commute div_mult_mod_eq mod_less_divisor nat_add_left_cancel_less)
  from lo b show "?q * b < a + b" by linarith
  from hi b show "a \<le> ?q * b" by linarith
qed

lemma ceil_div_real: "0 < b \<Longrightarrow> int (ceil_div a b) = \<lceil>real a / real b\<rceil>"
proof -
  assume b: "0 < b"
  let ?q = "ceil_div a b"
  have rb: "0 < real b" using b by simp
  have "real ?q * real b < real a + real b"
    using ceil_div_bounds(1) [OF b] by (metis of_nat_add of_nat_less_iff of_nat_mult)
  then have "real ?q - 1 < real a / real b"
    using rb by (simp add: field_simps)
  moreover have "real a \<le> real ?q * real b"
    using ceil_div_bounds(2) [OF b] by (metis of_nat_le_iff of_nat_mult)
  then have "real a / real b \<le> real ?q"
    using rb by (simp add: field_simps)
  ultimately show ?thesis
    by (intro ceiling_unique [symmetric]) simp_all
qed

lemma show_nat_nonempty [simp]: "show_nat n \<noteq> []"
  by (subst show_nat.simps) simp

end
