(* ===== verification/Model.thy ===== *)
theory Model
  imports Prelude
begin

text \<open>
  The data model shared by every component (\<open>src/src/types/index.ts\<close>, the
  \<open>Admin\<close> interface of \<open>src/src/contexts/AuthContext.tsx\<close>) and the browser's
  \<open>localStorage\<close> as the program uses it: two keys, \<open>registrants\<close> and
  \<open>admin\<close>, each absent or holding a serialised value. \<open>JSON.stringify\<close> and
  \<open>JSON.parse\<close> are a round trip on these values (an absent \<open>photoData\<close> is
  dropped and read back as absent), so a key holds the parsed value directly.
\<close>

datatype gender = Male | Female | Other

record registrant =
  reg_id :: string
  fullName :: string
  email :: string
  phone :: string
  address :: string
  gender :: gender
  dateOfBirth :: string
  photoPath :: string
  photoData :: "string option"
  createdAt :: string

text \<open>A browser \<open>File\<close>: its name, declared MIME type, size in bytes, and its
  contents in the base64 text form that \<open>readAsDataURL\<close> embeds.\<close>

record js_file =
  file_name :: string
  file_type :: string
  file_size :: nat
  file_base64 :: string

text \<open>\<open>RegistrantFormData = Omit<Registrant, 'id' | 'createdAt' | 'photoPath'> & { photo?: File }\<close>.\<close>

record registrant_form_data =
  fd_fullName :: string
  fd_email :: string
  fd_phone :: string
  fd_address :: string
  fd_gender :: gender
  fd_dateOfBirth :: string
  fd_photoData :: "string option"
  fd_photo :: "js_file option"

record admin =
  username :: string
  admin_isAuthenticated :: bool

record local_storage =
  registrants_item :: "registrant list option"
  admin_item :: "admin option"

definition empty_storage :: local_storage where
  "empty_storage = \<lparr>registrants_item = None, admin_item = None\<rparr>"

text \<open>The strings the sources use for the gender values (\<open>'male' | 'female' | 'other'\<close>).\<close>

fun gender_name :: "gender \<Rightarrow> string" where
  "gender_name Male = ''male''"
| "gender_name Female = ''female''"
| "gender_name Other = ''other''"

fun parse_gender :: "string \<Rightarrow> gender option" where
  "parse_gender s =
     (if s = ''male'' then Some Male else if s = ''female'' then Some Female
      else if s = ''other'' then Some Other else None)"

text \<open>Inputs used by the concrete instances of the theorems: a form as the
  registration page submits it, with the given name, email, phone and photo.\<close>

definition sample_form :: "string \<Rightarrow> string \<Rightarrow> string \<Rightarrow> string option \<Rightarrow> registrant_form_data" where
  "sample_form name mail tel photo =
     \<lparr>fd_fullName = name, fd_email = mail, fd_phone = tel, fd_address = ''1 Main Street'',
      fd_gender = Other, fd_dateOfBirth = ''1990-04-01'', fd_photoData = photo, fd_photo = None\<rparr>"

lemma parse_gender_name [simp]: "parse_gender (gender_name g) = Some g"
  by (cases g) simp_all

lemma parse_gender_Some: "parse_gender s = Some g \<Longrightarrow> gender_name g = s"
  by (auto split: if_splits)

end
