(* ===== verification/Store.thy ===== *)
theory Store
  imports Model
begin

text \<open>
  The registrant store, \<open>src/services/registrationService.ts\<close> (staged as
  \<open>src/unnamed/part_001\<close>). Every operation reads the whole \<open>registrants\<close> key
  through \<open>getAllRegistrants\<close>, which first creates an empty list when the key is
  absent, and a mutating operation writes the whole list back. State is passed
  explicitly: an operation takes the storage and returns its result with the new
  storage. The values the code draws from the environment
  (\<open>crypto.randomUUID()\<close>, \<open>Date.now()\<close>, \<open>new Date().toISOString()\<close>) are
  inputs, collected in \<open>add_env\<close>.
\<close>

section \<open>Operations\<close>

definition initializeStorage :: "local_storage \<Rightarrow> local_storage" where
  "initializeStorage st =
     (if registrants_item st = None then st\<lparr>registrants_item := Some []\<rparr> else st)"

definition getAllRegistrants :: "local_storage \<Rightarrow> registrant list \<times> local_storage" where
  "getAllRegistrants st =
     (let st' = initializeStorage st
      in ((case registrants_item st' of None \<Rightarrow> [] | Some rs \<Rightarrow> rs), st'))"

definition getRegistrantById :: "string \<Rightarrow> local_storage \<Rightarrow> registrant option \<times> local_storage" where
  "getRegistrantById i st =
     (let (rs, st') = getAllRegistrants st in (find (\<lambda>r. reg_id r = i) rs, st'))"

record add_env =
  env_uuid :: string
  env_now :: nat
  env_iso :: string

text \<open>The simulated file name \<open>photo_${Date.now()}.jpg\<close>.\<close>

definition photo_file_name :: "nat \<Rightarrow> string" where
  "photo_file_name t = ''photo_'' @ show_nat t @ ''.jpg''"

definition new_registrant :: "registrant_form_data \<Rightarrow> add_env \<Rightarrow> registrant" where
  "new_registrant data env =
     \<lparr>reg_id = env_uuid env,
      fullName = fd_fullName data,
      email = fd_email data,
      phone = fd_phone data,
      address = fd_address data,
      gender = fd_gender data,
      dateOfBirth = fd_dateOfBirth data,
      photoPath = (if js_truthy (fd_photoData data) then photo_file_name (env_now env) else []),
      photoData = fd_photoData data,
      createdAt = env_iso env\<rparr>"

definition addRegistrant ::
  "registrant_form_data \<Rightarrow> add_env \<Rightarrow> local_storage \<Rightarrow> registrant \<times> local_storage" where
  "addRegistrant data env st =
     (let (rs, st1) = getAllRegistrants st;
          r = new_registrant data env
      in (r, st1\<lparr>registrants_item := Some (rs @ [r])\<rparr>))"

text \<open>The record built by \<open>updateRegistrant\<close>: the old record spread, the form's
  fields over it, and the photo pair kept or replaced.\<close>

definition updated_registrant :: "registrant_form_data \<Rightarrow> nat \<Rightarrow> registrant \<Rightarrow> registrant" where
  "updated_registrant data now old =
     old\<lparr>fullName := fd_fullName data,
         email := fd_email data,
         phone := fd_phone data,
         address := fd_address data,
         gender := fd_gender data,
         dateOfBirth := fd_dateOfBirth data,
         photoData := js_or (fd_photoData data) (photoData old),
         photoPath := (if js_truthy (fd_photoData data) then photo_file_name now else photoPath old)\<rparr>"

definition updateRegistrant ::
  "string \<Rightarrow> registrant_form_data \<Rightarrow> nat \<Rightarrow> local_storage \<Rightarrow> registrant option \<times> local_storage" where
  "updateRegistrant i data now st =
     (let (rs, st1) = getAllRegistrants st;
          index = js_find_index (\<lambda>r. reg_id r = i) rs
      in if index = -1 then (None, st1)
         else let upd = updated_registrant data now (rs ! nat index)
              in (Some upd, st1\<lparr>registrants_item := Some (rs[nat index := upd])\<rparr>))"

definition deleteRegistrant :: "string \<Rightarrow> local_storage \<Rightarrow> bool \<times> local_storage" where
  "deleteRegistrant i st =
     (let (rs, st1) = getAllRegistrants st;
          filtered = filter (\<lambda>r. reg_id r \<noteq> i) rs
      in if length filtered = length rs then (False, st1)
         else (True, st1\<lparr>registrants_item := Some filtered\<rparr>))"

section \<open>Abstraction and contract\<close>

text \<open>What a read of the \<open>registrants\<close> key yields: the stored list, or the empty
  list that \<open>initializeStorage\<close> would put there.\<close>

definition stored :: "local_storage \<Rightarrow> registrant list" where
  "stored st = (case registrants_item st of None \<Rightarrow> [] | Some rs \<Rightarrow> rs)"

text \<open>The registrants by identifier: the first record with each \<open>id\<close>, which is
  the one \<open>find\<close> and \<open>findIndex\<close> reach.\<close>

definition reg_map :: "registrant list \<Rightarrow> string \<rightharpoonup> registrant" where
  "reg_map rs = map_of (map (\<lambda>r. (reg_id r, r)) rs)"

definition abs_store :: "local_storage \<Rightarrow> string \<rightharpoonup> registrant" where
  "abs_store st = reg_map (stored st)"

text \<open>The operations of the service as the user interface calls them.\<close>

datatype store_op =
    OpGetAll
  | OpGetById string
  | OpAdd registrant_form_data add_env
  | OpUpdate string registrant_form_data nat
  | OpDelete string

datatype store_result =
    RList "registrant list"
  | RFound "registrant option"
  | RAdded registrant
  | RUpdated "registrant option"
  | RDeleted bool

fun store_exec :: "store_op \<Rightarrow> local_storage \<Rightarrow> store_result \<times> local_storage" where
  "store_exec OpGetAll st = (let (rs, st') = getAllRegistrants st in (RList rs, st'))"
| "store_exec (OpGetById i) st = (let (r, st') = getRegistrantById i st in (RFound r, st'))"
| "store_exec (OpAdd data env) st = (let (r, st') = addRegistrant data env st in (RAdded r, st'))"
| "store_exec (OpUpdate i data now) st =
     (let (r, st') = updateRegistrant i data now st in (RUpdated r, st'))"
| "store_exec (OpDelete i) st = (let (b, st') = deleteRegistrant i st in (RDeleted b, st'))"

text \<open>
  The contract of the store as a map from identifiers to records: reads change
  nothing, \<open>create\<close> binds the fresh identifier, \<open>update\<close> rebinds an existing
  identifier to the merged record, \<open>delete\<close> unbinds it.
\<close>

fun abs_exec :: "store_op \<Rightarrow> (string \<rightharpoonup> registrant) \<Rightarrow> (string \<rightharpoonup> registrant)" where
  "abs_exec OpGetAll m = m"
| "abs_exec (OpGetById i) m = m"
| "abs_exec (OpAdd data env) m = m(env_uuid env \<mapsto> new_registrant data env)"
| "abs_exec (OpUpdate i data now) m =
     (case m i of None \<Rightarrow> m | Some old \<Rightarrow> m(i \<mapsto> updated_registrant data now old))"
| "abs_exec (OpDelete i) m = m(i := None)"

text \<open>
  \<open>crypto.randomUUID()\<close> is trusted to return an identifier not yet in use; the
  code does not check it. A step whose identifier is fresh:
\<close>

fun op_fresh :: "store_op \<Rightarrow> local_storage \<Rightarrow> bool" where
  "op_fresh (OpAdd data env) st = (env_uuid env \<notin> reg_id ` set (stored st))"
| "op_fresh op st = True"

text \<open>The invariant the identifier generation is meant to give: identifiers are unique.\<close>

definition ids_distinct :: "local_storage \<Rightarrow> bool" where
  "ids_distinct st = distinct (map reg_id (stored st))"

inductive store_reach :: "local_storage \<Rightarrow> bool" where
  store_init: "store_reach empty_storage"
| store_step: "store_reach st \<Longrightarrow> op_fresh op st \<Longrightarrow> store_reach (snd (store_exec op st))"

definition sample_env :: "string \<Rightarrow> nat \<Rightarrow> add_env" where
  "sample_env u t = \<lparr>env_uuid = u, env_now = t, env_iso = ''2025-01-01T00:00:00.000Z''\<rparr>"

section \<open>Lemmas\<close>

subsection \<open>Characteristic equations of the operations\<close>

lemma stored_initializeStorage [simp]: "stored (initializeStorage st) = stored st"
  by (simp add: initializeStorage_def stored_def)

lemma registrants_item_initializeStorage [simp]:
  "registrants_item (initializeStorage st) = Some (stored st)"
  by (simp add: initializeStorage_def stored_def split: option.splits)

lemma admin_item_initializeStorage [simp]: "admin_item (initializeStorage st) = admin_item st"
  by (simp add: initializeStorage_def)

lemma stored_update [simp]: "stored (st\<lparr>registrants_item := Some rs\<rparr>) = rs"
  by (simp add: stored_def)

lemma stored_admin_update [simp]: "stored (st\<lparr>admin_item := a\<rparr>) = stored st"
  by (simp add: stored_def)

lemma getAllRegistrants_eq [store_simps]:
  "getAllRegistrants st = (stored st, initializeStorage st)"
  by (simp add: getAllRegistrants_def)

lemma getRegistrantById_eq [store_simps]:
  "getRegistrantById i st = (find (\<lambda>r. reg_id r = i) (stored st), initializeStorage st)"
  by (simp add: getRegistrantById_def getAllRegistrants_eq)

lemma addRegistrant_eq [store_simps]:
  "addRegistrant data env st =
     (new_registrant data env,
      (initializeStorage st)\<lparr>registrants_item := Some (stored st @ [new_registrant data env])\<rparr>)"
  by (simp add: addRegistrant_def getAllRegistrants_eq Let_def)

lemma deleteRegistrant_eq [store_simps]:
  "deleteRegistrant i st =
     (if i \<in> reg_id ` set (stored st)
      then (True, (initializeStorage st)\<lparr>registrants_item := Some (filter (\<lambda>r. reg_id r \<noteq> i) (stored st))\<rparr>)
      else (False, initializeStorage st))"
proof -
  have "length (filter (\<lambda>r. reg_id r \<noteq> i) (stored st)) = length (stored st) \<longleftrightarrow>
        i \<notin> reg_id ` set (stored st)"
    by (auto simp: length_filter_eq_iff)
  then show ?thesis
    by (simp add: deleteRegistrant_def getAllRegistrants_eq Let_def)
qed

lemma stored_addRegistrant [simp]:
  "stored (snd (addRegistrant data env st)) = stored st @ [new_registrant data env]"
  by (simp add: addRegistrant_eq)

subsection \<open>The identifier map\<close>

lemma reg_map_Nil [simp]: "reg_map [] = Map.empty"
  by (simp add: reg_map_def)

lemma reg_map_Cons [simp]: "reg_map (r # rs) = (reg_map rs)(reg_id r \<mapsto> r)"
  by (simp add: reg_map_def)

lemma dom_reg_map [simp]: "dom (reg_map rs) = reg_id ` set rs"
  by (simp add: reg_map_def dom_map_of_conv_image_fst image_image)

lemma find_reg_map: "find (\<lambda>r. reg_id r = i) rs = reg_map rs i"
  by (induction rs) auto

lemma reg_map_Some_id: "reg_map rs i = Some r \<Longrightarrow> reg_id r = i"
  by (induction rs) (auto split: if_splits)

lemma reg_map_Some_set: "reg_map rs i = Some r \<Longrightarrow> r \<in> set rs"
  by (induction rs) (auto split: if_splits)

lemma reg_map_snoc_fresh:
  "reg_id r \<notin> reg_id ` set rs \<Longrightarrow> reg_map (rs @ [r]) = (reg_map rs)(reg_id r \<mapsto> r)"
  by (induction rs) (auto simp: fun_upd_twist)

lemma reg_map_filter: "reg_map (filter (\<lambda>r. reg_id r \<noteq> i) rs) = (reg_map rs)(i := None)"
  by (induction rs) (auto simp: fun_upd_twist)

lemma reg_map_find_index:
  "reg_map rs i =
     (let k = js_find_index (\<lambda>r. reg_id r = i) rs in if k = -1 then None else Some (rs ! nat k))"
proof (induction rs)
  case (Cons x rs)
  show ?case
  proof (cases "reg_id x = i")
    case False
    have ge: "-1 \<le> js_find_index (\<lambda>r. reg_id r = i) rs"
      by (rule js_find_index_ge)
    show ?thesis
    proof (cases "js_find_index (\<lambda>r. reg_id r = i) rs = -1")
      case False
      with ge have "nat (js_find_index (\<lambda>r. reg_id r = i) rs + 1) =
                    Suc (nat (js_find_index (\<lambda>r. reg_id r = i) rs))"
        by simp
      with False \<open>reg_id x \<noteq> i\<close> Cons.IH show ?thesis by (simp add: Let_def)
    qed (use False Cons.IH in \<open>simp add: Let_def\<close>)
  qed simp
qed simp

lemma reg_map_update_first:
  "k < length rs \<Longrightarrow> reg_id (rs ! k) = i \<Longrightarrow> \<forall>j < k. reg_id (rs ! j) \<noteq> i \<Longrightarrow> reg_id r = i \<Longrightarrow>
   reg_map (rs[k := r]) = (reg_map rs)(i \<mapsto> r)"
proof (induction rs arbitrary: k)
  case (Cons x rs)
  show ?case
  proof (cases k)
    case (Suc k')
    from Cons.prems(3) Suc have x: "reg_id x \<noteq> i"
      by auto
    have "\<forall>j < k'. reg_id (rs ! j) \<noteq> i"
    proof (intro allI impI)
      fix j
      assume "j < k'"
      then show "reg_id (rs ! j) \<noteq> i"
        using Cons.prems(3) Suc by (metis Suc_mono nth_Cons_Suc)
    qed
    with Cons.prems Suc have "reg_map (rs[k' := r]) = (reg_map rs)(i \<mapsto> r)"
      by (intro Cons.IH) simp_all
    with x Suc Cons.prems(4) show ?thesis
      by (auto simp: fun_eq_iff)
  qed (use Cons.prems in \<open>auto simp: fun_eq_iff\<close>)
qed simp

lemma index_of_id:
  assumes "abs_store st i = Some old"
  defines "k \<equiv> js_find_index (\<lambda>r. reg_id r = i) (stored st)"
  shows "k \<noteq> -1" and "stored st ! nat k = old" and "nat k < length (stored st)"
    and "\<forall>j < nat k. reg_id (stored st ! j) \<noteq> i"
proof -
  from assms show ne: "k \<noteq> -1" and "stored st ! nat k = old"
    by (auto simp: abs_store_def reg_map_find_index Let_def split: if_splits)
  from js_find_index_bounds [OF ne [unfolded k_def]] show "nat k < length (stored st)"
    by (auto simp: k_def nat_less_iff)
  from js_find_index_first [OF ne [unfolded k_def]] show "\<forall>j < nat k. reg_id (stored st ! j) \<noteq> i"
    by (simp add: k_def)
qed

subsection \<open>The operations on the identifier map\<close>

lemma dom_abs_store [simp]: "dom (abs_store st) = reg_id ` set (stored st)"
  by (simp add: abs_store_def)

lemma abs_store_None_iff: "abs_store st i = None \<longleftrightarrow> i \<notin> reg_id ` set (stored st)"
  by (metis domIff dom_abs_store)

lemma reg_id_new_registrant [simp]: "reg_id (new_registrant data env) = env_uuid env"
  and createdAt_new_registrant [simp]: "createdAt (new_registrant data env) = env_iso env"
  by (simp_all add: new_registrant_def)

lemma reg_id_updated_registrant [simp]: "reg_id (updated_registrant data now old) = reg_id old"
  and createdAt_updated_registrant [simp]: "createdAt (updated_registrant data now old) = createdAt old"
  by (simp_all add: updated_registrant_def)

lemma updateRegistrant_eq [store_simps]:
  "updateRegistrant i data now st =
     (case abs_store st i of
        None \<Rightarrow> (None, initializeStorage st)
      | Some old \<Rightarrow>
          (Some (updated_registrant data now old),
           (initializeStorage st)\<lparr>registrants_item := Some ((stored st)
              [nat (js_find_index (\<lambda>r. reg_id r = i) (stored st)) := updated_registrant data now old])\<rparr>))"
  by (simp add: updateRegistrant_def getAllRegistrants_eq abs_store_def reg_map_find_index Let_def)

lemma abs_store_addRegistrant:
  "env_uuid env \<notin> reg_id ` set (stored st) \<Longrightarrow>
   abs_store (snd (addRegistrant data env st)) = (abs_store st)(env_uuid env \<mapsto> new_registrant data env)"
  using reg_map_snoc_fresh [of "new_registrant data env" "stored st"]
  by (simp add: abs_store_def)

lemma abs_store_updateRegistrant:
  "abs_store (snd (updateRegistrant i data now st)) =
     (case abs_store st i of None \<Rightarrow> abs_store st
      | Some old \<Rightarrow> (abs_store st)(i \<mapsto> updated_registrant data now old))"
proof (cases "abs_store st i")
  case (Some old)
  note k = index_of_id [OF Some]
  from Some have "reg_id old = i"
    by (simp add: abs_store_def reg_map_Some_id)
  with k Some show ?thesis
    by (simp add: updateRegistrant_eq abs_store_def reg_map_update_first)
qed (simp add: updateRegistrant_eq abs_store_def)

lemma stored_updateRegistrant_ids:
  "map reg_id (stored (snd (updateRegistrant i data now st))) = map reg_id (stored st)"
  and stored_updateRegistrant_createdAt:
  "map createdAt (stored (snd (updateRegistrant i data now st))) = map createdAt (stored st)"
proof -
  have "map reg_id (stored (snd (updateRegistrant i data now st))) = map reg_id (stored st) \<and>
        map createdAt (stored (snd (updateRegistrant i data now st))) = map createdAt (stored st)"
  proof (cases "abs_store st i")
    case (Some old)
    note k = index_of_id [OF Some]
    have "(map reg_id (stored st))[nat (js_find_index (\<lambda>r. reg_id r = i) (stored st)) := reg_id old]
            = map reg_id (stored st)"
      and "(map createdAt (stored st))[nat (js_find_index (\<lambda>r. reg_id r = i) (stored st)) := createdAt old]
            = map createdAt (stored st)"
      using k by (metis list_update_id map_update)+
    then show ?thesis
      by (simp add: updateRegistrant_eq Some map_update)
  qed (simp add: updateRegistrant_eq)
  then show "map reg_id (stored (snd (updateRegistrant i data now st))) = map reg_id (stored st)"
    and "map createdAt (stored (snd (updateRegistrant i data now st))) = map createdAt (stored st)"
    by simp_all
qed

lemma abs_store_deleteRegistrant:
  "abs_store (snd (deleteRegistrant i st)) = (abs_store st)(i := None)"
  by (auto simp: deleteRegistrant_eq abs_store_def reg_map_filter fun_upd_idem_iff)

subsection \<open>Preservation of unique identifiers\<close>

lemma stored_store_exec_reads:
  "stored (snd (store_exec OpGetAll st)) = stored st"
  "stored (snd (store_exec (OpGetById i) st)) = stored st"
  by (simp_all add: getAllRegistrants_eq getRegistrantById_eq)

lemma store_exec_ids_distinct:
  assumes "ids_distinct st" and "op_fresh op st"
  shows "ids_distinct (snd (store_exec op st))"
proof (cases op)
  case (OpAdd data env)
  with assms show ?thesis
    by (simp add: ids_distinct_def addRegistrant_eq new_registrant_def Let_def case_prod_beta)
next
  case (OpUpdate i data now)
  with assms show ?thesis
    by (simp add: ids_distinct_def stored_updateRegistrant_ids Let_def case_prod_beta)
next
  case (OpDelete i)
  with assms show ?thesis
    by (simp add: ids_distinct_def deleteRegistrant_eq distinct_map_filter Let_def case_prod_beta)
qed (use assms in \<open>simp_all add: ids_distinct_def getAllRegistrants_eq getRegistrantById_eq Let_def\<close>)

subsection \<open>Helpers for the properties\<close>

lemma stored_empty_storage [simp]: "stored empty_storage = []"
  by (simp add: empty_storage_def stored_def)

lemma updateRegistrant_found:
  assumes "abs_store st i = Some old"
  shows "fst (updateRegistrant i data now st) = Some (updated_registrant data now old)"
    and "abs_store (snd (updateRegistrant i data now st)) i = Some (updated_registrant data now old)"
   apply (simp add: assms updateRegistrant_eq)
  by (simp only: assms abs_store_updateRegistrant option.case fun_upd_same)

lemma store_exec_abs:
  "op_fresh op st \<Longrightarrow> abs_store (snd (store_exec op st)) = abs_exec op (abs_store st)"
proof (cases op)
  case (OpAdd data env)
  moreover assume "op_fresh op st"
  ultimately show ?thesis
    by (simp add: abs_store_addRegistrant Let_def case_prod_beta)
next
  case (OpUpdate i data now)
  then show ?thesis
    by (simp add: abs_store_updateRegistrant Let_def case_prod_beta)
next
  case (OpDelete i)
  then show ?thesis
    by (simp add: abs_store_deleteRegistrant Let_def case_prod_beta)
qed (simp_all add: abs_store_def getAllRegistrants_eq getRegistrantById_eq Let_def)

lemma length_filter_unique_key:
  "distinct (map f xs) \<Longrightarrow> i \<in> f ` set xs \<Longrightarrow> length (filter (\<lambda>x. f x \<noteq> i) xs) = length xs - 1"
proof (induction xs)
  case (Cons x xs)
  show ?case
  proof (cases "f x = i")
    case True
    with Cons.prems have "\<forall>y \<in> set xs. f y \<noteq> i"
      by (force simp: image_iff)
    with True show ?thesis
      by (simp add: filter_id_conv)
  next
    case False
    with Cons.prems have "i \<in> f ` set xs" and "xs \<noteq> []"
      by auto
    with False Cons.prems Cons.IH show ?thesis
      by simp
  qed
qed simp

section \<open>Properties of the store\<close>

text \<open>
  C1 (round trip). A record created with a fresh identifier is found again by
  \<open>getRegistrantById\<close>: the lookup yields exactly the record \<open>addRegistrant\<close>
  returned, which carries the submitted fields, the new identifier and the time
  stamp.
\<close>

theorem add_then_get:
  assumes fresh: "env_uuid env \<notin> reg_id ` set (stored st)"
  shows "\<exists>r. fst (addRegistrant data env st) = r \<and>
             fst (getRegistrantById (env_uuid env) (snd (addRegistrant data env st))) = Some r \<and>
             reg_id r = env_uuid env \<and> createdAt r = env_iso env \<and>
             fullName r = fd_fullName data \<and> email r = fd_email data \<and> phone r = fd_phone data \<and>
             address r = fd_address data \<and> gender r = fd_gender data \<and>
             dateOfBirth r = fd_dateOfBirth data \<and> photoData r = fd_photoData data"
proof -
  have "abs_store (snd (addRegistrant data env st)) (env_uuid env) = Some (new_registrant data env)"
    using fresh by (simp add: abs_store_addRegistrant)
  then have "fst (getRegistrantById (env_uuid env) (snd (addRegistrant data env st))) =
             Some (new_registrant data env)"
    by (simp only: getRegistrantById_eq find_reg_map abs_store_def fst_conv)
  then show ?thesis
    by (simp add: addRegistrant_eq new_registrant_def)
qed

theorem add_then_get_witness:
  "\<exists>r. fst (addRegistrant (sample_form ''Alice Smith'' ''alice@example.com'' ''5550100100'' None)
            (sample_env ''u1'' 7) empty_storage) = r \<and>
       fst (getRegistrantById ''u1'' (snd (addRegistrant (sample_form ''Alice Smith'' ''alice@example.com''
            ''5550100100'' None) (sample_env ''u1'' 7) empty_storage))) = Some r \<and>
       reg_id r = ''u1'' \<and> createdAt r = ''2025-01-01T00:00:00.000Z'' \<and>
       fullName r = ''Alice Smith'' \<and> email r = ''alice@example.com'' \<and> phone r = ''5550100100'' \<and>
       address r = ''1 Main Street'' \<and> gender r = Other \<and>
       dateOfBirth r = ''1990-04-01'' \<and> photoData r = None"
  using add_then_get [of "sample_env ''u1'' 7" empty_storage
      "sample_form ''Alice Smith'' ''alice@example.com'' ''5550100100'' None"]
  by (simp add: sample_env_def sample_form_def empty_storage_def stored_def)

text \<open>
  C2 (invariant). In every state the store reaches from an empty browser storage
  by any sequence of operations, where each \<open>crypto.randomUUID()\<close> returns an
  identifier not yet in use, the identifiers of the stored registrants are pairwise
  distinct.
\<close>

theorem store_reach_ids_distinct:
  "store_reach st \<Longrightarrow> distinct (map reg_id (stored st))"
proof (induction rule: store_reach.induct)
  case store_init
  show ?case by (simp add: empty_storage_def stored_def)
next
  case (store_step st op)
  then have "ids_distinct (snd (store_exec op st))"
    by (intro store_exec_ids_distinct) (simp_all add: ids_distinct_def)
  then show ?case
    by (simp add: ids_distinct_def)
qed

theorem store_reach_ids_distinct_witness:
  "store_reach (snd (store_exec (OpAdd (sample_form ''Bob Jones'' ''bob@example.com'' ''5550100200'' None)
                                  (sample_env ''u2'' 8))
                     (snd (store_exec (OpAdd (sample_form ''Alice Smith'' ''alice@example.com'' ''5550100100'' None)
                                  (sample_env ''u1'' 7)) empty_storage)))) \<and>
   distinct (map reg_id (stored (snd (store_exec (OpAdd (sample_form ''Bob Jones'' ''bob@example.com'' ''5550100200'' None)
                                  (sample_env ''u2'' 8))
                     (snd (store_exec (OpAdd (sample_form ''Alice Smith'' ''alice@example.com'' ''5550100100'' None)
                                  (sample_env ''u1'' 7)) empty_storage))))))"
proof -
  let ?s1 = "snd (store_exec (OpAdd (sample_form ''Alice Smith'' ''alice@example.com'' ''5550100100'' None)
                                  (sample_env ''u1'' 7)) empty_storage)"
  let ?s2 = "snd (store_exec (OpAdd (sample_form ''Bob Jones'' ''bob@example.com'' ''5550100200'' None)
                                  (sample_env ''u2'' 8)) ?s1)"
  have r1: "store_reach ?s1"
    by (rule store_step [OF store_init]) (simp add: sample_env_def empty_storage_def stored_def)
  have r2: "store_reach ?s2"
    by (rule store_step [OF r1])
      (simp add: sample_env_def empty_storage_def stored_def addRegistrant_eq new_registrant_def
        Let_def case_prod_beta)
  from r2 show ?thesis
    using store_reach_ids_distinct [OF r2] by simp
qed

text \<open>
  C3 (functional). Updating an existing record with a form whose photo is empty or
  absent keeps the stored photo data and photo path together, replaces the other
  mutable fields, and the stored record is the one returned.
\<close>

theorem update_without_photo_keeps_pair:
  assumes old: "abs_store st i = Some old" and nophoto: "\<not> js_truthy (fd_photoData data)"
  shows "\<exists>r. fst (updateRegistrant i data now st) = Some r \<and>
             abs_store (snd (updateRegistrant i data now st)) i = Some r \<and>
             photoData r = photoData old \<and> photoPath r = photoPath old \<and>
             fullName r = fd_fullName data \<and> email r = fd_email data \<and> phone r = fd_phone data \<and>
             address r = fd_address data \<and> gender r = fd_gender data \<and>
             dateOfBirth r = fd_dateOfBirth data \<and> reg_id r = i \<and> createdAt r = createdAt old"
proof -
  have "reg_id old = i"
    using old by (simp add: abs_store_def reg_map_Some_id)
  with updateRegistrant_found [OF old] nophoto show ?thesis
    by (simp add: updated_registrant_def)
qed

theorem update_without_photo_keeps_pair_witness:
  "\<exists>r. fst (updateRegistrant ''u1'' (sample_form ''Alice Brown'' ''ab@example.com'' ''5550100300'' (Some []))
            9 (snd (addRegistrant (sample_form ''Alice Smith'' ''alice@example.com'' ''5550100100''
               (Some ''data:image/png;base64,QQ=='')) (sample_env ''u1'' 7) empty_storage))) = Some r \<and>
       abs_store (snd (updateRegistrant ''u1'' (sample_form ''Alice Brown'' ''ab@example.com'' ''5550100300'' (Some []))
            9 (snd (addRegistrant (sample_form ''Alice Smith'' ''alice@example.com'' ''5550100100''
               (Some ''data:image/png;base64,QQ=='')) (sample_env ''u1'' 7) empty_storage)))) ''u1'' = Some r \<and>
       photoData r = Some ''data:image/png;base64,QQ=='' \<and> photoPath r = photo_file_name 7 \<and>
       fullName r = ''Alice Brown'' \<and> email r = ''ab@example.com'' \<and> phone r = ''5550100300'' \<and>
       address r = ''1 Main Street'' \<and> gender r = Other \<and>
       dateOfBirth r = ''1990-04-01'' \<and> reg_id r = ''u1'' \<and> createdAt r = ''2025-01-01T00:00:00.000Z''"
proof -
  let ?st = "snd (addRegistrant (sample_form ''Alice Smith'' ''alice@example.com'' ''5550100100''
               (Some ''data:image/png;base64,QQ=='')) (sample_env ''u1'' 7) empty_storage)"
  let ?old = "new_registrant (sample_form ''Alice Smith'' ''alice@example.com'' ''5550100100''
               (Some ''data:image/png;base64,QQ=='')) (sample_env ''u1'' 7)"
  have old: "abs_store ?st ''u1'' = Some ?old"
    by (simp add: abs_store_def sample_env_def)
  have np: "\<not> js_truthy (fd_photoData (sample_form ''Alice Brown'' ''ab@example.com'' ''5550100300'' (Some [])))"
    by (simp add: sample_form_def)
  show ?thesis
    using update_without_photo_keeps_pair [OF old np, of 9]
    by (simp add: new_registrant_def sample_form_def sample_env_def)
qed

text \<open>
  C4 (functional). Updating an existing record with a non-empty photo replaces the
  photo data and the photo path together: the data is the submitted one and the path
  is the freshly computed, non-empty \<open>photo_<now>.jpg\<close>.
\<close>

theorem update_with_photo_replaces_pair:
  assumes old: "abs_store st i = Some old" and photo: "fd_photoData data = Some p" "p \<noteq> []"
  shows "\<exists>r. fst (updateRegistrant i data now st) = Some r \<and>
             abs_store (snd (updateRegistrant i data now st)) i = Some r \<and>
             photoData r = Some p \<and> photoPath r = photo_file_name now \<and> photoPath r \<noteq> [] \<and>
             reg_id r = i \<and> createdAt r = createdAt old"
proof -
  have "reg_id old = i"
    using old by (simp add: abs_store_def reg_map_Some_id)
  with updateRegistrant_found [OF old] photo show ?thesis
    by (simp add: updated_registrant_def photo_file_name_def)
qed

theorem update_with_photo_replaces_pair_witness:
  "\<exists>r. fst (updateRegistrant ''u1'' (sample_form ''Alice Smith'' ''alice@example.com'' ''5550100100''
            (Some ''data:image/jpeg;base64,Qg=='')) 9
            (snd (addRegistrant (sample_form ''Alice Smith'' ''alice@example.com'' ''5550100100'' None)
              (sample_env ''u1'' 7) empty_storage))) = Some r \<and>
       abs_store (snd (updateRegistrant ''u1'' (sample_form ''Alice Smith'' ''alice@example.com'' ''5550100100''
            (Some ''data:image/jpeg;base64,Qg=='')) 9
            (snd (addRegistrant (sample_form ''Alice Smith'' ''alice@example.com'' ''5550100100'' None)
              (sample_env ''u1'' 7) empty_storage)))) ''u1'' = Some r \<and>
       photoData r = Some ''data:image/jpeg;base64,Qg=='' \<and> photoPath r = photo_file_name 9 \<and>
       photoPath r \<noteq> [] \<and> reg_id r = ''u1'' \<and> createdAt r = ''2025-01-01T00:00:00.000Z''"
proof -
  let ?st = "snd (addRegistrant (sample_form ''Alice Smith'' ''alice@example.com'' ''5550100100'' None)
              (sample_env ''u1'' 7) empty_storage)"
  let ?old = "new_registrant (sample_form ''Alice Smith'' ''alice@example.com'' ''5550100100'' None)
              (sample_env ''u1'' 7)"
  have old: "abs_store ?st ''u1'' = Some ?old"
    by (simp add: abs_store_def sample_env_def)
  have ph: "fd_photoData (sample_form ''Alice Smith'' ''alice@example.com'' ''5550100100''
            (Some ''data:image/jpeg;base64,Qg=='')) = Some ''data:image/jpeg;base64,Qg==''"
    by (simp add: sample_form_def)
  show ?thesis
    using update_with_photo_replaces_pair [OF old ph, of 9]
    by (simp add: new_registrant_def sample_env_def)
qed

text \<open>
  C5 (error). Deleting an identifier that no stored record has returns \<open>false\<close>
  and leaves the stored registrants unchanged (the only write is the lazy
  initialisation of an absent key).
\<close>

theorem delete_unknown_noop:
  assumes "i \<notin> reg_id ` set (stored st)"
  shows "deleteRegistrant i st = (False, initializeStorage st) \<and>
         stored (snd (deleteRegistrant i st)) = stored st"
  using assms by (simp add: deleteRegistrant_eq)

theorem delete_unknown_noop_witness:
  "deleteRegistrant ''nope'' (snd (addRegistrant (sample_form ''Alice Smith'' ''alice@example.com''
      ''5550100100'' None) (sample_env ''u1'' 7) empty_storage)) =
     (False, initializeStorage (snd (addRegistrant (sample_form ''Alice Smith'' ''alice@example.com''
      ''5550100100'' None) (sample_env ''u1'' 7) empty_storage))) \<and>
   stored (snd (deleteRegistrant ''nope'' (snd (addRegistrant (sample_form ''Alice Smith''
      ''alice@example.com'' ''5550100100'' None) (sample_env ''u1'' 7) empty_storage)))) =
   stored (snd (addRegistrant (sample_form ''Alice Smith'' ''alice@example.com'' ''5550100100'' None)
      (sample_env ''u1'' 7) empty_storage))"
  by (rule delete_unknown_noop) (simp add: sample_env_def)

text \<open>
  C6 (refinement). Every operation of the service implements the map contract of
  the store: read as a map from identifiers to records, the storage after the
  operation is the contract's map after the same operation, provided a created
  record's generated identifier is fresh.
\<close>

theorem store_refines_map:
  "op_fresh op st \<Longrightarrow> abs_store (snd (store_exec op st)) = abs_exec op (abs_store st)"
  by (rule store_exec_abs)

theorem store_refines_map_witness:
  "abs_store (snd (store_exec (OpDelete ''u1'') (snd (addRegistrant (sample_form ''Alice Smith''
      ''alice@example.com'' ''5550100100'' None) (sample_env ''u1'' 7) empty_storage)))) =
   abs_exec (OpDelete ''u1'') (abs_store (snd (addRegistrant (sample_form ''Alice Smith''
      ''alice@example.com'' ''5550100100'' None) (sample_env ''u1'' 7) empty_storage)))"
  by (rule store_refines_map) simp

text \<open>
  C7 (error). Updating an identifier that no stored record has returns \<open>null\<close>
  (\<open>None\<close>) and leaves the stored registrants unchanged.
\<close>

theorem update_unknown_not_found:
  assumes "i \<notin> reg_id ` set (stored st)"
  shows "fst (updateRegistrant i data now st) = None \<and>
         stored (snd (updateRegistrant i data now st)) = stored st"
proof -
  from assms have "abs_store st i = None"
    by (simp add: abs_store_None_iff)
  then show ?thesis
    by (simp add: updateRegistrant_eq)
qed

theorem update_unknown_not_found_witness:
  "fst (updateRegistrant ''nope'' (sample_form ''X Y Z'' ''x@example.com'' ''5550100999'' None) 3
        (snd (addRegistrant (sample_form ''Alice Smith'' ''alice@example.com'' ''5550100100'' None)
           (sample_env ''u1'' 7) empty_storage))) = None \<and>
   stored (snd (updateRegistrant ''nope'' (sample_form ''X Y Z'' ''x@example.com'' ''5550100999'' None) 3
        (snd (addRegistrant (sample_form ''Alice Smith'' ''alice@example.com'' ''5550100100'' None)
           (sample_env ''u1'' 7) empty_storage)))) =
   stored (snd (addRegistrant (sample_form ''Alice Smith'' ''alice@example.com'' ''5550100100'' None)
           (sample_env ''u1'' 7) empty_storage))"
  by (rule update_unknown_not_found) (simp add: sample_env_def)

text \<open>
  C8 (invariant). A record keeps its identifier and its creation time for its
  whole lifetime: after any operation of the service (with a fresh identifier for a
  creation), a record found under an identifier that was already bound has the same
  identifier and the same \<open>createdAt\<close> as before.
\<close>

theorem id_and_createdAt_immutable:
  assumes "op_fresh op st" and "abs_store st i = Some r"
    and "abs_store (snd (store_exec op st)) i = Some r'"
  shows "reg_id r' = reg_id r \<and> createdAt r' = createdAt r"
proof -
  have abs: "abs_store (snd (store_exec op st)) = abs_exec op (abs_store st)"
    using assms(1) by (rule store_exec_abs)
  have fresh_i: "env_uuid env \<noteq> i" if "op = OpAdd data env" for data env
    using assms(1,2) that abs_store_None_iff [of st i] by auto
  show ?thesis
    using assms(2,3) fresh_i unfolding abs
    by (cases op) (auto split: option.splits if_splits)
qed

theorem id_and_createdAt_immutable_witness:
  "reg_id (updated_registrant (sample_form ''Alice Brown'' ''ab@example.com'' ''5550100300'' None) 9
      (new_registrant (sample_form ''Alice Smith'' ''alice@example.com'' ''5550100100'' None)
        (sample_env ''u1'' 7))) = ''u1'' \<and>
   createdAt (updated_registrant (sample_form ''Alice Brown'' ''ab@example.com'' ''5550100300'' None) 9
      (new_registrant (sample_form ''Alice Smith'' ''alice@example.com'' ''5550100100'' None)
        (sample_env ''u1'' 7))) = ''2025-01-01T00:00:00.000Z''"
proof -
  let ?d = "sample_form ''Alice Brown'' ''ab@example.com'' ''5550100300'' None"
  let ?st = "snd (addRegistrant (sample_form ''Alice Smith'' ''alice@example.com'' ''5550100100'' None)
               (sample_env ''u1'' 7) empty_storage)"
  let ?old = "new_registrant (sample_form ''Alice Smith'' ''alice@example.com'' ''5550100100'' None)
               (sample_env ''u1'' 7)"
  have old: "abs_store ?st ''u1'' = Some ?old"
    by (simp add: abs_store_def sample_env_def)
  have new: "abs_store (snd (store_exec (OpUpdate ''u1'' ?d 9) ?st)) ''u1'' =
             Some (updated_registrant ?d 9 ?old)"
    using updateRegistrant_found(2) [OF old] by (simp add: Let_def case_prod_beta)
  have "reg_id (updated_registrant ?d 9 ?old) = reg_id ?old \<and>
        createdAt (updated_registrant ?d 9 ?old) = createdAt ?old"
    by (rule id_and_createdAt_immutable [OF _ old new]) simp
  then show ?thesis
    by (simp add: sample_env_def)
qed

text \<open>
  C9 (functional). With unique identifiers, deleting a stored identifier returns
  \<open>true\<close> and removes exactly that one record, keeping the others in their
  order.
\<close>

theorem delete_existing_removes_one:
  assumes "distinct (map reg_id (stored st))" and "i \<in> reg_id ` set (stored st)"
  shows "fst (deleteRegistrant i st) = True \<and>
         stored (snd (deleteRegistrant i st)) = filter (\<lambda>r. reg_id r \<noteq> i) (stored st) \<and>
         length (stored (snd (deleteRegistrant i st))) = length (stored st) - 1"
  using assms by (simp add: deleteRegistrant_eq length_filter_unique_key)

theorem delete_existing_removes_one_witness:
  "fst (deleteRegistrant ''u1'' (snd (addRegistrant (sample_form ''Alice Smith'' ''alice@example.com''
      ''5550100100'' None) (sample_env ''u1'' 7) empty_storage))) = True \<and>
   stored (snd (deleteRegistrant ''u1'' (snd (addRegistrant (sample_form ''Alice Smith''
      ''alice@example.com'' ''5550100100'' None) (sample_env ''u1'' 7) empty_storage)))) =
     filter (\<lambda>r. reg_id r \<noteq> ''u1'') (stored (snd (addRegistrant (sample_form ''Alice Smith''
      ''alice@example.com'' ''5550100100'' None) (sample_env ''u1'' 7) empty_storage))) \<and>
   length (stored (snd (deleteRegistrant ''u1'' (snd (addRegistrant (sample_form ''Alice Smith''
      ''alice@example.com'' ''5550100100'' None) (sample_env ''u1'' 7) empty_storage))))) =
     length (stored (snd (addRegistrant (sample_form ''Alice Smith'' ''alice@example.com''
      ''5550100100'' None) (sample_env ''u1'' 7) empty_storage))) - 1"
  by (rule delete_existing_removes_one) (simp_all add: sample_env_def)

text \<open>
  A registrant created without a
  photo gets the empty photo path and no photo data.
\<close>

theorem add_without_photo:
  assumes "fd_photoData data = None"
  shows "photoPath (fst (addRegistrant data env st)) = [] \<and>
         photoData (fst (addRegistrant data env st)) = None"
  using assms by (simp add: addRegistrant_eq new_registrant_def)

theorem add_without_photo_witness:
  "photoPath (fst (addRegistrant (sample_form ''Carol King'' ''carol@example.com'' ''5550100400'' None)
      (sample_env ''u3'' 11) empty_storage)) = [] \<and>
   photoData (fst (addRegistrant (sample_form ''Carol King'' ''carol@example.com'' ''5550100400'' None)
      (sample_env ''u3'' 11) empty_storage)) = None"
  by (rule add_without_photo) (simp add: sample_form_def)

text \<open>
  C10 (safety, a finding). \<open>addRegistrant\<close> does not check that the generated
  identifier is unused: when \<open>crypto.randomUUID()\<close> returns an identifier that is
  already stored, the store holds two records with that identifier, and a later
  \<open>deleteRegistrant\<close> of it removes both.
\<close>

theorem add_colliding_uuid_duplicates:
  assumes "env_uuid env \<in> reg_id ` set (stored st)"
  shows "\<not> distinct (map reg_id (stored (snd (addRegistrant data env st)))) \<and>
         length (stored (snd (deleteRegistrant (env_uuid env) (snd (addRegistrant data env st))))) + 2
           \<le> length (stored (snd (addRegistrant data env st)))"
proof -
  let ?rs = "stored st" and ?u = "env_uuid env"
  obtain r0 where r0: "r0 \<in> set ?rs" "reg_id r0 = ?u"
    using assms by auto
  have "length (filter (\<lambda>r. reg_id r \<noteq> ?u) ?rs) < length ?rs"
    using r0 by (auto simp: length_filter_less)
  then show ?thesis
    using assms by (auto simp: deleteRegistrant_eq)
qed

theorem add_colliding_uuid_duplicates_witness:
  "\<not> distinct (map reg_id (stored (snd (addRegistrant (sample_form ''Bob Jones'' ''bob@example.com''
      ''5550100200'' None) (sample_env ''u1'' 8) (snd (addRegistrant (sample_form ''Alice Smith''
      ''alice@example.com'' ''5550100100'' None) (sample_env ''u1'' 7) empty_storage)))))) \<and>
   length (stored (snd (deleteRegistrant ''u1'' (snd (addRegistrant (sample_form ''Bob Jones''
      ''bob@example.com'' ''5550100200'' None) (sample_env ''u1'' 8) (snd (addRegistrant
      (sample_form ''Alice Smith'' ''alice@example.com'' ''5550100100'' None) (sample_env ''u1'' 7)
      empty_storage))))))) + 2
   \<le> length (stored (snd (addRegistrant (sample_form ''Bob Jones'' ''bob@example.com'' ''5550100200'' None)
      (sample_env ''u1'' 8) (snd (addRegistrant (sample_form ''Alice Smith'' ''alice@example.com''
      ''5550100100'' None) (sample_env ''u1'' 7) empty_storage)))))"
  using add_colliding_uuid_duplicates [of "sample_env ''u1'' 8"
      "snd (addRegistrant (sample_form ''Alice Smith'' ''alice@example.com'' ''5550100100'' None)
        (sample_env ''u1'' 7) empty_storage)"
      "sample_form ''Bob Jones'' ''bob@example.com'' ''5550100200'' None"]
  by (simp add: sample_env_def)

end
