(* ===== verification/View.thy ===== *)
theory View
  imports Store
begin

text \<open>
  The query and view layer of \<open>src/src/components/AdminDashboard.tsx\<close>: the
  search filter of the effect on \<open>[searchTerm, registrants]\<close> (lines 33--47), the
  pagination arithmetic (lines 133--137), the "Showing \<open>a\<close> to \<open>b\<close> of \<open>n\<close>"
  range (lines 313--317) and the rows of the PDF export (lines 75--130). These are
  pure functions of the listing, the search term and the page index; the component
  state that holds them is in \<open>Dashboard\<close>.
\<close>

section \<open>Definitions\<close>

text \<open>One registrant against a non-blank search term: name and email case-insensitively,
  phone with the term as typed.\<close>

definition search_matches :: "string \<Rightarrow> registrant \<Rightarrow> bool" where
  "search_matches term r =
     (let lowercasedSearch = js_to_lower term
      in str_includes (js_to_lower (fullName r)) lowercasedSearch \<or>
         str_includes (js_to_lower (email r)) lowercasedSearch \<or>
         str_includes (phone r) term)"

definition filter_registrants :: "string \<Rightarrow> registrant list \<Rightarrow> registrant list" where
  "filter_registrants term rs =
     (if js_trim term = [] then rs else filter (search_matches term) rs)"

text \<open>The items of page \<open>p\<close> (counted from 1) with \<open>k\<close> items per page:
  \<open>slice(p * k - k, p * k)\<close>.\<close>

definition page_slice :: "nat \<Rightarrow> 'a list \<Rightarrow> int \<Rightarrow> 'a list" where
  "page_slice k xs p =
     (let indexOfLastItem = p * int k;
          indexOfFirstItem = indexOfLastItem - int k
      in js_slice xs indexOfFirstItem indexOfLastItem)"

definition total_pages :: "nat \<Rightarrow> 'a list \<Rightarrow> nat" where
  "total_pages k xs = ceil_div (length xs) k"

text \<open>The numbers of the "Showing \<open>a\<close> to \<open>b\<close> of \<open>n\<close> results" line.\<close>

definition showing_range :: "nat \<Rightarrow> 'a list \<Rightarrow> int \<Rightarrow> int \<times> int \<times> int" where
  "showing_range k xs p =
     (let indexOfLastItem = p * int k;
          indexOfFirstItem = indexOfLastItem - int k
      in (indexOfFirstItem + 1, min indexOfLastItem (int (length xs)), int (length xs)))"

text \<open>A row of the exported table: the image cell (empty when the record has no
  photo) and the text cells, the date formatted by the locale's \<open>fmt\<close>.\<close>

definition pdf_row :: "(string \<Rightarrow> string) \<Rightarrow> registrant \<Rightarrow> string \<times> string list" where
  "pdf_row fmt r =
     ((if js_truthy (photoData r) then the (photoData r) else []),
      [fullName r, email r, phone r, gender_name (gender r), fmt (dateOfBirth r)])"

definition pdf_rows :: "(string \<Rightarrow> string) \<Rightarrow> registrant list \<Rightarrow> (string \<times> string list) list" where
  "pdf_rows fmt filtered = map (pdf_row fmt) filtered"

section \<open>Lemmas\<close>

lemma page_slice_Suc:
  "page_slice k xs (1 + int n) = take k (drop (n * k) xs)"
proof -
  have first: "(1 + int n) * int k - int k = int (n * k)"
    and last: "(1 + int n) * int k = int (n * k + k)"
    by (simp_all add: algebra_simps)
  have "page_slice k xs (1 + int n) = js_slice xs ((1 + int n) * int k - int k) ((1 + int n) * int k)"
    by (simp only: page_slice_def Let_def)
  also have "\<dots> = js_slice xs (int (n * k)) (int (n * k + k))"
    by (subst first, subst last) (rule refl)
  also have "\<dots> = take (nat (int (n * k + k)) - nat (int (n * k))) (drop (nat (int (n * k))) xs)"
    by (rule js_slice_nonneg) simp_all
  also have "\<dots> = take k (drop (n * k) xs)"
    by (simp only: nat_int add_diff_cancel_left')
  finally show ?thesis .
qed

lemma concat_pages_take:
  "concat (map (\<lambda>i. take k (drop (i * k) xs)) [0..<m]) = take (m * k) xs"
proof (induction m)
  case (Suc m)
  have "take (Suc m * k) xs = take (m * k) xs @ take k (drop (m * k) xs)"
    by (metis add.commute mult_Suc take_add)
  with Suc show ?case by simp
qed simp

lemma pages_as_indices:
  "map (\<lambda>p. page_slice k xs (int p)) [1..<Suc m] = map (\<lambda>i. take k (drop (i * k) xs)) [0..<m]"
proof -
  have "[1..<Suc m] = map Suc [0..<m]"
    by (simp add: map_Suc_upt)
  then show ?thesis
    by (simp add: page_slice_Suc)
qed

lemma filter_registrants_subset: "set (filter_registrants t rs) \<subseteq> set rs"
  by (auto simp: filter_registrants_def)

lemma name_match_search: "str_includes (js_to_lower (fullName r)) (js_to_lower t) \<Longrightarrow> search_matches t r"
  by (simp add: search_matches_def)

lemma page_index_Suc:
  assumes "1 \<le> p"
  obtains n where "p = 1 + int n"
proof
  show "p = 1 + int (nat (p - 1))"
    using assms by simp
qed

lemma page_slice_length:
  assumes k: "0 < k" and p: "1 \<le> p" "p \<le> int (total_pages k xs)"
  shows "0 < length (page_slice k xs p) \<and> length (page_slice k xs p) \<le> k"
proof -
  obtain n where n: "p = 1 + int n"
    using p(1) by (rule page_index_Suc)
  let ?t = "total_pages k xs"
  have "Suc n \<le> ?t"
    using p(2) n by simp
  moreover have "?t * k < length xs + k"
    using ceil_div_bounds(1) [OF k] by (simp add: total_pages_def)
  ultimately have "Suc n * k < length xs + k"
    by (meson le_less_trans mult_le_mono1)
  then have "n * k < length xs"
    by simp
  then show ?thesis
    using k n by (simp add: page_slice_Suc)
qed

lemma page_slice_last:
  assumes k: "0 < k" and ne: "xs \<noteq> []"
  shows "length (page_slice k xs (int (total_pages k xs))) = length xs - k * (total_pages k xs - 1)"
proof -
  let ?t = "total_pages k xs"
  have "length xs \<le> ?t * k"
    using ceil_div_bounds(2) [OF k] by (simp add: total_pages_def)
  moreover have "0 < length xs"
    using ne by simp
  ultimately have "0 < ?t"
    by (metis less_le_trans mult_is_0 not_gr0)
  then obtain n where n: "?t = Suc n"
    using gr0_implies_Suc by blast
  have "length xs \<le> ?t * k"
    using ceil_div_bounds(2) [OF k] by (simp add: total_pages_def)
  then have "length xs - n * k \<le> k"
    using n by simp
  then show ?thesis
    using n by (simp add: page_slice_Suc [of k xs n, simplified] algebra_simps)
qed

section \<open>Properties of the view\<close>

text \<open>
  C15 (functional). The pages partition the filtered listing: with a positive page
  size, the slices of pages \<open>1 .. totalPages\<close> concatenated in order give the
  listing back, so every result is shown on exactly one page and none is lost.
\<close>

theorem pages_partition_listing:
  assumes "0 < k"
  shows "concat (map (\<lambda>p. page_slice k xs (int p)) [1..<Suc (total_pages k xs)]) = xs"
proof -
  have "length xs \<le> total_pages k xs * k"
    using ceil_div_bounds(2) [OF assms] by (simp add: total_pages_def)
  then show ?thesis
    by (simp only: pages_as_indices concat_pages_take take_all)
qed

theorem pages_partition_listing_witness:
  "concat (map (\<lambda>p. page_slice 5 [1..<13::nat] (int p)) [1..<Suc (total_pages 5 [1..<13::nat])]) = [1..<13]"
  by (rule pages_partition_listing) simp

text \<open>
  C16 (bounds). For \<open>N\<close> results and page size \<open>K > 0\<close> the page count is
  \<open>Math.ceil(N / K)\<close>, every page from 1 to the last holds between 1 and \<open>K\<close>
  items, and the last page holds \<open>N - K * (totalPages - 1)\<close>.
\<close>

theorem pagination_bounds:
  assumes "0 < k"
  shows "int (total_pages k xs) = \<lceil>real (length xs) / real k\<rceil> \<and>
         (\<forall>p. 1 \<le> p \<and> p \<le> int (total_pages k xs) \<longrightarrow>
              0 < length (page_slice k xs p) \<and> length (page_slice k xs p) \<le> k) \<and>
         (xs \<noteq> [] \<longrightarrow>
              length (page_slice k xs (int (total_pages k xs))) = length xs - k * (total_pages k xs - 1))"
proof -
  have "int (total_pages k xs) = \<lceil>real (length xs) / real k\<rceil>"
    by (simp add: total_pages_def ceil_div_real [OF assms])
  moreover have "\<forall>p. 1 \<le> p \<and> p \<le> int (total_pages k xs) \<longrightarrow>
              0 < length (page_slice k xs p) \<and> length (page_slice k xs p) \<le> k"
    using page_slice_length [OF assms] by blast
  moreover have "xs \<noteq> [] \<longrightarrow>
              length (page_slice k xs (int (total_pages k xs))) = length xs - k * (total_pages k xs - 1)"
    using page_slice_last [OF assms] by blast
  ultimately show ?thesis
    by blast
qed

theorem pagination_bounds_witness:
  "int (total_pages 5 [1..<13::nat]) = \<lceil>real (12::nat) / real (5::nat)\<rceil> \<and>
   0 < length (page_slice 5 [1..<13::nat] 2) \<and> length (page_slice 5 [1..<13::nat] 2) \<le> 5 \<and>
   length (page_slice 5 [1..<13::nat] 3) = 12 - 5 * (3 - 1)"
proof -
  have t: "total_pages 5 [1..<13::nat] = 3"
    by (simp add: total_pages_def ceil_div_def)
  have "int (total_pages 5 [1..<13::nat]) = \<lceil>real (length [1..<13::nat]) / real (5::nat)\<rceil> \<and>
        (\<forall>p. 1 \<le> p \<and> p \<le> int (total_pages 5 [1..<13::nat]) \<longrightarrow>
           0 < length (page_slice 5 [1..<13::nat] p) \<and> length (page_slice 5 [1..<13::nat] p) \<le> 5) \<and>
        ([1..<13::nat] \<noteq> [] \<longrightarrow>
           length (page_slice 5 [1..<13::nat] (int (total_pages 5 [1..<13::nat]))) =
           length [1..<13::nat] - 5 * (total_pages 5 [1..<13::nat] - 1))"
    by (rule pagination_bounds) simp
  then show ?thesis
    unfolding t by auto
qed

text \<open>
  Search finds by name: a listed registrant whose lower-cased name
  contains the lower-cased term is in the filtered view, whatever the term (a blank
  term keeps everything).
\<close>

theorem search_finds_name_match:
  assumes "r \<in> set rs" and "str_includes (js_to_lower (fullName r)) (js_to_lower t)"
  shows "r \<in> set (filter_registrants t rs)"
  using assms by (simp add: filter_registrants_def name_match_search)

theorem search_finds_name_match_witness:
  "new_registrant (sample_form ''Alice Smith'' ''a@example.com'' ''5550100100'' None) (sample_env ''u1'' 1)
     \<in> set (filter_registrants ''ALICE''
        [new_registrant (sample_form ''Alice Smith'' ''a@example.com'' ''5550100100'' None) (sample_env ''u1'' 1)])"
  by (rule search_finds_name_match)
    (simp_all add: new_registrant_def sample_form_def to_lower_char_def)

text \<open>
  A term that matches no registrant's name, email or phone gives
  an empty view, and a blank term (only white space) gives the whole listing; in
  every case the view keeps the listing's order.
\<close>

theorem search_no_match_or_blank:
  "(js_trim t \<noteq> [] \<and> (\<forall>r \<in> set rs. \<not> search_matches t r) \<longrightarrow> filter_registrants t rs = []) \<and>
   (js_trim t = [] \<longrightarrow> filter_registrants t rs = rs) \<and>
   subseq (filter_registrants t rs) rs"
  by (simp add: filter_registrants_def filter_empty_conv)

theorem search_no_match_or_blank_witness:
  "filter_registrants ''zed'' [new_registrant (sample_form ''Alice Smith'' ''a@example.com'' ''5550100100'' None)
      (sample_env ''u1'' 1)] = [] \<and>
   filter_registrants ''  '' [new_registrant (sample_form ''Alice Smith'' ''a@example.com'' ''5550100100'' None)
      (sample_env ''u1'' 1)] =
     [new_registrant (sample_form ''Alice Smith'' ''a@example.com'' ''5550100100'' None) (sample_env ''u1'' 1)] \<and>
   subseq (filter_registrants ''zed'' [new_registrant (sample_form ''Alice Smith'' ''a@example.com''
     ''5550100100'' None) (sample_env ''u1'' 1)])
     [new_registrant (sample_form ''Alice Smith'' ''a@example.com'' ''5550100100'' None) (sample_env ''u1'' 1)]"
proof -
  let ?rs = "[new_registrant (sample_form ''Alice Smith'' ''a@example.com'' ''5550100100'' None)
      (sample_env ''u1'' 1)]"
  have nm: "js_trim ''zed'' \<noteq> [] \<and> (\<forall>r \<in> set ?rs. \<not> search_matches ''zed'' r)"
    by (simp add: js_trim_def is_js_space_def search_matches_def new_registrant_def sample_form_def
        sample_env_def to_lower_char_def)
  have bl: "js_trim ''  '' = []"
    by (simp add: js_trim_def is_js_space_def)
  show ?thesis
    using search_no_match_or_blank [of "''zed''" ?rs] search_no_match_or_blank [of "''  ''" ?rs] nm bl
    by blast
qed

end
