(* ===== verification/Dashboard.thy ===== *)
theory Dashboard
  imports View
begin

text \<open>
  The administration dashboard, \<open>src/src/components/AdminDashboard.tsx\<close>, as a
  state machine over its React state and the storage. Each handler is one
  definition; a user event is admitted only when the JSX renders the control that
  raises it and does not disable it (\<open>dashboard_step\<close>). React batches the state
  updates of one handler; the effect on \<open>[searchTerm, registrants]\<close> then runs
  when one of them changed. \<open>loadRegistrants\<close> always stores a fresh array from
  \<open>JSON.parse\<close>, so the effect runs after every load; a search input that
  leaves the term unchanged triggers nothing.
\<close>

section \<open>Definitions\<close>

record dashboard =
  registrants :: "registrant list"
  filteredRegistrants :: "registrant list"
  isLoading :: bool
  searchTerm :: string
  deleteConfirm :: "string option"
  currentPage :: int
  itemsPerPage :: nat

definition dashboard_initial :: dashboard where
  "dashboard_initial =
     \<lparr>registrants = [], filteredRegistrants = [], isLoading = True, searchTerm = [],
      deleteConfirm = None, currentPage = 1, itemsPerPage = 5\<rparr>"

definition currentItems :: "dashboard \<Rightarrow> registrant list" where
  "currentItems d = page_slice (itemsPerPage d) (filteredRegistrants d) (currentPage d)"

definition totalPages :: "dashboard \<Rightarrow> nat" where
  "totalPages d = total_pages (itemsPerPage d) (filteredRegistrants d)"

text \<open>The effect on \<open>[searchTerm, registrants]\<close> (lines 33--47).\<close>

definition search_effect :: "dashboard \<Rightarrow> dashboard" where
  "search_effect d =
     d\<lparr>filteredRegistrants := filter_registrants (searchTerm d) (registrants d), currentPage := 1\<rparr>"

text \<open>\<open>loadRegistrants\<close> (lines 49--60): \<open>setIsLoading(true)\<close>, the read, both
  lists set to the data, \<open>setIsLoading(false)\<close>; batched, only the last loading flag
  is seen.\<close>

definition loadRegistrants :: "dashboard \<times> local_storage \<Rightarrow> dashboard \<times> local_storage" where
  "loadRegistrants s =
     (let (d, st) = s; (data, st') = getAllRegistrants st
      in (d\<lparr>isLoading := False, registrants := data, filteredRegistrants := data\<rparr>, st'))"

text \<open>Mounting (lines 29--47): both effects run after the first render, the search
  effect with the initial values; the fresh \<open>registrants\<close> then make it run again.\<close>

definition dashboard_mount :: "local_storage \<Rightarrow> dashboard \<times> local_storage" where
  "dashboard_mount st =
     (let (d1, st') = loadRegistrants (dashboard_initial, st);
          d2 = d1\<lparr>filteredRegistrants :=
                    filter_registrants (searchTerm dashboard_initial) (registrants dashboard_initial),
                  currentPage := 1\<rparr>
      in (search_effect d2, st'))"

definition handleDelete :: "string \<Rightarrow> dashboard \<times> local_storage \<Rightarrow> dashboard \<times> local_storage" where
  "handleDelete i s =
     (let (d, st) = s
      in if deleteConfirm d = Some i
         then (let st1 = snd (deleteRegistrant i st);
                   (d1, st2) = loadRegistrants (d, st1)
               in (search_effect (d1\<lparr>deleteConfirm := None\<rparr>), st2))
         else (d\<lparr>deleteConfirm := Some i\<rparr>, st))"

definition cancelDelete :: "dashboard \<Rightarrow> dashboard" where
  "cancelDelete d = d\<lparr>deleteConfirm := None\<rparr>"

definition paginate :: "int \<Rightarrow> dashboard \<Rightarrow> dashboard" where
  "paginate pageNumber d = d\<lparr>currentPage := pageNumber\<rparr>"

text \<open>The search box's \<open>onChange\<close> (line 167) and the effect it triggers.\<close>

definition setSearchTerm :: "string \<Rightarrow> dashboard \<Rightarrow> dashboard" where
  "setSearchTerm v d = (if v = searchTerm d then d else search_effect (d\<lparr>searchTerm := v\<rparr>))"

text \<open>What the JSX renders (lines 172--184 and 284).\<close>

definition table_shown :: "dashboard \<Rightarrow> bool" where
  "table_shown d = (\<not> isLoading d \<and> registrants d \<noteq> [] \<and> filteredRegistrants d \<noteq> [])"

definition pagination_shown :: "dashboard \<Rightarrow> bool" where
  "pagination_shown d = (table_shown d \<and> 1 < totalPages d)"

datatype dashboard_event =
    SearchInput string
  | DeleteClick string
  | CancelClick
  | PrevClick
  | NextClick
  | PageClick nat

fun dashboard_step :: "dashboard_event \<Rightarrow> dashboard \<times> local_storage \<Rightarrow> dashboard \<times> local_storage" where
  "dashboard_step (SearchInput v) (d, st) = (setSearchTerm v d, st)"
| "dashboard_step (DeleteClick i) (d, st) =
     (if table_shown d \<and> i \<in> set (map reg_id (currentItems d)) then handleDelete i (d, st) else (d, st))"
| "dashboard_step CancelClick (d, st) =
     (case deleteConfirm d of
        Some i \<Rightarrow> if table_shown d \<and> i \<in> set (map reg_id (currentItems d)) then (cancelDelete d, st) else (d, st)
      | None \<Rightarrow> (d, st))"
| "dashboard_step PrevClick (d, st) =
     (if pagination_shown d \<and> currentPage d \<noteq> 1
      then (paginate (max 1 (currentPage d - 1)) d, st) else (d, st))"
| "dashboard_step NextClick (d, st) =
     (if pagination_shown d \<and> currentPage d \<noteq> int (totalPages d)
      then (paginate (min (int (totalPages d)) (currentPage d + 1)) d, st) else (d, st))"
| "dashboard_step (PageClick k) (d, st) =
     (if pagination_shown d \<and> k < totalPages d then (paginate (int k + 1) d, st) else (d, st))"

inductive dash_reach :: "dashboard \<times> local_storage \<Rightarrow> bool" where
  dash_mount: "dash_reach (dashboard_mount st)"
| dash_event: "dash_reach s \<Longrightarrow> dash_reach (dashboard_step e s)"

text \<open>The invariant of the mounted dashboard: the constant page size, the filtered
  list agreeing with the search term, the page index within \<open>[1, max 1 totalPages]\<close>,
  and the listing equal to what the store holds.\<close>

definition dashboard_inv :: "dashboard \<times> local_storage \<Rightarrow> bool" where
  "dashboard_inv s =
     (let (d, st) = s
      in itemsPerPage d = 5 \<and>
         filteredRegistrants d = filter_registrants (searchTerm d) (registrants d) \<and>
         1 \<le> currentPage d \<and> currentPage d \<le> max 1 (int (totalPages d)) \<and>
         registrants d = stored st)"

text \<open>React's rule for an effect: after a render it runs again exactly when the
  values of its dependency list differ from those of its last run. \<open>effect_cycle\<close>
  runs renders and effects with at most \<open>n\<close> rounds, \<open>None\<close> when the rounds run
  out before the dependencies settle.\<close>

fun effect_cycle :: "nat \<Rightarrow> ('s \<Rightarrow> 'k) \<Rightarrow> ('s \<Rightarrow> 's) \<Rightarrow> 'k option \<Rightarrow> 's \<Rightarrow> 's option" where
  "effect_cycle 0 deps eff prev s = None"
| "effect_cycle (Suc n) deps eff prev s =
     (if prev = Some (deps s) then Some s else effect_cycle n deps eff (Some (deps s)) (eff s))"

text \<open>The dependency list \<open>[searchTerm, registrants]\<close> of the search effect (line 47).\<close>

definition search_deps :: "dashboard \<Rightarrow> string \<times> registrant list" where
  "search_deps d = (searchTerm d, registrants d)"

section \<open>Lemmas\<close>

lemma loadRegistrants_eq [view_simps]:
  "loadRegistrants (d, st) =
     (d\<lparr>isLoading := False, registrants := stored st, filteredRegistrants := stored st\<rparr>,
      initializeStorage st)"
  by (simp add: loadRegistrants_def getAllRegistrants_eq)

lemma search_effect_fields [simp]:
  "registrants (search_effect d) = registrants d"
  "itemsPerPage (search_effect d) = itemsPerPage d"
  "searchTerm (search_effect d) = searchTerm d"
  "currentPage (search_effect d) = 1"
  "filteredRegistrants (search_effect d) = filter_registrants (searchTerm d) (registrants d)"
  "deleteConfirm (search_effect d) = deleteConfirm d"
  "isLoading (search_effect d) = isLoading d"
  by (simp_all add: search_effect_def)

lemma stored_deleteRegistrant_snd_init [simp]:
  "stored (initializeStorage (snd (deleteRegistrant i st))) = stored (snd (deleteRegistrant i st))"
  by simp

lemma handleDelete_confirmed [view_simps]:
  "deleteConfirm d = Some i \<Longrightarrow>
   handleDelete i (d, st) =
     (search_effect (d\<lparr>isLoading := False, registrants := stored (snd (deleteRegistrant i st)),
        filteredRegistrants := stored (snd (deleteRegistrant i st)), deleteConfirm := None\<rparr>),
      initializeStorage (snd (deleteRegistrant i st)))"
  by (simp add: handleDelete_def loadRegistrants_eq Let_def)

lemma handleDelete_arm [view_simps]:
  "deleteConfirm d \<noteq> Some i \<Longrightarrow> handleDelete i (d, st) = (d\<lparr>deleteConfirm := Some i\<rparr>, st)"
  by (simp add: handleDelete_def)

lemma dashboard_inv_iff:
  "dashboard_inv (d, st) \<longleftrightarrow>
     itemsPerPage d = 5 \<and> filteredRegistrants d = filter_registrants (searchTerm d) (registrants d) \<and>
     1 \<le> currentPage d \<and> currentPage d \<le> max 1 (int (totalPages d)) \<and> registrants d = stored st"
  by (simp add: dashboard_inv_def)

lemma inv_search_effect:
  "itemsPerPage d = 5 \<Longrightarrow> registrants d = stored st \<Longrightarrow> dashboard_inv (search_effect d, st)"
  by (simp add: dashboard_inv_iff)

lemma inv_mount: "dashboard_inv (dashboard_mount st)"
  by (simp add: dashboard_mount_def loadRegistrants_eq dashboard_initial_def inv_search_effect)

lemma inv_setSearchTerm: "dashboard_inv (d, st) \<Longrightarrow> dashboard_inv (setSearchTerm v d, st)"
  by (simp add: setSearchTerm_def inv_search_effect dashboard_inv_iff)

lemma inv_handleDelete: "dashboard_inv (d, st) \<Longrightarrow> dashboard_inv (handleDelete i (d, st))"
proof (cases "deleteConfirm d = Some i")
  case True
  assume "dashboard_inv (d, st)"
  then show ?thesis
    using True by (simp add: handleDelete_confirmed inv_search_effect dashboard_inv_iff)
next
  case False
  assume "dashboard_inv (d, st)"
  then show ?thesis
    using False by (auto simp: handleDelete_arm dashboard_inv_iff totalPages_def)
qed

lemma inv_paginate:
  "dashboard_inv (d, st) \<Longrightarrow> 1 \<le> q \<Longrightarrow> q \<le> max 1 (int (totalPages d)) \<Longrightarrow>
   dashboard_inv (paginate q d, st)"
  by (auto simp: paginate_def dashboard_inv_iff totalPages_def)

lemma inv_step: "dashboard_inv s \<Longrightarrow> dashboard_inv (dashboard_step e s)"
proof (cases s)
  case (Pair d st)
  assume inv: "dashboard_inv s"
  with Pair have inv': "dashboard_inv (d, st)" by simp
  then have p: "1 \<le> currentPage d" "currentPage d \<le> max 1 (int (totalPages d))"
    by (simp_all add: dashboard_inv_iff)
  show ?thesis
  proof (cases e)
    case (SearchInput v)
    with Pair inv' show ?thesis by (simp add: inv_setSearchTerm)
  next
    case (DeleteClick i)
    with Pair inv' show ?thesis by (simp add: inv_handleDelete)
  next
    case CancelClick
    with Pair inv' show ?thesis
      by (auto simp: cancelDelete_def dashboard_inv_iff totalPages_def split: option.splits)
  next
    case PrevClick
    with Pair inv' p show ?thesis by (simp add: inv_paginate)
  next
    case NextClick
    with Pair inv' p show ?thesis by (auto simp: inv_paginate pagination_shown_def)
  next
    case (PageClick k)
    with Pair inv' show ?thesis by (simp add: inv_paginate)
  qed
qed

lemma dash_reach_inv: "dash_reach s \<Longrightarrow> dashboard_inv s"
  by (induction rule: dash_reach.induct) (simp_all add: inv_mount inv_step)

lemma currentItems_bounds:
  assumes "dashboard_inv (d, st)" and "filteredRegistrants d \<noteq> []"
  shows "currentItems d \<noteq> [] \<and> length (currentItems d) \<le> 5"
proof -
  from assms(1) have k: "itemsPerPage d = 5" and p1: "1 \<le> currentPage d"
    and p2: "currentPage d \<le> max 1 (int (totalPages d))"
    by (simp_all add: dashboard_inv_iff)
  have "length (filteredRegistrants d) \<le> totalPages d * 5"
    using ceil_div_bounds(2) [of 5 "length (filteredRegistrants d)"] k
    by (simp add: totalPages_def total_pages_def)
  with assms(2) have "1 \<le> totalPages d"
    by (cases "totalPages d") auto
  with p2 have "currentPage d \<le> int (total_pages 5 (filteredRegistrants d))"
    using k by (simp add: totalPages_def)
  with p1 show ?thesis
    using page_slice_length [of 5 "currentPage d" "filteredRegistrants d"] k
    by (simp add: currentItems_def)
qed

section \<open>Properties of the dashboard\<close>

text \<open>
  C18 (invariant). In every state the mounted dashboard reaches by user events, the
  page size is 5, the filtered list is the search filter of the listing, the page
  index lies in \<open>[1, max 1 totalPages]\<close>, and the listing is what the store holds.
\<close>

theorem dashboard_reachable_invariant:
  assumes "dash_reach (d, st)"
  shows "itemsPerPage d = 5 \<and> filteredRegistrants d = filter_registrants (searchTerm d) (registrants d) \<and>
         1 \<le> currentPage d \<and> currentPage d \<le> max 1 (int (totalPages d)) \<and> registrants d = stored st"
  using dash_reach_inv [OF assms] by (simp add: dashboard_inv_iff)

theorem dashboard_reachable_invariant_witness:
  "itemsPerPage (fst (dashboard_step NextClick (dashboard_mount empty_storage))) = 5 \<and>
   filteredRegistrants (fst (dashboard_step NextClick (dashboard_mount empty_storage))) =
     filter_registrants (searchTerm (fst (dashboard_step NextClick (dashboard_mount empty_storage))))
       (registrants (fst (dashboard_step NextClick (dashboard_mount empty_storage)))) \<and>
   1 \<le> currentPage (fst (dashboard_step NextClick (dashboard_mount empty_storage))) \<and>
   currentPage (fst (dashboard_step NextClick (dashboard_mount empty_storage)))
     \<le> max 1 (int (totalPages (fst (dashboard_step NextClick (dashboard_mount empty_storage))))) \<and>
   registrants (fst (dashboard_step NextClick (dashboard_mount empty_storage))) =
     stored (snd (dashboard_step NextClick (dashboard_mount empty_storage)))"
proof -
  have r: "dash_reach (dashboard_step NextClick (dashboard_mount empty_storage))"
    by (rule dash_event [OF dash_mount])
  show ?thesis
    using dashboard_reachable_invariant [of "fst (dashboard_step NextClick (dashboard_mount empty_storage))"
        "snd (dashboard_step NextClick (dashboard_mount empty_storage))"] r
    by simp
qed

text \<open>
  Whenever the dashboard has results to show, the page it shows is not
  empty and holds at most five registrants.
\<close>

theorem dashboard_page_nonempty:
  assumes "dash_reach (d, st)" and "filteredRegistrants d \<noteq> []"
  shows "currentItems d \<noteq> [] \<and> length (currentItems d) \<le> 5"
  using currentItems_bounds [OF dash_reach_inv [OF assms(1)] assms(2)] .

theorem dashboard_page_nonempty_witness:
  "currentItems (fst (dashboard_mount (snd (addRegistrant (sample_form ''Alice Smith'' ''a@example.com''
      ''5550100100'' None) (sample_env ''u1'' 1) empty_storage)))) \<noteq> [] \<and>
   length (currentItems (fst (dashboard_mount (snd (addRegistrant (sample_form ''Alice Smith''
      ''a@example.com'' ''5550100100'' None) (sample_env ''u1'' 1) empty_storage))))) \<le> 5"
proof (rule dashboard_page_nonempty)
  show "dash_reach (fst (dashboard_mount (snd (addRegistrant (sample_form ''Alice Smith'' ''a@example.com''
      ''5550100100'' None) (sample_env ''u1'' 1) empty_storage))),
      snd (dashboard_mount (snd (addRegistrant (sample_form ''Alice Smith'' ''a@example.com''
      ''5550100100'' None) (sample_env ''u1'' 1) empty_storage))))"
    using dash_mount by simp
  show "filteredRegistrants (fst (dashboard_mount (snd (addRegistrant (sample_form ''Alice Smith''
      ''a@example.com'' ''5550100100'' None) (sample_env ''u1'' 1) empty_storage)))) \<noteq> []"
    by (simp add: dashboard_mount_def loadRegistrants_eq dashboard_initial_def filter_registrants_def
        js_trim_def)
qed

text \<open>
  C19 (safety). Deleting from the dashboard takes two clicks on the same row: the
  first only arms the confirmation and writes nothing; the second deletes the
  registrant from the store, reloads the listing from the store, clears the
  confirmation and returns to page 1.
\<close>

theorem delete_needs_confirmation:
  assumes "table_shown d" and "i \<in> set (map reg_id (currentItems d))" and "deleteConfirm d \<noteq> Some i"
  shows "snd (dashboard_step (DeleteClick i) (d, st)) = st \<and>
         deleteConfirm (fst (dashboard_step (DeleteClick i) (d, st))) = Some i \<and>
         registrants (fst (dashboard_step (DeleteClick i) (d, st))) = registrants d \<and>
         i \<notin> reg_id ` set (stored (snd (dashboard_step (DeleteClick i) (dashboard_step (DeleteClick i) (d, st))))) \<and>
         registrants (fst (dashboard_step (DeleteClick i) (dashboard_step (DeleteClick i) (d, st)))) =
           stored (snd (dashboard_step (DeleteClick i) (dashboard_step (DeleteClick i) (d, st)))) \<and>
         deleteConfirm (fst (dashboard_step (DeleteClick i) (dashboard_step (DeleteClick i) (d, st)))) = None \<and>
         currentPage (fst (dashboard_step (DeleteClick i) (dashboard_step (DeleteClick i) (d, st)))) = 1"
proof -
  let ?d1 = "d\<lparr>deleteConfirm := Some i\<rparr>"
  have s1: "dashboard_step (DeleteClick i) (d, st) = (?d1, st)"
    using assms by (simp add: handleDelete_arm)
  have "table_shown ?d1" and "i \<in> set (map reg_id (currentItems ?d1))"
    using assms(1,2) by (simp_all add: table_shown_def currentItems_def)
  then have s2: "dashboard_step (DeleteClick i) (?d1, st) = handleDelete i (?d1, st)"
    by simp
  have gone: "i \<notin> reg_id ` set (stored (snd (deleteRegistrant i st)))"
    by (auto simp: deleteRegistrant_eq)
  show ?thesis
    unfolding s1 s2 using gone by (simp add: handleDelete_confirmed)
qed

theorem delete_needs_confirmation_witness:
  "snd (dashboard_step (DeleteClick ''u1'') (dashboard_mount (snd (addRegistrant (sample_form ''Alice Smith''
      ''a@example.com'' ''5550100100'' None) (sample_env ''u1'' 1) empty_storage)))) =
     snd (dashboard_mount (snd (addRegistrant (sample_form ''Alice Smith'' ''a@example.com'' ''5550100100'' None)
      (sample_env ''u1'' 1) empty_storage))) \<and>
   deleteConfirm (fst (dashboard_step (DeleteClick ''u1'') (dashboard_mount (snd (addRegistrant
      (sample_form ''Alice Smith'' ''a@example.com'' ''5550100100'' None) (sample_env ''u1'' 1) empty_storage))))) =
     Some ''u1'' \<and>
   registrants (fst (dashboard_step (DeleteClick ''u1'') (dashboard_mount (snd (addRegistrant
      (sample_form ''Alice Smith'' ''a@example.com'' ''5550100100'' None) (sample_env ''u1'' 1) empty_storage))))) =
     registrants (fst (dashboard_mount (snd (addRegistrant (sample_form ''Alice Smith'' ''a@example.com''
      ''5550100100'' None) (sample_env ''u1'' 1) empty_storage)))) \<and>
   ''u1'' \<notin> reg_id ` set (stored (snd (dashboard_step (DeleteClick ''u1'') (dashboard_step (DeleteClick ''u1'')
      (dashboard_mount (snd (addRegistrant (sample_form ''Alice Smith'' ''a@example.com'' ''5550100100'' None)
      (sample_env ''u1'' 1) empty_storage))))))) \<and>
   registrants (fst (dashboard_step (DeleteClick ''u1'') (dashboard_step (DeleteClick ''u1'')
      (dashboard_mount (snd (addRegistrant (sample_form ''Alice Smith'' ''a@example.com'' ''5550100100'' None)
      (sample_env ''u1'' 1) empty_storage)))))) =
     stored (snd (dashboard_step (DeleteClick ''u1'') (dashboard_step (DeleteClick ''u1'')
      (dashboard_mount (snd (addRegistrant (sample_form ''Alice Smith'' ''a@example.com'' ''5550100100'' None)
      (sample_env ''u1'' 1) empty_storage)))))) \<and>
   deleteConfirm (fst (dashboard_step (DeleteClick ''u1'') (dashboard_step (DeleteClick ''u1'')
      (dashboard_mount (snd (addRegistrant (sample_form ''Alice Smith'' ''a@example.com'' ''5550100100'' None)
      (sample_env ''u1'' 1) empty_storage)))))) = None \<and>
   currentPage (fst (dashboard_step (DeleteClick ''u1'') (dashboard_step (DeleteClick ''u1'')
      (dashboard_mount (snd (addRegistrant (sample_form ''Alice Smith'' ''a@example.com'' ''5550100100'' None)
      (sample_env ''u1'' 1) empty_storage)))))) = 1"
proof -
  let ?s = "dashboard_mount (snd (addRegistrant (sample_form ''Alice Smith'' ''a@example.com'' ''5550100100'' None)
      (sample_env ''u1'' 1) empty_storage))"
  obtain d0 st0 where m: "?s = (d0, st0)"
    by (cases ?s)
  then have d0: "d0 = fst ?s"
    by simp
  have "table_shown d0" and "''u1'' \<in> set (map reg_id (currentItems d0))"
    and "deleteConfirm d0 \<noteq> Some ''u1''"
    unfolding d0
    by (simp_all add: dashboard_mount_def loadRegistrants_eq dashboard_initial_def filter_registrants_def
        js_trim_def table_shown_def currentItems_def page_slice_def js_slice_def sample_env_def)
  note facts = this
  show ?thesis
    unfolding m fst_conv snd_conv by (rule delete_needs_confirmation [OF facts])
qed

text \<open>
  Typing a different search term filters the listing by the new
  term and resets the page index to 1, without touching the store.
\<close>

theorem search_input_resets_page:
  assumes "v \<noteq> searchTerm d"
  shows "dashboard_step (SearchInput v) (d, st) =
           (d\<lparr>searchTerm := v, filteredRegistrants := filter_registrants v (registrants d), currentPage := 1\<rparr>, st)"
  using assms by (simp add: setSearchTerm_def search_effect_def)

theorem search_input_resets_page_witness:
  "dashboard_step (SearchInput ''bob'') (dashboard_initial, empty_storage) =
     (dashboard_initial\<lparr>searchTerm := ''bob'', filteredRegistrants := filter_registrants ''bob'' [],
        currentPage := 1\<rparr>, empty_storage)"
  using search_input_resets_page [of "''bob''" dashboard_initial empty_storage]
  by (simp add: dashboard_initial_def)

text \<open>
  C17 (termination). The search effect writes only state outside its own
  dependency list, so the render--effect cycle it starts ends after one run: with
  two rounds it always settles, on the filtered first page or, when the
  dependencies did not change, on the state as it was, and more rounds give the
  same state.
\<close>

theorem search_effect_cycle_ends:
  assumes "2 \<le> n"
  shows "effect_cycle n search_deps search_effect prev d =
           Some (if prev = Some (search_deps d) then d else search_effect d)"
proof -
  obtain m where n: "n = Suc (Suc m)"
    using assms by (metis add_2_eq_Suc le_Suc_ex)
  have "search_deps (search_effect d) = search_deps d"
    by (simp add: search_deps_def)
  then show ?thesis
    by (simp add: n)
qed

theorem search_effect_cycle_ends_witness:
  "effect_cycle 2 search_deps search_effect None (dashboard_initial\<lparr>searchTerm := ''ada''\<rparr>) =
     Some (if None = Some (search_deps (dashboard_initial\<lparr>searchTerm := ''ada''\<rparr>))
           then dashboard_initial\<lparr>searchTerm := ''ada''\<rparr> else search_effect (dashboard_initial\<lparr>searchTerm := ''ada''\<rparr>))"
  by (rule search_effect_cycle_ends) simp

end
