(* ===== verification/Export.thy ===== *)
theory Export
  imports Dashboard
begin

text \<open>
  What the administration dashboard (\<open>src/src/components/AdminDashboard.tsx\<close>)
  puts in front of the user: the rendered body (the loading spinner, the two empty
  messages, or the table of the current page, lines 172--250) and the PDF export
  (\<open>exportToPDF\<close>, lines 75--130, bound to the button at lines 368--373, which is
  rendered in every state). The date format of \<open>toLocaleDateString\<close> is a parameter
  \<open>fmt\<close>; jsPDF's drawing is represented by the document it is given.
\<close>

section \<open>Definitions\<close>

text \<open>\<open>toUpperCase\<close> of one character: an ASCII lower-case letter gets bit 5
  cleared.\<close>

definition to_upper_char :: "char \<Rightarrow> char" where
  "to_upper_char c =
     (if 97 \<le> (of_char c::nat) \<and> (of_char c::nat) \<le> 122
      then (case c of Char b0 b1 b2 b3 b4 b5 b6 b7 \<Rightarrow> Char b0 b1 b2 b3 b4 False b6 b7)
      else c)"

text \<open>\<open>gender.charAt(0).toUpperCase() + gender.slice(1)\<close> (line 243).\<close>

definition gender_label :: "gender \<Rightarrow> string" where
  "gender_label g = (case gender_name g of [] \<Rightarrow> [] | c # cs \<Rightarrow> to_upper_char c # cs)"

text \<open>One row of the table (lines 211--248): the photo or \<open>N/A\<close>, the name, the
  contact lines, the gender badge and the formatted date.\<close>

record table_row =
  row_photo :: "string option"
  row_name :: string
  row_contact :: "string \<times> string"
  row_gender :: string
  row_dob :: string

definition table_row_of :: "(string \<Rightarrow> string) \<Rightarrow> registrant \<Rightarrow> table_row" where
  "table_row_of fmt r =
     \<lparr>row_photo = (if js_truthy (photoData r) then photoData r else None),
      row_name = fullName r, row_contact = (email r, phone r), row_gender = gender_label (gender r),
      row_dob = fmt (dateOfBirth r)\<rparr>"

datatype dash_view = ViewLoading | ViewNoRegistrants | ViewNoResults string | ViewTable "table_row list"

text \<open>The body of the page (lines 172--184 and 209--210).\<close>

definition dashboard_view :: "(string \<Rightarrow> string) \<Rightarrow> dashboard \<Rightarrow> dash_view" where
  "dashboard_view fmt d =
     (if isLoading d then ViewLoading
      else if registrants d = [] then ViewNoRegistrants
      else if filteredRegistrants d = [] then ViewNoResults (searchTerm d)
      else ViewTable (map (table_row_of fmt) (currentItems d)))"

record pdf_doc =
  pdf_title :: string
  pdf_head :: "string list"
  pdf_body :: "(string \<times> string list) list"
  pdf_file :: string

definition pdf_columns :: "string list" where
  "pdf_columns = [''Photo'', ''Name'', ''Email'', ''Phone'', ''Gender'', ''DOB'']"

text \<open>\<open>exportToPDF\<close>: the title, the columns, one row per filtered registrant
  (\<open>Promise.all\<close> keeps the order of \<open>filteredRegistrants\<close>), the file name.\<close>

definition exportToPDF :: "(string \<Rightarrow> string) \<Rightarrow> dashboard \<Rightarrow> pdf_doc" where
  "exportToPDF fmt d =
     \<lparr>pdf_title = ''Registrant List'', pdf_head = pdf_columns,
      pdf_body = pdf_rows fmt (filteredRegistrants d), pdf_file = ''registrants_with_photos.pdf''\<rparr>"

section \<open>Lemmas\<close>

lemma gender_label_cases: "gender_label g \<in> {''Male'', ''Female'', ''Other''}"
  by (cases g) (simp_all add: gender_label_def to_upper_char_def)

lemma concat_pages:
  assumes "0 < k"
  shows "concat (map (\<lambda>p. page_slice k xs (int p)) [1..<Suc (total_pages k xs)]) = xs"
proof -
  have "length xs \<le> total_pages k xs * k"
    using ceil_div_bounds(2) [OF assms] by (simp add: total_pages_def)
  then show ?thesis
    by (simp only: pages_as_indices concat_pages_take take_all)
qed

lemma concat_map_map: "concat (map (\<lambda>p. map f (g p)) ps) = map f (concat (map g ps))"
  by (induction ps) simp_all

section \<open>Properties of the rendered dashboard and the export\<close>

text \<open>
  C21 (functional). In every dashboard state reachable after mounting, whatever
  page is displayed, the exported PDF has the title and the six columns of the code
  and one row for every result of the search over the whole store, in order: the
  rows of pages \<open>1 .. totalPages\<close> put together, not only the current page.
\<close>

theorem export_lists_every_page:
  assumes "dash_reach (d, st)"
  shows "pdf_body (exportToPDF fmt d) =
           concat (map (\<lambda>p. pdf_rows fmt (page_slice (itemsPerPage d) (filteredRegistrants d) (int p)))
             [1..<Suc (totalPages d)]) \<and>
         pdf_body (exportToPDF fmt d) = pdf_rows fmt (filter_registrants (searchTerm d) (stored st)) \<and>
         pdf_title (exportToPDF fmt d) = ''Registrant List'' \<and> pdf_head (exportToPDF fmt d) = pdf_columns"
proof -
  have inv: "itemsPerPage d = 5 \<and> filteredRegistrants d = filter_registrants (searchTerm d) (registrants d) \<and>
             registrants d = stored st"
    using dash_reach_inv [OF assms] by (simp add: dashboard_inv_iff)
  have "concat (map (\<lambda>p. page_slice (itemsPerPage d) (filteredRegistrants d) (int p)) [1..<Suc (totalPages d)]) =
          filteredRegistrants d"
    using inv concat_pages [of 5 "filteredRegistrants d"] by (simp add: totalPages_def)
  then show ?thesis
    using inv by (simp add: exportToPDF_def pdf_rows_def concat_map_map)
qed

theorem export_lists_every_page_witness:
  "pdf_body (exportToPDF id (fst (dashboard_mount empty_storage))) =
     concat (map (\<lambda>p. pdf_rows id (page_slice (itemsPerPage (fst (dashboard_mount empty_storage)))
       (filteredRegistrants (fst (dashboard_mount empty_storage))) (int p)))
       [1..<Suc (totalPages (fst (dashboard_mount empty_storage)))]) \<and>
   pdf_body (exportToPDF id (fst (dashboard_mount empty_storage))) =
     pdf_rows id (filter_registrants (searchTerm (fst (dashboard_mount empty_storage)))
       (stored (snd (dashboard_mount empty_storage)))) \<and>
   pdf_title (exportToPDF id (fst (dashboard_mount empty_storage))) = ''Registrant List'' \<and>
   pdf_head (exportToPDF id (fst (dashboard_mount empty_storage))) = pdf_columns"
  by (rule export_lists_every_page) (simp add: dash_mount)

text \<open>
  C26 (refinement). In every dashboard state reachable after mounting, the rendered
  body is a function of the store alone: the message for an empty store, the
  message quoting the term when the search finds nothing, and otherwise the table
  of the current page of the search over the store, each row with its photo or
  \<open>N/A\<close> and the capitalised gender; the table is shown exactly when the render
  guard of the delete and pagination controls holds.
\<close>

theorem dashboard_view_of_store:
  assumes "dash_reach (d, st)"
  shows "dashboard_view fmt d =
           (if isLoading d then ViewLoading
            else if stored st = [] then ViewNoRegistrants
            else if filter_registrants (searchTerm d) (stored st) = [] then ViewNoResults (searchTerm d)
            else ViewTable (map (table_row_of fmt) (page_slice 5 (filter_registrants (searchTerm d) (stored st))
                                                      (currentPage d)))) \<and>
         ((\<exists>rows. dashboard_view fmt d = ViewTable rows) \<longleftrightarrow> table_shown d)"
proof -
  have inv: "itemsPerPage d = 5 \<and> filteredRegistrants d = filter_registrants (searchTerm d) (registrants d) \<and>
             registrants d = stored st"
    using dash_reach_inv [OF assms] by (simp add: dashboard_inv_iff)
  then show ?thesis
    by (simp add: dashboard_view_def currentItems_def table_shown_def)
qed

theorem dashboard_view_of_store_witness:
  "dashboard_view id (fst (dashboard_mount empty_storage)) =
     (if isLoading (fst (dashboard_mount empty_storage)) then ViewLoading
      else if stored (snd (dashboard_mount empty_storage)) = [] then ViewNoRegistrants
      else if filter_registrants (searchTerm (fst (dashboard_mount empty_storage))) (stored (snd (dashboard_mount empty_storage))) = []
      then ViewNoResults (searchTerm (fst (dashboard_mount empty_storage)))
      else ViewTable (map (table_row_of id) (page_slice 5 (filter_registrants (searchTerm (fst (dashboard_mount empty_storage)))
        (stored (snd (dashboard_mount empty_storage)))) (currentPage (fst (dashboard_mount empty_storage)))))) \<and>
   ((\<exists>rows. dashboard_view id (fst (dashboard_mount empty_storage)) = ViewTable rows) \<longleftrightarrow>
      table_shown (fst (dashboard_mount empty_storage)))"
  by (rule dashboard_view_of_store) (simp add: dash_mount)

end
