(* ===== verification/Auth.thy ===== *)
theory Auth
  imports Model
begin

text \<open>
  The session guard, \<open>src/src/contexts/AuthContext.tsx\<close>: the provider's state
  (\<open>admin\<close>, \<open>isAuthenticated\<close>), the mount effect that restores a persisted
  session from the \<open>admin\<close> key, \<open>login\<close> with the hard-coded credentials and
  \<open>logout\<close>. \<open>ProtectedRoute\<close> is imported by \<open>App.tsx\<close> but its source is not
  in the repository; it is modelled from the spec (section 4.4: the gate consults
  only the in-memory \<open>isAuthenticated\<close> flag).
\<close>

section \<open>Definitions\<close>

record auth_state =
  auth_admin :: "admin option"
  isAuthenticated :: bool

definition auth_initial :: auth_state where
  "auth_initial = \<lparr>auth_admin = None, isAuthenticated = False\<rparr>"

text \<open>The mount effect (lines 29--37): a stored session is parsed and adopted,
  flag included, without any further check.\<close>

definition restore_session :: "local_storage \<Rightarrow> auth_state \<Rightarrow> auth_state" where
  "restore_session st s =
     (case admin_item st of
        None \<Rightarrow> s
      | Some parsedAdmin \<Rightarrow> s\<lparr>auth_admin := Some parsedAdmin,
                               isAuthenticated := admin_isAuthenticated parsedAdmin\<rparr>)"

definition login ::
  "string \<Rightarrow> string \<Rightarrow> auth_state \<times> local_storage \<Rightarrow> bool \<times> auth_state \<times> local_storage" where
  "login u p s =
     (let (a, st) = s
      in if u = ''admin'' \<and> p = ''admin123''
         then (let adminUser = \<lparr>username = u, admin_isAuthenticated = True\<rparr>
               in (True, a\<lparr>auth_admin := Some adminUser, isAuthenticated := True\<rparr>,
                   st\<lparr>admin_item := Some adminUser\<rparr>))
         else (False, a, st))"

definition logout :: "auth_state \<times> local_storage \<Rightarrow> auth_state \<times> local_storage" where
  "logout s =
     (let (a, st) = s in (a\<lparr>auth_admin := None, isAuthenticated := False\<rparr>, st\<lparr>admin_item := None\<rparr>))"

text \<open>The provider after a (re)load of the page: a fresh state, then the mount effect.\<close>

definition app_start :: "local_storage \<Rightarrow> auth_state" where
  "app_start st = restore_session st auth_initial"

datatype route_outcome = RenderChild | RedirectToLogin

definition protected_route :: "auth_state \<Rightarrow> route_outcome" where
  "protected_route a = (if isAuthenticated a then RenderChild else RedirectToLogin)"

datatype auth_event = Login string string | Logout | Reload

fun auth_step :: "auth_event \<Rightarrow> auth_state \<times> local_storage \<Rightarrow> auth_state \<times> local_storage" where
  "auth_step (Login u p) s = snd (login u p s)"
| "auth_step Logout s = logout s"
| "auth_step Reload (a, st) = (app_start st, st)"

text \<open>Sessions of one browser that starts without a persisted session.\<close>

inductive auth_reach :: "auth_state \<times> local_storage \<Rightarrow> bool" where
  auth_fresh: "admin_item st = None \<Longrightarrow> auth_reach (app_start st, st)"
| auth_event: "auth_reach s \<Longrightarrow> auth_reach (auth_step e s)"

definition the_admin :: admin where
  "the_admin = \<lparr>username = ''admin'', admin_isAuthenticated = True\<rparr>"

text \<open>The in-memory session agrees with the persisted one, and any session is the
  one \<open>login\<close> creates for the valid credentials.\<close>

definition auth_inv :: "auth_state \<times> local_storage \<Rightarrow> bool" where
  "auth_inv s =
     (let (a, st) = s
      in auth_admin a = admin_item st \<and>
         (auth_admin a = None \<or> auth_admin a = Some the_admin) \<and>
         isAuthenticated a = (auth_admin a = Some the_admin))"

section \<open>Lemmas\<close>

lemma login_valid:
  "login ''admin'' ''admin123'' (a, st) =
     (True, a\<lparr>auth_admin := Some the_admin, isAuthenticated := True\<rparr>, st\<lparr>admin_item := Some the_admin\<rparr>)"
  by (simp add: login_def the_admin_def Let_def)

lemma login_invalid:
  "\<not> (u = ''admin'' \<and> p = ''admin123'') \<Longrightarrow> login u p (a, st) = (False, a, st)"
  by (auto simp: login_def)

lemma app_start_None: "admin_item st = None \<Longrightarrow> app_start st = auth_initial"
  by (simp add: app_start_def restore_session_def)

lemma app_start_Some:
  "admin_item st = Some b \<Longrightarrow> app_start st = \<lparr>auth_admin = Some b, isAuthenticated = admin_isAuthenticated b\<rparr>"
  by (simp add: app_start_def restore_session_def auth_initial_def)

lemma auth_inv_step: "auth_inv s \<Longrightarrow> auth_inv (auth_step e s)"
proof (cases s)
  case (Pair a st)
  assume inv: "auth_inv s"
  show ?thesis
  proof (cases e)
    case (Login u p)
    with inv Pair show ?thesis
      by (cases "u = ''admin'' \<and> p = ''admin123''")
        (auto simp: auth_inv_def login_valid login_invalid)
  next
    case Logout
    with inv Pair show ?thesis
      by (simp add: auth_inv_def logout_def)
  next
    case Reload
    with inv Pair show ?thesis
      by (cases "admin_item st")
        (auto simp: auth_inv_def app_start_None app_start_Some auth_initial_def the_admin_def)
  qed
qed

lemma auth_reach_inv: "auth_reach s \<Longrightarrow> auth_inv s"
proof (induction rule: auth_reach.induct)
  case (auth_fresh st)
  then show ?case
    by (simp add: auth_inv_def app_start_None auth_initial_def)
next
  case (auth_event s e)
  then show ?case
    by (simp add: auth_inv_step)
qed

section \<open>Properties of the session guard\<close>

text \<open>
  C20 (functional, scenario of spec section 8). Logging in with the valid pair
  succeeds, sets \<open>isAuthenticated\<close>, and the session survives a reload of the
  page: the provider started on the resulting storage is authenticated and lets a
  protected route render.
\<close>

theorem login_persists_across_restart:
  "fst (login ''admin'' ''admin123'' (a, st)) \<and>
   isAuthenticated (fst (snd (login ''admin'' ''admin123'' (a, st)))) \<and>
   isAuthenticated (app_start (snd (snd (login ''admin'' ''admin123'' (a, st))))) \<and>
   protected_route (app_start (snd (snd (login ''admin'' ''admin123'' (a, st))))) = RenderChild"
  by (simp add: login_valid app_start_Some protected_route_def the_admin_def)

text \<open>
  From any session state reachable in a browser, a login with any
  other pair is refused, changes nothing, and leaves an unauthenticated user
  unauthenticated, also after a reload.
\<close>

theorem bad_login_stays_out:
  assumes "auth_reach (a, st)" and "\<not> (u = ''admin'' \<and> p = ''admin123'')" and "\<not> isAuthenticated a"
  shows "login u p (a, st) = (False, a, st) \<and>
         \<not> isAuthenticated (fst (snd (login u p (a, st)))) \<and>
         \<not> isAuthenticated (app_start (snd (snd (login u p (a, st)))))"
proof -
  have "auth_inv (a, st)"
    using assms(1) by (rule auth_reach_inv)
  with assms(3) have "admin_item st = None"
    by (auto simp: auth_inv_def)
  with assms(2,3) show ?thesis
    by (simp add: login_invalid app_start_None auth_initial_def)
qed

theorem bad_login_stays_out_witness:
  "login ''admin'' ''guess'' (app_start empty_storage, empty_storage) = (False, app_start empty_storage, empty_storage) \<and>
   \<not> isAuthenticated (fst (snd (login ''admin'' ''guess'' (app_start empty_storage, empty_storage)))) \<and>
   \<not> isAuthenticated (app_start (snd (snd (login ''admin'' ''guess'' (app_start empty_storage, empty_storage)))))"
proof (rule bad_login_stays_out)
  show "auth_reach (app_start empty_storage, empty_storage)"
    by (rule auth_fresh) (simp add: empty_storage_def)
  show "\<not> isAuthenticated (app_start empty_storage)"
    by (simp add: app_start_None empty_storage_def auth_initial_def)
qed simp

text \<open>
  In every session state reachable in a browser that started without
  a persisted session, a protected route renders exactly when the persisted session
  is the one a valid login wrote, and the in-memory session equals the persisted one.
\<close>

theorem protected_route_only_after_login:
  assumes "auth_reach (a, st)"
  shows "(protected_route a = RenderChild \<longleftrightarrow> admin_item st = Some the_admin) \<and> auth_admin a = admin_item st"
  using auth_reach_inv [OF assms] by (auto simp: auth_inv_def protected_route_def)

theorem protected_route_only_after_login_witness:
  "(protected_route (fst (auth_step (Login ''admin'' ''admin123'') (app_start empty_storage, empty_storage)))
      = RenderChild \<longleftrightarrow>
    admin_item (snd (auth_step (Login ''admin'' ''admin123'') (app_start empty_storage, empty_storage)))
      = Some the_admin) \<and>
   auth_admin (fst (auth_step (Login ''admin'' ''admin123'') (app_start empty_storage, empty_storage))) =
   admin_item (snd (auth_step (Login ''admin'' ''admin123'') (app_start empty_storage, empty_storage)))"
proof -
  have r: "auth_reach (auth_step (Login ''admin'' ''admin123'') (app_start empty_storage, empty_storage))"
    by (rule auth_event, rule auth_fresh) (simp add: empty_storage_def)
  show ?thesis
    using protected_route_only_after_login [of "fst (auth_step (Login ''admin'' ''admin123'') (app_start empty_storage, empty_storage))"
        "snd (auth_step (Login ''admin'' ''admin123'') (app_start empty_storage, empty_storage))"] r
    by simp
qed

text \<open>
  Logout clears the in-memory and the persisted session
  unconditionally: afterwards, and after any reload, protected routes redirect to
  the login page.
\<close>

theorem logout_clears_session:
  "\<not> isAuthenticated (fst (logout (a, st))) \<and> auth_admin (fst (logout (a, st))) = None \<and>
   admin_item (snd (logout (a, st))) = None \<and>
   protected_route (fst (logout (a, st))) = RedirectToLogin \<and>
   protected_route (app_start (snd (logout (a, st)))) = RedirectToLogin"
  by (simp add: logout_def protected_route_def app_start_None auth_initial_def)

text \<open>
  C22 (safety, a finding). The restored session is trusted as stored: any value
  under the \<open>admin\<close> key whose flag is set, whatever its user name, opens the
  protected routes after a reload without a password.
\<close>

theorem stored_flag_opens_routes:
  assumes "admin_item st = Some \<lparr>username = u, admin_isAuthenticated = True\<rparr>"
  shows "isAuthenticated (app_start st) \<and> protected_route (app_start st) = RenderChild"
  using assms by (simp add: app_start_Some protected_route_def)

theorem stored_flag_opens_routes_witness:
  "isAuthenticated (app_start (empty_storage\<lparr>admin_item := Some \<lparr>username = ''mallory'', admin_isAuthenticated = True\<rparr>\<rparr>)) \<and>
   protected_route (app_start (empty_storage\<lparr>admin_item := Some \<lparr>username = ''mallory'', admin_isAuthenticated = True\<rparr>\<rparr>))
     = RenderChild"
  by (rule stored_flag_opens_routes) simp

end
