(* ===== verification/Capture.thy ===== *)
theory Capture
  imports Model
begin

text \<open>
  Photo acquisition: the file strategy (\<open>src/src/components/FileUpload.tsx\<close>) and
  the camera strategy (\<open>src/src/components/CameraCapture.tsx\<close>). Each component's
  React state is a record; each handler is a function on it that also returns what
  the component passes to its parent's callback (\<open>onFileSelect\<close>,
  \<open>onCapture\<close>). The browser's side is explicit: \<open>read_as_data_url\<close> is the
  result \<open>FileReader.readAsDataURL\<close> delivers, and the camera's media streams are a
  list of live stream identifiers, so that the release of the hardware is a
  property of the model.
\<close>

section \<open>File upload\<close>

record file_upload =
  fu_preview :: "string option"
  fu_error :: "string option"

definition fu_initial :: file_upload where
  "fu_initial = \<lparr>fu_preview = None, fu_error = None\<rparr>"

text \<open>\<open>file.type.match('image.*')\<close> (line 18): a string argument of \<open>match\<close> is a
  regular expression, unanchored, and \<open>.*\<close> also matches the empty string, so the
  test holds exactly when \<open>image\<close> occurs somewhere in the type.\<close>

definition image_type_ok :: "string \<Rightarrow> bool" where
  "image_type_ok t = str_includes t ''image''"

definition max_upload_size :: nat where
  "max_upload_size = 5 * 1024 * 1024"

definition type_error_message :: string where
  "type_error_message = ''Please select an image file (JPEG, PNG, etc.)''"

definition size_error_message :: string where
  "size_error_message = ''File is too large. Maximum size is 5MB.''"

text \<open>\<open>handleFileChange\<close> (lines 13--42): the new state, the file passed to
  \<open>onFileSelect\<close> if any, and the file whose asynchronous read was started (its
  \<open>onload\<close> is \<open>fu_onload\<close>). Both are the same file; they are kept apart because
  the callback runs now and the preview later.\<close>

definition handleFileChange ::
  "js_file option \<Rightarrow> file_upload \<Rightarrow> file_upload \<times> js_file option \<times> js_file option" where
  "handleFileChange sel fu =
     (case sel of
        None \<Rightarrow> (fu, None, None)
      | Some file \<Rightarrow>
          if \<not> image_type_ok (file_type file) then (fu\<lparr>fu_error := Some type_error_message\<rparr>, None, None)
          else if max_upload_size < file_size file then (fu\<lparr>fu_error := Some size_error_message\<rparr>, None, None)
          else (fu\<lparr>fu_error := None\<rparr>, Some file, Some file))"

text \<open>The browser's \<open>readAsDataURL\<close>: a data URL naming the file's type, or
  \<open>application/octet-stream\<close> for a file without one, and the base64 text of the
  contents.\<close>

definition read_as_data_url :: "js_file \<Rightarrow> string" where
  "read_as_data_url f =
     ''data:'' @ (if file_type f = [] then ''application/octet-stream'' else file_type f) @
     '';base64,'' @ file_base64 f"

text \<open>\<open>reader.onload\<close> (lines 33--37).\<close>

definition fu_onload :: "string \<Rightarrow> file_upload \<Rightarrow> file_upload" where
  "fu_onload result fu = (if result \<noteq> [] then fu\<lparr>fu_preview := Some result\<rparr> else fu)"

text \<open>\<open>new File([], '')\<close>: no name, no type, no contents.\<close>

definition empty_file :: js_file where
  "empty_file = \<lparr>file_name = [], file_type = [], file_size = 0, file_base64 = []\<rparr>"

text \<open>\<open>clearImage\<close> (lines 48--54): the new state and the file passed to
  \<open>onFileSelect\<close>.\<close>

definition fu_clearImage :: "file_upload \<Rightarrow> file_upload \<times> js_file" where
  "fu_clearImage fu = (fu\<lparr>fu_preview := None\<rparr>, empty_file)"

text \<open>What the component renders (lines 56--101): the drop zone while there is no
  preview, the error message, and the preview with its clear button.\<close>

datatype upload_item = UploadPrompt | UploadError string | PreviewImage string | ClearButton

definition fu_view :: "file_upload \<Rightarrow> upload_item list" where
  "fu_view fu =
     (if js_truthy (fu_preview fu) then [] else [UploadPrompt]) @
     (if js_truthy (fu_error fu) then [UploadError (the (fu_error fu))] else []) @
     (if js_truthy (fu_preview fu) then [PreviewImage (the (fu_preview fu)), ClearButton] else [])"

text \<open>The file input itself is hidden (lines 58--64); the only way to open it is a
  click on the drop zone, whose \<open>onClick\<close> is \<open>triggerFileInput\<close> (lines 44--46,
  68). A file can be chosen exactly while the drop zone is rendered.\<close>

definition file_input_enabled :: "file_upload \<Rightarrow> bool" where
  "file_input_enabled fu = (UploadPrompt \<in> set (fu_view fu))"

text \<open>A sample picture of the given type and size.\<close>

definition sample_file :: "string \<Rightarrow> nat \<Rightarrow> js_file" where
  "sample_file t n = \<lparr>file_name = ''me.jpg'', file_type = t, file_size = n, file_base64 = ''/9j/4AAQ''\<rparr>"

section \<open>Camera capture\<close>

text \<open>The component's state (lines 12--16). \<open>stream\<close> holds a media stream, named
  here by an identifier.\<close>

record camera =
  isCameraActive :: bool
  hasPermission :: "bool option"
  errorMessage :: "string option"
  capturedImage :: "string option"
  cam_stream :: "nat option"

definition camera_initial :: "string option \<Rightarrow> camera" where
  "camera_initial existingImage =
     \<lparr>isCameraActive = False, hasPermission = None, errorMessage = None,
      capturedImage = js_or existingImage None, cam_stream = None\<rparr>"

text \<open>The component together with the browser: the streams whose tracks are
  running, the \<open>getUserMedia\<close> requests not yet settled, and whether the component
  is mounted. State setters of an unmounted component have no effect.\<close>

record camera_sys =
  cam :: camera
  live :: "nat list"
  pending :: nat
  mounted :: bool

definition camera_sys_initial :: "string option \<Rightarrow> camera_sys" where
  "camera_sys_initial existingImage =
     \<lparr>cam = camera_initial existingImage, live = [], pending = 0, mounted = True\<rparr>"

text \<open>\<open>videoRef.current\<close> is set only while the \<open><video>\<close> element is rendered,
  and it is rendered only under \<open>isCameraActive &&\<close> (lines 129--137).\<close>

definition video_mounted :: "camera_sys \<Rightarrow> bool" where
  "video_mounted s = (mounted s \<and> isCameraActive (cam s))"

text \<open>\<open>track.stop()\<close> on every track of a stream, if there is one.\<close>

definition stop_stream :: "nat option \<Rightarrow> nat list \<Rightarrow> nat list" where
  "stop_stream st ls = (case st of None \<Rightarrow> ls | Some sid \<Rightarrow> removeAll sid ls)"

definition default_camera_message :: string where
  "default_camera_message = ''Camera access denied or not available. Please use file upload instead.''"

text \<open>The message of \<open>startCamera\<close>'s catch block (lines 41--51); the argument is
  the \<open>name\<close> of the rejection if it is an \<open>Error\<close>.\<close>

definition camera_error_message :: "string option \<Rightarrow> string" where
  "camera_error_message err =
     (case err of
        None \<Rightarrow> default_camera_message
      | Some name \<Rightarrow>
          if name = ''NotAllowedError''
          then ''Camera permission was denied. Please allow camera access and try again.''
          else if name = ''NotFoundError''
          then ''No camera found on your device. Please use file upload instead.''
          else if name = ''NotReadableError''
          then ''Camera is in use by another application. Please close other apps using the camera.''
          else default_camera_message)"

text \<open>\<open>startCamera\<close> (lines 18--57) in its three parts: the call of
  \<open>getUserMedia\<close>, and the continuation when the promise resolves with a new
  stream (which the browser has started) or rejects.\<close>

definition startCamera_request :: "camera_sys \<Rightarrow> camera_sys" where
  "startCamera_request s = s\<lparr>pending := Suc (pending s)\<rparr>"

definition startCamera_granted :: "nat \<Rightarrow> camera_sys \<Rightarrow> camera_sys" where
  "startCamera_granted sid s =
     (let s1 = s\<lparr>pending := pending s - 1, live := sid # live s\<rparr>
      in if video_mounted s
         then s1\<lparr>cam := (cam s)\<lparr>cam_stream := Some sid, isCameraActive := True,
                                 hasPermission := Some True, errorMessage := None\<rparr>\<rparr>
         else s1)"

definition startCamera_denied :: "string option \<Rightarrow> camera_sys \<Rightarrow> camera_sys" where
  "startCamera_denied err s =
     s\<lparr>pending := pending s - 1,
       cam := (if mounted s
               then (cam s)\<lparr>hasPermission := Some False, errorMessage := Some (camera_error_message err),
                            isCameraActive := False\<rparr>
               else cam s)\<rparr>"

text \<open>\<open>stopCamera\<close> (lines 59--70).\<close>

definition stopCamera :: "camera_sys \<Rightarrow> camera_sys" where
  "stopCamera s =
     s\<lparr>live := stop_stream (cam_stream (cam s)) (live s),
       cam := (cam s)\<lparr>cam_stream := None, isCameraActive := False\<rparr>\<rparr>"

text \<open>\<open>captureImage\<close> (lines 72--94): the JPEG data URL of the mirrored frame is the
  argument; the result carries the value passed to \<open>onCapture\<close>.\<close>

definition captureImage :: "string \<Rightarrow> camera_sys \<Rightarrow> camera_sys \<times> string option" where
  "captureImage imageDataUrl s =
     (if video_mounted s
      then (stopCamera (s\<lparr>cam := (cam s)\<lparr>capturedImage := Some imageDataUrl\<rparr>\<rparr>), Some imageDataUrl)
      else (s, None))"

text \<open>\<open>clearImage\<close> (lines 96--99).\<close>

definition cam_clearImage :: "camera_sys \<Rightarrow> camera_sys \<times> string option" where
  "cam_clearImage s = (s\<lparr>cam := (cam s)\<lparr>capturedImage := None\<rparr>\<rparr>, Some [])"

text \<open>Unmounting runs the cleanup of the effect on \<open>[stream]\<close> (lines 101--107)
  with the stream of the last render.\<close>

definition cam_unmount :: "camera_sys \<Rightarrow> camera_sys" where
  "cam_unmount s = s\<lparr>mounted := False, live := stop_stream (cam_stream (cam s)) (live s)\<rparr>"

datatype cam_event =
  OpenClick | Granted nat | Denied "string option" | CaptureClick string | CancelClick
  | ClearClick | Unmount

text \<open>One event, enabled only when its button is rendered (lines 112, 139--152,
  164) or, for the browser's answers, when a request is pending; the result carries
  the value passed to \<open>onCapture\<close>.\<close>

fun cam_step :: "cam_event \<Rightarrow> camera_sys \<Rightarrow> (camera_sys \<times> string option) option" where
  "cam_step OpenClick s =
     (if mounted s \<and> \<not> isCameraActive (cam s) \<and> capturedImage (cam s) = None
      then Some (startCamera_request s, None) else None)"
| "cam_step (Granted sid) s =
     (if 0 < pending s \<and> sid \<notin> set (live s) then Some (startCamera_granted sid s, None) else None)"
| "cam_step (Denied err) s = (if 0 < pending s then Some (startCamera_denied err s, None) else None)"
| "cam_step (CaptureClick url) s = (if video_mounted s then Some (captureImage url s) else None)"
| "cam_step CancelClick s = (if video_mounted s then Some (stopCamera s, None) else None)"
| "cam_step ClearClick s =
     (if mounted s \<and> capturedImage (cam s) \<noteq> None then Some (cam_clearImage s) else None)"
| "cam_step Unmount s = (if mounted s then Some (cam_unmount s, None) else None)"

text \<open>A sequence of events, with the values passed to \<open>onCapture\<close> in order.\<close>

fun cam_run :: "cam_event list \<Rightarrow> camera_sys \<Rightarrow> (camera_sys \<times> string list) option" where
  "cam_run [] s = Some (s, [])"
| "cam_run (e # es) s =
     (case cam_step e s of
        None \<Rightarrow> None
      | Some (s', out) \<Rightarrow>
          (case cam_run es s' of
             None \<Rightarrow> None
           | Some (s'', outs) \<Rightarrow> Some (s'', (case out of None \<Rightarrow> outs | Some v \<Rightarrow> v # outs))))"

inductive cam_reach :: "camera_sys \<Rightarrow> bool" where
  cam_start: "cam_reach (camera_sys_initial existingImage)"
| cam_event: "cam_reach s \<Longrightarrow> cam_step e s = Some (s', out) \<Longrightarrow> cam_reach s'"

definition cam_inv :: "camera_sys \<Rightarrow> bool" where
  "cam_inv s = (\<not> isCameraActive (cam s) \<and> cam_stream (cam s) = None)"

section \<open>Lemmas\<close>

lemma file_input_enabled_iff [simp]: "file_input_enabled fu \<longleftrightarrow> \<not> js_truthy (fu_preview fu)"
  by (simp add: file_input_enabled_def fu_view_def)

lemma handleFileChange_accept:
  "image_type_ok (file_type f) \<Longrightarrow> file_size f \<le> max_upload_size \<Longrightarrow>
   handleFileChange (Some f) fu = (fu\<lparr>fu_error := None\<rparr>, Some f, Some f)"
  by (simp add: handleFileChange_def)

lemma handleFileChange_passes:
  assumes "handleFileChange sel fu = (fu', Some f, rd)"
  shows "sel = Some f \<and> rd = Some f \<and> image_type_ok (file_type f) \<and> file_size f \<le> max_upload_size \<and>
         fu' = fu\<lparr>fu_error := None\<rparr>"
  using assms by (auto simp: handleFileChange_def split: option.splits if_splits)

lemma image_type_ok_sublist: "image_type_ok t \<longleftrightarrow> sublist ''image'' t"
  by (simp add: image_type_ok_def str_includes_sublist)

lemma stop_stream_None [simp]: "stop_stream None ls = ls"
  by (simp add: stop_stream_def)

lemma cam_step_inv:
  assumes "cam_inv s" and "cam_step e s = Some (s', out)"
  shows "cam_inv s' \<and> set (live s) \<subseteq> set (live s')"
proof (cases e)
  case (Granted sid)
  with assms show ?thesis
    by (auto simp: cam_inv_def startCamera_granted_def video_mounted_def Let_def split: if_splits)
next
  case (Denied err)
  with assms show ?thesis
    by (auto simp: cam_inv_def startCamera_denied_def split: if_splits)
qed (use assms in \<open>auto simp: cam_inv_def startCamera_request_def video_mounted_def
       cam_clearImage_def cam_unmount_def split: if_splits\<close>)

lemma cam_reach_inv: "cam_reach s \<Longrightarrow> cam_inv s"
proof (induction rule: cam_reach.induct)
  case (cam_start existingImage)
  show ?case
    by (simp add: cam_inv_def camera_sys_initial_def camera_initial_def)
next
  case (cam_event s e s' out)
  then show ?case
    using cam_step_inv by blast
qed

lemma cam_run_reach:
  "cam_reach s \<Longrightarrow> cam_run es s = Some (s', outs) \<Longrightarrow> cam_reach s' \<and> set (live s) \<subseteq> set (live s')"
proof (induction es arbitrary: s outs)
  case Nil
  then show ?case by simp
next
  case (Cons e es)
  obtain s1 out where st: "cam_step e s = Some (s1, out)"
    using Cons.prems(2) by (auto split: option.splits)
  then obtain outs1 where run: "cam_run es s1 = Some (s', outs1)"
    using Cons.prems(2) by (auto split: option.splits)
  have r1: "cam_reach s1"
    using Cons.prems(1) st by (rule cam_reach.cam_event)
  have "set (live s) \<subseteq> set (live s1)"
    using cam_step_inv [OF cam_reach_inv [OF Cons.prems(1)] st] by blast
  with Cons.IH [OF r1 run] show ?case by blast
qed

lemma cam_run_initial_reach:
  "cam_run es (camera_sys_initial x) = Some (s', outs) \<Longrightarrow> cam_reach s'"
  using cam_run_reach [OF cam_start] by blast

section \<open>Properties of photo acquisition\<close>

text \<open>
  C27 (safety, a finding). In every state the camera component can reach, whatever
  the user and the browser do, the camera is never active, no stream is held and the
  \<open><video>\<close> element is never rendered: \<open>startCamera\<close> adopts the granted stream only
  if \<open>videoRef.current\<close> is set, and the element that sets it is rendered only once
  the camera is active, which is set in the same guarded block.
\<close>

theorem camera_never_active:
  assumes "cam_reach s"
  shows "\<not> isCameraActive (cam s) \<and> cam_stream (cam s) = None \<and> \<not> video_mounted s"
  using cam_reach_inv [OF assms] by (simp add: cam_inv_def video_mounted_def)

theorem camera_never_active_witness:
  "\<not> isCameraActive (cam (fst (the (cam_run [OpenClick, Granted 7] (camera_sys_initial None))))) \<and>
   cam_stream (cam (fst (the (cam_run [OpenClick, Granted 7] (camera_sys_initial None))))) = None \<and>
   \<not> video_mounted (fst (the (cam_run [OpenClick, Granted 7] (camera_sys_initial None))))"
proof (rule camera_never_active)
  show "cam_reach (fst (the (cam_run [OpenClick, Granted 7] (camera_sys_initial None))))"
    by (rule cam_run_initial_reach [of "[OpenClick, Granted 7]" None _ "[]"])
      (simp add: camera_sys_initial_def camera_initial_def startCamera_request_def
         startCamera_granted_def video_mounted_def)
qed

text \<open>
  C28 (safety, a finding against the scoped-release contract of spec section 4.2).
  Once the user opens the camera and the browser grants a stream, that stream's
  tracks keep running whatever happens next, unmounting the component included:
  no exit path stops them.
\<close>

theorem granted_stream_never_released:
  assumes "cam_reach s" and "cam_run (OpenClick # Granted sid # es) s = Some (s', outs)"
  shows "sid \<in> set (live s') \<and> \<not> isCameraActive (cam s')"
proof -
  obtain s1 out1 where o: "cam_step OpenClick s = Some (s1, out1)"
    using assms(2) by (auto split: option.splits)
  then obtain s2 out2 where g: "cam_step (Granted sid) s1 = Some (s2, out2)"
    using assms(2) by (auto split: option.splits)
  then obtain outs2 where run: "cam_run es s2 = Some (s', outs2)"
    using assms(2) o by (auto split: option.splits)
  have r1: "cam_reach s1"
    using assms(1) o by (rule cam_reach.cam_event)
  have r2: "cam_reach s2"
    using r1 g by (rule cam_reach.cam_event)
  have "\<not> video_mounted s1"
    using cam_reach_inv [OF r1] by (simp add: cam_inv_def video_mounted_def)
  with g have "sid \<in> set (live s2)"
    by (auto simp: startCamera_granted_def Let_def split: if_splits)
  with cam_run_reach [OF r2 run] cam_reach_inv show ?thesis
    by (auto simp: cam_inv_def)
qed

theorem granted_stream_never_released_witness:
  "(7::nat) \<in> set (live (fst (the (cam_run [OpenClick, Granted 7, Unmount] (camera_sys_initial None))))) \<and>
   \<not> isCameraActive (cam (fst (the (cam_run [OpenClick, Granted 7, Unmount] (camera_sys_initial None)))))"
proof (rule granted_stream_never_released [of "camera_sys_initial None" _ "[Unmount]" _
      "snd (the (cam_run [OpenClick, Granted 7, Unmount] (camera_sys_initial None)))"])
  show "cam_reach (camera_sys_initial None)"
    by (rule cam_start)
qed (simp add: camera_sys_initial_def camera_initial_def startCamera_request_def
       startCamera_granted_def video_mounted_def cam_unmount_def)

text \<open>
  A refused camera request leaves
  the component with no active camera, the permission recorded as refused and the
  message of the refusal shown, and the Open Camera button is offered again when no
  picture is held; the messages for a refused permission, a missing device, a busy
  device and any other failure are pairwise distinct.
\<close>

theorem camera_denial_message:
  assumes "mounted s" and "0 < pending s"
  shows "cam_step (Denied err) s = Some (startCamera_denied err s, None) \<and>
         \<not> isCameraActive (cam (startCamera_denied err s)) \<and>
         hasPermission (cam (startCamera_denied err s)) = Some False \<and>
         errorMessage (cam (startCamera_denied err s)) = Some (camera_error_message err) \<and>
         (capturedImage (cam s) = None \<longrightarrow> cam_step OpenClick (startCamera_denied err s) \<noteq> None) \<and>
         distinct (map camera_error_message
           [Some ''NotAllowedError'', Some ''NotFoundError'', Some ''NotReadableError'', None])"
  using assms by (simp add: startCamera_denied_def camera_error_message_def default_camera_message_def)

theorem camera_denial_message_witness:
  "cam_step (Denied (Some ''NotFoundError'')) (startCamera_request (camera_sys_initial None)) =
     Some (startCamera_denied (Some ''NotFoundError'') (startCamera_request (camera_sys_initial None)), None) \<and>
   \<not> isCameraActive (cam (startCamera_denied (Some ''NotFoundError'') (startCamera_request (camera_sys_initial None)))) \<and>
   hasPermission (cam (startCamera_denied (Some ''NotFoundError'') (startCamera_request (camera_sys_initial None)))) = Some False \<and>
   errorMessage (cam (startCamera_denied (Some ''NotFoundError'') (startCamera_request (camera_sys_initial None)))) =
     Some (camera_error_message (Some ''NotFoundError'')) \<and>
   cam_step OpenClick (startCamera_denied (Some ''NotFoundError'') (startCamera_request (camera_sys_initial None))) \<noteq> None \<and>
   distinct (map camera_error_message
     [Some ''NotAllowedError'', Some ''NotFoundError'', Some ''NotReadableError'', None])"
proof -
  have m: "mounted (startCamera_request (camera_sys_initial None))"
    and p: "0 < pending (startCamera_request (camera_sys_initial None))"
    and c: "capturedImage (cam (startCamera_request (camera_sys_initial None))) = None"
    by (simp_all add: startCamera_request_def camera_sys_initial_def camera_initial_def)
  from camera_denial_message [OF m p, of "Some ''NotFoundError''"] c show ?thesis
    by blast
qed

text \<open>
  The capture and cancel handlers themselves honour the release
  contract: from a state where the video element is rendered and a stream is held,
  a capture passes the picture to \<open>onCapture\<close>, keeps it as the captured image and
  stops every track of the stream, and a cancel stops them too; both leave the camera
  inactive. (By C25 the component never reaches such a state.)
\<close>

theorem capture_and_cancel_release:
  assumes "video_mounted s" and "cam_stream (cam s) = Some sid"
  shows "cam_step (CaptureClick url) s = Some (captureImage url s) \<and>
         snd (captureImage url s) = Some url \<and>
         capturedImage (cam (fst (captureImage url s))) = Some url \<and>
         sid \<notin> set (live (fst (captureImage url s))) \<and>
         \<not> isCameraActive (cam (fst (captureImage url s))) \<and>
         cam_step CancelClick s = Some (stopCamera s, None) \<and>
         sid \<notin> set (live (stopCamera s)) \<and> \<not> isCameraActive (cam (stopCamera s))"
  using assms by (simp add: captureImage_def stopCamera_def stop_stream_def)

theorem capture_and_cancel_release_witness:
  "cam_step (CaptureClick ''data:image/jpeg;base64,/9j/'')
     \<lparr>cam = (camera_initial None)\<lparr>isCameraActive := True, cam_stream := Some 3\<rparr>,
      live = [3], pending = 0, mounted = True\<rparr> =
   Some (captureImage ''data:image/jpeg;base64,/9j/''
     \<lparr>cam = (camera_initial None)\<lparr>isCameraActive := True, cam_stream := Some 3\<rparr>,
      live = [3], pending = 0, mounted = True\<rparr>) \<and>
   snd (captureImage ''data:image/jpeg;base64,/9j/''
     \<lparr>cam = (camera_initial None)\<lparr>isCameraActive := True, cam_stream := Some 3\<rparr>,
      live = [3], pending = 0, mounted = True\<rparr>) = Some ''data:image/jpeg;base64,/9j/'' \<and>
   capturedImage (cam (fst (captureImage ''data:image/jpeg;base64,/9j/''
     \<lparr>cam = (camera_initial None)\<lparr>isCameraActive := True, cam_stream := Some 3\<rparr>,
      live = [3], pending = 0, mounted = True\<rparr>))) = Some ''data:image/jpeg;base64,/9j/'' \<and>
   (3::nat) \<notin> set (live (fst (captureImage ''data:image/jpeg;base64,/9j/''
     \<lparr>cam = (camera_initial None)\<lparr>isCameraActive := True, cam_stream := Some 3\<rparr>,
      live = [3], pending = 0, mounted = True\<rparr>))) \<and>
   \<not> isCameraActive (cam (fst (captureImage ''data:image/jpeg;base64,/9j/''
     \<lparr>cam = (camera_initial None)\<lparr>isCameraActive := True, cam_stream := Some 3\<rparr>,
      live = [3], pending = 0, mounted = True\<rparr>))) \<and>
   cam_step CancelClick
     \<lparr>cam = (camera_initial None)\<lparr>isCameraActive := True, cam_stream := Some 3\<rparr>,
      live = [3], pending = 0, mounted = True\<rparr> =
   Some (stopCamera \<lparr>cam = (camera_initial None)\<lparr>isCameraActive := True, cam_stream := Some 3\<rparr>,
      live = [3], pending = 0, mounted = True\<rparr>, None) \<and>
   (3::nat) \<notin> set (live (stopCamera \<lparr>cam = (camera_initial None)\<lparr>isCameraActive := True, cam_stream := Some 3\<rparr>,
      live = [3], pending = 0, mounted = True\<rparr>)) \<and>
   \<not> isCameraActive (cam (stopCamera \<lparr>cam = (camera_initial None)\<lparr>isCameraActive := True, cam_stream := Some 3\<rparr>,
      live = [3], pending = 0, mounted = True\<rparr>))"
  by (rule capture_and_cancel_release) (simp_all add: video_mounted_def)

text \<open>
  C30 (safety, spec section 4.2 file strategy). Whenever the upload component
  passes a file to its parent, the file is the one the user selected, its declared
  type contains \<open>image\<close>, its size is at most 5 MiB, the error is cleared, and once
  the started read completes the preview shows the file's data URL.
\<close>

theorem upload_passes_only_valid:
  assumes "handleFileChange sel fu = (fu', Some f, rd)"
  shows "sel = Some f \<and> sublist ''image'' (file_type f) \<and> file_size f \<le> 5 * 1024 * 1024 \<and>
         fu_error fu' = None \<and> rd = Some f \<and>
         fu_preview (fu_onload (read_as_data_url f) fu') = Some (read_as_data_url f)"
  using handleFileChange_passes [OF assms]
  by (simp add: image_type_ok_sublist max_upload_size_def fu_onload_def read_as_data_url_def)

theorem upload_passes_only_valid_witness:
  "Some (sample_file ''image/png'' 2048) = Some (sample_file ''image/png'' 2048) \<and>
   sublist ''image'' (file_type (sample_file ''image/png'' 2048)) \<and>
   file_size (sample_file ''image/png'' 2048) \<le> 5 * 1024 * 1024 \<and>
   fu_error (fu_initial\<lparr>fu_error := None\<rparr>) = None \<and>
   Some (sample_file ''image/png'' 2048) = Some (sample_file ''image/png'' 2048) \<and>
   fu_preview (fu_onload (read_as_data_url (sample_file ''image/png'' 2048)) (fu_initial\<lparr>fu_error := None\<rparr>)) =
     Some (read_as_data_url (sample_file ''image/png'' 2048))"
  by (rule upload_passes_only_valid)
    (simp add: handleFileChange_def image_type_ok_def max_upload_size_def sample_file_def)

text \<open>
  C12 (error). A selected file whose type does not contain \<open>image\<close>, or which is
  larger than 5 MiB, is rejected: nothing is passed to the parent, no read is
  started, the preview is unchanged and the matching message is shown, the type
  check coming first.
\<close>

theorem upload_rejects_invalid:
  assumes "\<not> (sublist ''image'' (file_type f) \<and> file_size f \<le> 5 * 1024 * 1024)"
  shows "snd (handleFileChange (Some f) fu) = (None, None) \<and>
         fu_preview (fst (handleFileChange (Some f) fu)) = fu_preview fu \<and>
         fu_error (fst (handleFileChange (Some f) fu)) =
           Some (if sublist ''image'' (file_type f) then size_error_message else type_error_message)"
  using assms by (auto simp: handleFileChange_def image_type_ok_sublist max_upload_size_def)

theorem upload_rejects_invalid_witness:
  "snd (handleFileChange (Some (sample_file ''image/png'' 6000000)) fu_initial) = (None, None) \<and>
   fu_preview (fst (handleFileChange (Some (sample_file ''image/png'' 6000000)) fu_initial)) = fu_preview fu_initial \<and>
   fu_error (fst (handleFileChange (Some (sample_file ''image/png'' 6000000)) fu_initial)) =
     Some (if sublist ''image'' (file_type (sample_file ''image/png'' 6000000)) then size_error_message else type_error_message)"
  by (rule upload_rejects_invalid) (simp add: sample_file_def)

text \<open>
  C31 (a finding). The handler passes a file on exactly when \<open>image\<close> occurs
  somewhere in its declared type and its size is at most 5 MiB: the type test is an
  unanchored match, not a test for an \<open>image/\<close> media type, so a file declared as an
  OpenDocument image document, which is not an image type, is accepted and handed
  to the form.
\<close>

theorem non_image_type_accepted:
  "(fst (snd (handleFileChange (Some f) fu)) = Some f \<longleftrightarrow>
      sublist ''image'' (file_type f) \<and> file_size f \<le> max_upload_size) \<and>
   fst (snd (handleFileChange (Some (sample_file ''application/vnd.oasis.opendocument.image'' 2048)) fu)) =
     Some (sample_file ''application/vnd.oasis.opendocument.image'' 2048) \<and>
   \<not> prefix ''image/'' ''application/vnd.oasis.opendocument.image''"
proof -
  have "fst (snd (handleFileChange (Some f) fu)) = Some f \<longleftrightarrow>
          sublist ''image'' (file_type f) \<and> file_size f \<le> max_upload_size"
    by (auto simp: handleFileChange_def image_type_ok_sublist [symmetric] not_le)
  moreover have "sublist ''image'' ''application/vnd.oasis.opendocument.image''"
    by (simp add: sublist_code)
  ultimately show ?thesis
    by (auto simp: handleFileChange_def image_type_ok_sublist max_upload_size_def sample_file_def)
qed

theorem non_image_type_accepted_witness:
  "(fst (snd (handleFileChange (Some (sample_file ''image/png'' 6000000)) fu_initial)) = Some (sample_file ''image/png'' 6000000) \<longleftrightarrow>
      sublist ''image'' (file_type (sample_file ''image/png'' 6000000)) \<and> file_size (sample_file ''image/png'' 6000000) \<le> max_upload_size) \<and>
   fst (snd (handleFileChange (Some (sample_file ''application/vnd.oasis.opendocument.image'' 2048)) fu_initial)) =
     Some (sample_file ''application/vnd.oasis.opendocument.image'' 2048) \<and>
   \<not> prefix ''image/'' ''application/vnd.oasis.opendocument.image''"
  by (rule non_image_type_accepted)

end
