(* ===== verification/Forms.thy ===== *)
theory Forms
  imports Store Capture
begin

text \<open>
  The public registration page, \<open>src/unnamed/part_002\<close> (\<open>RegistrationForm\<close>),
  composed with the store and with the file-upload component. The zod schema it
  shares with the edit page is \<open>schema_errors\<close>; zod's e-mail test and the
  \<open>Date\<close> comparison of the date of birth are parameters of the model
  (\<open>form_env\<close>), since their code is a library's and the clock's. The form's
  inputs are the values react-hook-form reads from the fields; the file upload's
  asynchronous reads are taken to complete right after the selection.
\<close>

section \<open>The validation schema\<close>

record form_values =
  fv_fullName :: string
  fv_email :: string
  fv_phone :: string
  fv_address :: string
  fv_gender :: string
  fv_dateOfBirth :: string

record form_env =
  email_ok :: "string \<Rightarrow> bool"
  date_in_past :: "string \<Rightarrow> bool"

text \<open>\<open>registrationSchema\<close> (lines 12--25): the failed checks, each with the field
  and the message the form shows under it, in the schema's order.\<close>

definition schema_errors :: "form_env \<Rightarrow> form_values \<Rightarrow> (string \<times> string) list" where
  "schema_errors env v =
     (if length (fv_fullName v) < 3
      then [(''fullName'', ''Full name is required and must be at least 3 characters'')] else []) @
     (if email_ok env (fv_email v) then [] else [(''email'', ''Invalid email address'')]) @
     (if length (fv_phone v) < 10 then [(''phone'', ''Phone number must be at least 10 digits'')] else []) @
     (if length (fv_address v) < 5 then [(''address'', ''Address is required'')] else []) @
     (if parse_gender (fv_gender v) = None then [(''gender'', ''Please select a gender'')] else []) @
     (if date_in_past env (fv_dateOfBirth v) then [] else [(''dateOfBirth'', ''Date of birth must be in the past'')])"

text \<open>\<open>handleSubmit(onSubmit)\<close> with the zod resolver: the errors, or the parsed
  values as the \<open>RegistrantFormData\<close> the handler builds before it adds the photo.\<close>

definition validate_form :: "form_env \<Rightarrow> form_values \<Rightarrow> (string \<times> string) list + registrant_form_data" where
  "validate_form env v =
     (let errs = schema_errors env v
      in case parse_gender (fv_gender v) of
           None \<Rightarrow> Inl errs
         | Some g \<Rightarrow>
             if errs \<noteq> [] then Inl errs
             else Inr \<lparr>fd_fullName = fv_fullName v, fd_email = fv_email v, fd_phone = fv_phone v,
                       fd_address = fv_address v, fd_gender = g, fd_dateOfBirth = fv_dateOfBirth v,
                       fd_photoData = None, fd_photo = None\<rparr>)"

section \<open>Photo input shared by both forms\<close>

datatype upload_type = UploadCamera | UploadFile

text \<open>\<open>handleFileUpload\<close>'s \<open>reader.onload\<close> (lines 51--59; the same code is in
  \<open>EditRegistrant.tsx\<close>, lines 82--90): a truthy result becomes the photo.\<close>

definition parent_onload :: "string \<Rightarrow> string \<Rightarrow> string" where
  "parent_onload result photo = (if result \<noteq> [] then result else photo)"

text \<open>A selection in the file-upload component: its own handler, its preview read,
  and the parent's read of the file passed to \<open>onFileSelect\<close>.\<close>

definition upload_select :: "js_file option \<Rightarrow> file_upload \<Rightarrow> string \<Rightarrow> file_upload \<times> string" where
  "upload_select sel fu photo =
     (let (fu1, cb, rd) = handleFileChange sel fu;
          fu2 = (case rd of None \<Rightarrow> fu1 | Some f \<Rightarrow> fu_onload (read_as_data_url f) fu1)
      in (fu2, case cb of None \<Rightarrow> photo | Some f \<Rightarrow> parent_onload (read_as_data_url f) photo))"

text \<open>The upload's clear button: its handler and the parent's read of the file it
  passes.\<close>

definition upload_clear :: "file_upload \<Rightarrow> string \<Rightarrow> file_upload \<times> string" where
  "upload_clear fu photo =
     (let (fu1, f) = fu_clearImage fu in (fu1, parent_onload (read_as_data_url f) photo))"

section \<open>The registration form\<close>

text \<open>The component's state (lines 30--33), the field values and errors of
  react-hook-form, the state of the photo child the toggle shows (the file upload,
  or the camera together with the browser's streams, \<open>camera_sys\<close>) and the last
  alert.\<close>

record reg_form =
  rf_values :: form_values
  rf_errors :: "(string \<times> string) list"
  rf_photoData :: string
  rf_isSubmitting :: bool
  submitSuccess :: bool
  uploadType :: upload_type
  rf_upload :: file_upload
  rf_camera :: camera_sys
  rf_alert :: "string option"

text \<open>\<open>defaultValues: { gender: 'male' }\<close> (lines 42--44); the other fields read empty.\<close>

definition default_values :: form_values where
  "default_values =
     \<lparr>fv_fullName = [], fv_email = [], fv_phone = [], fv_address = [], fv_gender = ''male'',
      fv_dateOfBirth = []\<rparr>"

definition reg_form_initial :: reg_form where
  "reg_form_initial =
     \<lparr>rf_values = default_values, rf_errors = [], rf_photoData = [], rf_isSubmitting = False,
      submitSuccess = False, uploadType = UploadCamera, rf_upload = fu_initial,
      rf_camera = camera_sys_initial None, rf_alert = None\<rparr>"

definition photo_alert :: string where
  "photo_alert = ''Please capture or upload a photo''"

text \<open>\<open>handlePhotoCapture\<close> (lines 47--49), the camera's \<open>onCapture\<close>.\<close>

definition handlePhotoCapture :: "string \<Rightarrow> reg_form \<Rightarrow> reg_form" where
  "handlePhotoCapture imageSrc rf = rf\<lparr>rf_photoData := imageSrc\<rparr>"

text \<open>The toggle (lines 257--286): \<open>setUploadType\<close> with the current value changes
  nothing; another value unmounts the shown child (the camera's cleanup runs) and
  mounts a fresh one, the camera without \<open>existingImage\<close> (line 283).\<close>

definition choose_upload :: "upload_type \<Rightarrow> reg_form \<Rightarrow> reg_form" where
  "choose_upload t rf =
     (if t = uploadType rf then rf
      else rf\<lparr>uploadType := t, rf_upload := fu_initial,
              rf_camera := (if t = UploadCamera then camera_sys_initial None else cam_unmount (rf_camera rf))\<rparr>)"

text \<open>Submission (lines 61--89) after the resolver: the photo guard, then
  \<open>addRegistrant\<close> with the photo, the success flag and the reset of the fields and
  the photo.\<close>

definition reg_onSubmit :: "form_env \<Rightarrow> add_env \<Rightarrow> reg_form \<times> local_storage \<Rightarrow> reg_form \<times> local_storage" where
  "reg_onSubmit fenv aenv s =
     (let (rf, st) = s
      in case validate_form fenv (rf_values rf) of
           Inl errs \<Rightarrow> (rf\<lparr>rf_errors := errs\<rparr>, st)
         | Inr data \<Rightarrow>
             if rf_photoData rf = [] then (rf\<lparr>rf_errors := [], rf_alert := Some photo_alert\<rparr>, st)
             else (let (r, st') = addRegistrant (data\<lparr>fd_photoData := Some (rf_photoData rf)\<rparr>) aenv st
                   in (rf\<lparr>rf_errors := [], submitSuccess := True, rf_values := default_values,
                          rf_photoData := [], rf_isSubmitting := False\<rparr>, st')))"

datatype form_event =
  EditValues form_values | ChooseUpload upload_type | CameraEvent cam_event
  | FileChosen "js_file option" | FileCleared | SubmitForm add_env | SuccessTimeout

text \<open>One event on the page, enabled when the control is rendered: the form only
  while no success message is shown (line 100), the camera or the upload by the
  toggle (lines 282--286), the upload's file input while its drop zone is shown
  and its clear button with a preview, the camera's own events (\<open>cam_step\<close>), whose
  \<open>onCapture\<close> value becomes the photo, the submit
  button while not submitting (line 292). Switching the toggle remounts the upload
  component, as does the form's reappearance after the success message.\<close>

fun reg_step :: "form_env \<Rightarrow> form_event \<Rightarrow> reg_form \<times> local_storage \<Rightarrow> (reg_form \<times> local_storage) option" where
  "reg_step fenv (EditValues v) (rf, st) =
     (if submitSuccess rf then None else Some (rf\<lparr>rf_values := v\<rparr>, st))"
| "reg_step fenv (ChooseUpload t) (rf, st) =
     (if submitSuccess rf then None else Some (choose_upload t rf, st))"
| "reg_step fenv (CameraEvent ce) (rf, st) =
     (if submitSuccess rf \<or> uploadType rf \<noteq> UploadCamera then None
      else case cam_step ce (rf_camera rf) of
             None \<Rightarrow> None
           | Some (c, None) \<Rightarrow> Some (rf\<lparr>rf_camera := c\<rparr>, st)
           | Some (c, Some img) \<Rightarrow> Some (handlePhotoCapture img (rf\<lparr>rf_camera := c\<rparr>), st))"
| "reg_step fenv (FileChosen sel) (rf, st) =
     (if submitSuccess rf \<or> uploadType rf \<noteq> UploadFile \<or> \<not> file_input_enabled (rf_upload rf) then None
      else Some (let (fu, p) = upload_select sel (rf_upload rf) (rf_photoData rf)
                 in (rf\<lparr>rf_upload := fu, rf_photoData := p\<rparr>, st)))"
| "reg_step fenv FileCleared (rf, st) =
     (if submitSuccess rf \<or> uploadType rf \<noteq> UploadFile \<or> fu_preview (rf_upload rf) = None then None
      else Some (let (fu, p) = upload_clear (rf_upload rf) (rf_photoData rf)
                 in (rf\<lparr>rf_upload := fu, rf_photoData := p\<rparr>, st)))"
| "reg_step fenv (SubmitForm aenv) (rf, st) =
     (if submitSuccess rf \<or> rf_isSubmitting rf then None else Some (reg_onSubmit fenv aenv (rf, st)))"
| "reg_step fenv SuccessTimeout (rf, st) =
     (if submitSuccess rf
      then Some (rf\<lparr>submitSuccess := False, rf_upload := fu_initial,
                    rf_camera := (if uploadType rf = UploadCamera then camera_sys_initial None else rf_camera rf)\<rparr>, st)
      else None)"

fun reg_run :: "form_env \<Rightarrow> form_event list \<Rightarrow> reg_form \<times> local_storage \<Rightarrow> (reg_form \<times> local_storage) option" where
  "reg_run fenv [] s = Some s"
| "reg_run fenv (e # es) s = (case reg_step fenv e s of None \<Rightarrow> None | Some s' \<Rightarrow> reg_run fenv es s')"

text \<open>A permissive environment for examples: every e-mail and date passes.\<close>

definition sample_fenv :: form_env where
  "sample_fenv = \<lparr>email_ok = (\<lambda>_. True), date_in_past = (\<lambda>_. True)\<rparr>"

definition sample_values :: form_values where
  "sample_values =
     \<lparr>fv_fullName = ''Ada Lovelace'', fv_email = ''ada@example.org'', fv_phone = ''0123456789'',
      fv_address = ''1 Main Street'', fv_gender = ''female'', fv_dateOfBirth = ''1990-04-01''\<rparr>"

text \<open>The states of the page reachable from its first render, over a storage
  left by anything before.\<close>

inductive reg_reach :: "form_env \<Rightarrow> reg_form \<times> local_storage \<Rightarrow> bool" for fenv where
  reg_start: "reg_reach fenv (reg_form_initial, st)"
| reg_event: "reg_reach fenv s \<Longrightarrow> reg_step fenv e s = Some s' \<Longrightarrow> reg_reach fenv s'"

section \<open>Lemmas\<close>

lemma schema_errors_gender: "schema_errors env v = [] \<Longrightarrow> parse_gender (fv_gender v) \<noteq> None"
  by (auto simp: schema_errors_def split: if_splits)

lemma validate_form_Inl: "schema_errors env v \<noteq> [] \<Longrightarrow> validate_form env v = Inl (schema_errors env v)"
  by (simp add: validate_form_def split: option.splits)

lemma validate_form_Inr: "validate_form env v = Inr data \<Longrightarrow> schema_errors env v = []"
  by (auto simp: validate_form_def Let_def split: option.splits if_splits)

lemma validate_form_isl: "isl (validate_form env v) \<longleftrightarrow> schema_errors env v \<noteq> []"
proof (cases "parse_gender (fv_gender v)")
  case None
  then have "schema_errors env v \<noteq> []"
    using schema_errors_gender by blast
  with None show ?thesis
    by (simp add: validate_form_def del: parse_gender.simps)
next
  case (Some g)
  then show ?thesis
    by (simp add: validate_form_def Let_def del: parse_gender.simps)
qed

lemma reg_onSubmit_invalid:
  "validate_form fenv (rf_values rf) = Inl errs \<Longrightarrow> reg_onSubmit fenv aenv (rf, st) = (rf\<lparr>rf_errors := errs\<rparr>, st)"
  by (simp add: reg_onSubmit_def)

lemma reg_onSubmit_no_photo:
  "validate_form fenv (rf_values rf) = Inr data \<Longrightarrow> rf_photoData rf = [] \<Longrightarrow>
   reg_onSubmit fenv aenv (rf, st) = (rf\<lparr>rf_errors := [], rf_alert := Some photo_alert\<rparr>, st)"
  by (simp add: reg_onSubmit_def)

lemma reg_onSubmit_valid:
  assumes "validate_form fenv (rf_values rf) = Inr data" and "rf_photoData rf \<noteq> []"
  shows "reg_onSubmit fenv aenv (rf, st) =
           (rf\<lparr>rf_errors := [], submitSuccess := True, rf_values := default_values,
               rf_photoData := [], rf_isSubmitting := False\<rparr>,
            snd (addRegistrant (data\<lparr>fd_photoData := Some (rf_photoData rf)\<rparr>) aenv st))"
  using assms by (simp add: reg_onSubmit_def case_prod_beta)

lemma read_as_data_url_nonempty: "read_as_data_url f \<noteq> []"
  by (simp add: read_as_data_url_def)

lemma upload_clear_photo: "snd (upload_clear fu p) = read_as_data_url empty_file"
  by (simp add: upload_clear_def fu_clearImage_def parent_onload_def read_as_data_url_nonempty)

lemma reg_step_not_submitting:
  "\<not> rf_isSubmitting rf \<Longrightarrow> reg_step fenv e (rf, st) = Some (rf', st') \<Longrightarrow> \<not> rf_isSubmitting rf'"
  by (cases e) (auto simp: handlePhotoCapture_def choose_upload_def reg_onSubmit_def case_prod_beta Let_def
      split: if_splits sum.splits option.splits)

lemma reg_reach_not_submitting: "reg_reach fenv s \<Longrightarrow> \<not> rf_isSubmitting (fst s)"
proof (induction rule: reg_reach.induct)
  case (reg_start st)
  show ?case
    by (simp add: reg_form_initial_def)
next
  case (reg_event s e s')
  then show ?case
    using reg_step_not_submitting [of "fst s" fenv e "snd s" "fst s'" "snd s'"] by simp
qed

lemma upload_select_accepted:
  "image_type_ok (file_type f) \<Longrightarrow> file_size f \<le> max_upload_size \<Longrightarrow>
   snd (upload_select (Some f) fu p) = read_as_data_url f"
  by (simp add: upload_select_def handleFileChange_accept parent_onload_def read_as_data_url_nonempty)

lemma validate_form_ok: "schema_errors env v = [] \<Longrightarrow> \<exists>data. validate_form env v = Inr data"
  using validate_form_isl [of env v] by (cases "validate_form env v") simp_all

lemma submit_sequence:
  assumes "\<not> submitSuccess rf" and "\<not> rf_isSubmitting rf" and "validate_form fenv v = Inr data"
    and "image_type_ok (file_type f)" and "file_size f \<le> max_upload_size"
  shows "\<exists>rf'. reg_run fenv [EditValues v, ChooseUpload UploadCamera, ChooseUpload UploadFile,
                             FileChosen (Some f), SubmitForm aenv] (rf, st) =
           Some (rf', snd (addRegistrant (data\<lparr>fd_photoData := Some (read_as_data_url f)\<rparr>) aenv st))"
proof -
  let ?rf0 = "choose_upload UploadCamera (rf\<lparr>rf_values := v\<rparr>)"
  let ?rf1 = "choose_upload UploadFile ?rf0"
  have r1: "uploadType ?rf1 = UploadFile \<and> rf_upload ?rf1 = fu_initial \<and> rf_photoData ?rf1 = rf_photoData rf \<and>
            \<not> submitSuccess ?rf1 \<and> \<not> rf_isSubmitting ?rf1"
    using assms(1,2) by (simp add: choose_upload_def)
  let ?fp = "upload_select (Some f) fu_initial (rf_photoData rf)"
  have p: "snd ?fp = read_as_data_url f"
    using assms(4,5) by (rule upload_select_accepted)
  let ?rf2 = "?rf1\<lparr>rf_upload := fst ?fp, rf_photoData := read_as_data_url f\<rparr>"
  have s3: "reg_step fenv (FileChosen (Some f)) (?rf1, st) = Some (?rf2, st)"
    using r1 p by (simp add: case_prod_beta fu_initial_def)
  have s4: "reg_step fenv (SubmitForm aenv) (?rf2, st) =
              Some (reg_onSubmit fenv aenv (?rf2, st))"
    using r1 by simp
  have "reg_onSubmit fenv aenv (?rf2, st) =
          (?rf2\<lparr>rf_errors := [], submitSuccess := True, rf_values := default_values,
                rf_photoData := [], rf_isSubmitting := False\<rparr>,
           snd (addRegistrant (data\<lparr>fd_photoData := Some (read_as_data_url f)\<rparr>) aenv st))"
    using assms(3) r1 by (simp add: reg_onSubmit_valid read_as_data_url_nonempty choose_upload_def)
  note s5 = this
  have s1: "reg_step fenv (EditValues v) (rf, st) = Some (rf\<lparr>rf_values := v\<rparr>, st)"
    using assms(1) by simp
  have s2: "reg_step fenv (ChooseUpload UploadCamera) (rf\<lparr>rf_values := v\<rparr>, st) = Some (?rf0, st)"
    using assms(1) by simp
  have s2': "reg_step fenv (ChooseUpload UploadFile) (?rf0, st) = Some (?rf1, st)"
    using assms(1) by (simp add: choose_upload_def)
  show ?thesis
    by (simp only: reg_run.simps option.case s1 s2 s2' s3 s4 s5) simp
qed

section \<open>Properties of the registration page\<close>

text \<open>
  C32 (functional, the submission path of spec section 2). A submission whose
  values pass the schema and which holds a photo appends to the store exactly the
  record \<open>addRegistrant\<close> builds from the values and the photo: its name is the
  form's, its photo the form's and its \<open>photoPath\<close> the one of the submission time;
  the page then shows the success message with the fields and the photo reset.
\<close>

theorem registration_stores_record:
  assumes "validate_form fenv (rf_values rf) = Inr data" and "rf_photoData rf \<noteq> []"
  shows "stored (snd (reg_onSubmit fenv aenv (rf, st))) =
           stored st @ [new_registrant (data\<lparr>fd_photoData := Some (rf_photoData rf)\<rparr>) aenv] \<and>
         fullName (new_registrant (data\<lparr>fd_photoData := Some (rf_photoData rf)\<rparr>) aenv) = fv_fullName (rf_values rf) \<and>
         photoData (new_registrant (data\<lparr>fd_photoData := Some (rf_photoData rf)\<rparr>) aenv) = Some (rf_photoData rf) \<and>
         photoPath (new_registrant (data\<lparr>fd_photoData := Some (rf_photoData rf)\<rparr>) aenv) = photo_file_name (env_now aenv) \<and>
         submitSuccess (fst (reg_onSubmit fenv aenv (rf, st))) \<and>
         rf_photoData (fst (reg_onSubmit fenv aenv (rf, st))) = [] \<and>
         rf_values (fst (reg_onSubmit fenv aenv (rf, st))) = default_values"
proof -
  have "fd_fullName data = fv_fullName (rf_values rf)"
    using assms(1) by (auto simp: validate_form_def Let_def split: option.splits if_splits)
  with assms show ?thesis
    by (simp add: reg_onSubmit_valid new_registrant_def)
qed

theorem registration_stores_record_witness:
  "stored (snd (reg_onSubmit sample_fenv (sample_env ''u1'' 17)
      (reg_form_initial\<lparr>rf_values := sample_values, rf_photoData := ''data:image/png;base64,AA''\<rparr>, empty_storage))) =
     stored empty_storage @
       [new_registrant ((projr (validate_form sample_fenv sample_values))\<lparr>fd_photoData := Some ''data:image/png;base64,AA''\<rparr>)
          (sample_env ''u1'' 17)] \<and>
   fullName (new_registrant ((projr (validate_form sample_fenv sample_values))\<lparr>fd_photoData := Some ''data:image/png;base64,AA''\<rparr>)
          (sample_env ''u1'' 17)) = ''Ada Lovelace'' \<and>
   photoData (new_registrant ((projr (validate_form sample_fenv sample_values))\<lparr>fd_photoData := Some ''data:image/png;base64,AA''\<rparr>)
          (sample_env ''u1'' 17)) = Some ''data:image/png;base64,AA'' \<and>
   photoPath (new_registrant ((projr (validate_form sample_fenv sample_values))\<lparr>fd_photoData := Some ''data:image/png;base64,AA''\<rparr>)
          (sample_env ''u1'' 17)) = photo_file_name 17 \<and>
   submitSuccess (fst (reg_onSubmit sample_fenv (sample_env ''u1'' 17)
      (reg_form_initial\<lparr>rf_values := sample_values, rf_photoData := ''data:image/png;base64,AA''\<rparr>, empty_storage))) \<and>
   rf_photoData (fst (reg_onSubmit sample_fenv (sample_env ''u1'' 17)
      (reg_form_initial\<lparr>rf_values := sample_values, rf_photoData := ''data:image/png;base64,AA''\<rparr>, empty_storage))) = [] \<and>
   rf_values (fst (reg_onSubmit sample_fenv (sample_env ''u1'' 17)
      (reg_form_initial\<lparr>rf_values := sample_values, rf_photoData := ''data:image/png;base64,AA''\<rparr>, empty_storage))) =
     default_values"
proof -
  have v: "validate_form sample_fenv (rf_values (reg_form_initial\<lparr>rf_values := sample_values,
             rf_photoData := ''data:image/png;base64,AA''\<rparr>)) = Inr (projr (validate_form sample_fenv sample_values))"
    by (simp add: validate_form_def schema_errors_def sample_fenv_def sample_values_def)
  show ?thesis
    using registration_stores_record [OF v, of "sample_env ''u1'' 17" empty_storage]
    by (simp add: sample_values_def sample_env_def validate_form_def schema_errors_def sample_fenv_def)
qed

text \<open>
  A submission whose values pass the schema but which holds no photo
  shows the alert \<open>Please capture or upload a photo\<close> and writes nothing: the
  storage is unchanged and no success message is shown.
\<close>

theorem submission_without_photo_rejected:
  assumes "validate_form fenv (rf_values rf) = Inr data" and "rf_photoData rf = []"
  shows "snd (reg_onSubmit fenv aenv (rf, st)) = st \<and>
         rf_alert (fst (reg_onSubmit fenv aenv (rf, st))) = Some ''Please capture or upload a photo'' \<and>
         submitSuccess (fst (reg_onSubmit fenv aenv (rf, st))) = submitSuccess rf"
  using assms by (simp add: reg_onSubmit_no_photo photo_alert_def)

theorem submission_without_photo_rejected_witness:
  "snd (reg_onSubmit sample_fenv (sample_env ''u1'' 17) (reg_form_initial\<lparr>rf_values := sample_values\<rparr>, empty_storage)) =
     empty_storage \<and>
   rf_alert (fst (reg_onSubmit sample_fenv (sample_env ''u1'' 17) (reg_form_initial\<lparr>rf_values := sample_values\<rparr>, empty_storage))) =
     Some ''Please capture or upload a photo'' \<and>
   submitSuccess (fst (reg_onSubmit sample_fenv (sample_env ''u1'' 17) (reg_form_initial\<lparr>rf_values := sample_values\<rparr>, empty_storage))) =
     submitSuccess (reg_form_initial\<lparr>rf_values := sample_values\<rparr>)"
proof -
  have v: "validate_form sample_fenv (rf_values (reg_form_initial\<lparr>rf_values := sample_values\<rparr>)) =
             Inr (projr (validate_form sample_fenv sample_values))"
    by (simp add: validate_form_def schema_errors_def sample_fenv_def sample_values_def)
  show ?thesis
    by (rule submission_without_photo_rejected [OF v]) (simp add: reg_form_initial_def)
qed

text \<open>
  The schema accepts exactly the values with no failed check (the
  gender test included), and a submission with a failed check shows the failed
  checks' messages and neither writes nor changes anything else, whatever photo is
  held.
\<close>

theorem invalid_submission_no_write:
  "(isl (validate_form fenv v) \<longleftrightarrow> schema_errors fenv v \<noteq> []) \<and>
   (schema_errors fenv (rf_values rf) \<noteq> [] \<longrightarrow>
      reg_onSubmit fenv aenv (rf, st) = (rf\<lparr>rf_errors := schema_errors fenv (rf_values rf)\<rparr>, st))"
  by (simp add: validate_form_isl validate_form_Inl reg_onSubmit_invalid)

theorem invalid_submission_no_write_witness:
  "(isl (validate_form sample_fenv (sample_values\<lparr>fv_phone := ''555''\<rparr>)) \<longleftrightarrow>
      schema_errors sample_fenv (sample_values\<lparr>fv_phone := ''555''\<rparr>) \<noteq> []) \<and>
   schema_errors sample_fenv (sample_values\<lparr>fv_phone := ''555''\<rparr>) = [(''phone'', ''Phone number must be at least 10 digits'')] \<and>
   reg_onSubmit sample_fenv (sample_env ''u1'' 17)
      (reg_form_initial\<lparr>rf_values := sample_values\<lparr>fv_phone := ''555''\<rparr>, rf_photoData := ''data:image/png;base64,AA''\<rparr>,
       empty_storage) =
     (reg_form_initial\<lparr>rf_values := sample_values\<lparr>fv_phone := ''555''\<rparr>, rf_photoData := ''data:image/png;base64,AA'',
        rf_errors := [(''phone'', ''Phone number must be at least 10 digits'')]\<rparr>, empty_storage)"
proof -
  have e: "schema_errors sample_fenv (sample_values\<lparr>fv_phone := ''555''\<rparr>) = [(''phone'', ''Phone number must be at least 10 digits'')]"
    by (simp add: schema_errors_def sample_fenv_def sample_values_def)
  show ?thesis
    using invalid_submission_no_write [of sample_fenv "sample_values\<lparr>fv_phone := ''555''\<rparr>"
        "reg_form_initial\<lparr>rf_values := sample_values\<lparr>fv_phone := ''555''\<rparr>, rf_photoData := ''data:image/png;base64,AA''\<rparr>"
        "sample_env ''u1'' 17" empty_storage]
    by (simp add: e)
qed

text \<open>
  C35 (a finding). Clearing an uploaded picture does not clear the form's photo: the
  upload passes \<open>new File([], '')\<close> to the form, whose read yields a non-empty data
  URL without any image in it, so the photo guard passes and a submission
  stores a registrant whose \<open>photoData\<close> holds no picture.
\<close>

theorem cleared_upload_bypasses_photo_guard:
  assumes "reg_step fenv FileCleared (rf, st) = Some (rf', st')"
    and "validate_form fenv (rf_values rf) = Inr data"
  shows "st' = st \<and> rf_photoData rf' = read_as_data_url empty_file \<and> rf_photoData rf' \<noteq> [] \<and>
         \<not> sublist ''image'' (rf_photoData rf') \<and>
         stored (snd (reg_onSubmit fenv aenv (rf', st'))) =
           stored st @ [new_registrant (data\<lparr>fd_photoData := Some (read_as_data_url empty_file)\<rparr>) aenv]"
proof -
  have step: "st' = st \<and> rf' = rf\<lparr>rf_upload := fst (upload_clear (rf_upload rf) (rf_photoData rf)),
                                   rf_photoData := read_as_data_url empty_file\<rparr>"
    using assms(1) upload_clear_photo [of "rf_upload rf" "rf_photoData rf"]
    by (auto simp: case_prod_beta split: if_splits)
  have "\<not> sublist ''image'' (read_as_data_url empty_file)"
    by (simp add: read_as_data_url_def empty_file_def sublist_code)
  with step assms(2) show ?thesis
    by (simp add: reg_onSubmit_valid read_as_data_url_nonempty)
qed

theorem cleared_upload_bypasses_photo_guard_witness:
  "snd (the (reg_step sample_fenv FileCleared
      (reg_form_initial\<lparr>rf_values := sample_values, uploadType := UploadFile,
         rf_upload := fu_initial\<lparr>fu_preview := Some ''data:image/png;base64,AA''\<rparr>,
         rf_photoData := ''data:image/png;base64,AA''\<rparr>, empty_storage))) = empty_storage \<and>
   rf_photoData (fst (the (reg_step sample_fenv FileCleared
      (reg_form_initial\<lparr>rf_values := sample_values, uploadType := UploadFile,
         rf_upload := fu_initial\<lparr>fu_preview := Some ''data:image/png;base64,AA''\<rparr>,
         rf_photoData := ''data:image/png;base64,AA''\<rparr>, empty_storage)))) = ''data:application/octet-stream;base64,'' \<and>
   stored (snd (reg_onSubmit sample_fenv (sample_env ''u1'' 17) (the (reg_step sample_fenv FileCleared
      (reg_form_initial\<lparr>rf_values := sample_values, uploadType := UploadFile,
         rf_upload := fu_initial\<lparr>fu_preview := Some ''data:image/png;base64,AA''\<rparr>,
         rf_photoData := ''data:image/png;base64,AA''\<rparr>, empty_storage))))) =
     [new_registrant ((projr (validate_form sample_fenv sample_values))\<lparr>fd_photoData := Some ''data:application/octet-stream;base64,''\<rparr>)
        (sample_env ''u1'' 17)]"
proof -
  define rf where "rf = reg_form_initial\<lparr>rf_values := sample_values, uploadType := UploadFile,
         rf_upload := fu_initial\<lparr>fu_preview := Some ''data:image/png;base64,AA''\<rparr>,
         rf_photoData := ''data:image/png;base64,AA''\<rparr>"
  define rf' where "rf' = rf\<lparr>rf_upload := fu_initial, rf_photoData := ''data:application/octet-stream;base64,''\<rparr>"
  have s: "reg_step sample_fenv FileCleared (rf, empty_storage) = Some (rf', empty_storage)"
    by (simp add: rf_def rf'_def reg_form_initial_def fu_initial_def upload_clear_def fu_clearImage_def
        parent_onload_def read_as_data_url_def empty_file_def)
  have v: "validate_form sample_fenv (rf_values rf) = Inr (projr (validate_form sample_fenv sample_values))"
    by (simp add: rf_def validate_form_def schema_errors_def sample_fenv_def sample_values_def)
  have d: "read_as_data_url empty_file = ''data:application/octet-stream;base64,''"
    by (simp add: read_as_data_url_def empty_file_def)
  have "stored (snd (reg_onSubmit sample_fenv (sample_env ''u1'' 17) (rf', empty_storage))) =
          [new_registrant ((projr (validate_form sample_fenv sample_values))\<lparr>fd_photoData := Some ''data:application/octet-stream;base64,''\<rparr>)
             (sample_env ''u1'' 17)]"
    using cleared_upload_bypasses_photo_guard [OF s v, of "sample_env ''u1'' 17"] d by simp
  then show ?thesis
    using s unfolding rf_def [symmetric] by (simp add: rf'_def)
qed

text \<open>
  C36 (liveness). From every state the registration page can reach, the visitor can
  always get a registrant stored: after the success message times out (if it is
  shown), entering values the schema accepts, switching to the camera and back to
  the file upload (which remounts the upload, so its drop zone is shown), selecting
  an image of at most 5 MiB and submitting stores one more record.
\<close>

theorem registration_always_possible:
  assumes "reg_reach fenv (rf, st)" and "schema_errors fenv v = []"
    and "image_type_ok (file_type (f::js_file))" and "file_size f \<le> max_upload_size"
  shows "\<exists>es rf' st'. reg_run fenv es (rf, st) = Some (rf', st') \<and> length (stored st') = Suc (length (stored st))"
proof -
  obtain data where d: "validate_form fenv v = Inr data"
    using validate_form_ok [OF assms(2)] by blast
  have ns: "\<not> rf_isSubmitting rf"
    using reg_reach_not_submitting [OF assms(1)] by simp
  let ?es = "[EditValues v, ChooseUpload UploadCamera, ChooseUpload UploadFile, FileChosen (Some f), SubmitForm aenv]"
  let ?st' = "snd (addRegistrant (data\<lparr>fd_photoData := Some (read_as_data_url f)\<rparr>) aenv st)"
  have len: "length (stored ?st') = Suc (length (stored st))"
    by simp
  show ?thesis
  proof (cases "submitSuccess rf")
    case False
    from submit_sequence [OF False ns d assms(3,4)] len show ?thesis
      by blast
  next
    case True
    let ?rf0 = "rf\<lparr>submitSuccess := False, rf_upload := fu_initial,
                   rf_camera := (if uploadType rf = UploadCamera then camera_sys_initial None else rf_camera rf)\<rparr>"
    have t: "reg_step fenv SuccessTimeout (rf, st) = Some (?rf0, st)"
      using True by simp
    obtain rf' where "reg_run fenv ?es (?rf0, st) = Some (rf', ?st')"
      using submit_sequence [of ?rf0 fenv v data f aenv st] ns d assms(3,4) by auto
    with t have "reg_run fenv (SuccessTimeout # ?es) (rf, st) = Some (rf', ?st')"
      by simp
    with len show ?thesis
      by blast
  qed
qed

theorem registration_always_possible_witness:
  "\<exists>es rf' st'. reg_run sample_fenv es (reg_form_initial, empty_storage) = Some (rf', st') \<and>
     length (stored st') = Suc (length (stored empty_storage))"
proof (rule registration_always_possible [where v = sample_values and f = "sample_file ''image/png'' 2048"])
  show "reg_reach sample_fenv (reg_form_initial, empty_storage)"
    by (rule reg_start)
  show "schema_errors sample_fenv sample_values = []"
    by (simp add: schema_errors_def sample_fenv_def sample_values_def)
qed (simp_all add: image_type_ok_def sample_file_def max_upload_size_def)

end
