(* ===== verification/Edit.thy ===== *)
theory Edit
  imports Forms
begin

text \<open>
  The edit page, \<open>src/src/components/EditRegistrant.tsx\<close>: its state, the effect
  that loads the registrant named by the route into the form, the photo handlers it
  shares with the registration page, and the submission composed with
  \<open>updateRegistrant\<close>. The page's own schema (\<open>editSchema\<close>, lines 13--26) is written
  out and proved equal to the registration page's, so the lemmas on
  \<open>validate_form\<close> serve both pages; navigation is recorded as the path navigated to.
\<close>

section \<open>Definitions\<close>

record edit_page =
  ed_values :: form_values
  ed_errors :: "(string \<times> string) list"
  ed_photoData :: string
  ed_isSubmitting :: bool
  ed_isLoading :: bool
  ed_uploadType :: upload_type
  ed_upload :: file_upload
  ed_camera :: camera_sys
  ed_error :: "string option"
  ed_nav :: "string option"

text \<open>\<open>useForm\<close> without default values: every field reads empty.\<close>

definition blank_values :: form_values where
  "blank_values =
     \<lparr>fv_fullName = [], fv_email = [], fv_phone = [], fv_address = [], fv_gender = [], fv_dateOfBirth = []\<rparr>"

definition edit_initial :: edit_page where
  "edit_initial =
     \<lparr>ed_values = blank_values, ed_errors = [], ed_photoData = [], ed_isSubmitting = False,
      ed_isLoading = True, ed_uploadType = UploadFile, ed_upload = fu_initial,
      ed_camera = cam_unmount (camera_sys_initial None), ed_error = None, ed_nav = None\<rparr>"

definition dashboard_path :: string where
  "dashboard_path = ''/admin/dashboard''"

text \<open>\<open>editSchema\<close> (lines 13--26), written out as the page has it; it is the
  registration page's schema again, which \<open>editSchema_eq\<close> below proves.\<close>

definition editSchema_errors :: "form_env \<Rightarrow> form_values \<Rightarrow> (string \<times> string) list" where
  "editSchema_errors env v =
     (if length (fv_fullName v) < 3
      then [(''fullName'', ''Full name is required and must be at least 3 characters'')] else []) @
     (if email_ok env (fv_email v) then [] else [(''email'', ''Invalid email address'')]) @
     (if length (fv_phone v) < 10 then [(''phone'', ''Phone number must be at least 10 digits'')] else []) @
     (if length (fv_address v) < 5 then [(''address'', ''Address is required'')] else []) @
     (if parse_gender (fv_gender v) = None then [(''gender'', ''Please select a gender'')] else []) @
     (if date_in_past env (fv_dateOfBirth v) then [] else [(''dateOfBirth'', ''Date of birth must be in the past'')])"

text \<open>The page's \<open>zodResolver(editSchema)\<close> (line 45).\<close>

definition edit_validate :: "form_env \<Rightarrow> form_values \<Rightarrow> (string \<times> string) list + registrant_form_data" where
  "edit_validate env v =
     (let errs = editSchema_errors env v
      in case parse_gender (fv_gender v) of
           None \<Rightarrow> Inl errs
         | Some g \<Rightarrow>
             if errs \<noteq> [] then Inl errs
             else Inr \<lparr>fd_fullName = fv_fullName v, fd_email = fv_email v, fd_phone = fv_phone v,
                       fd_address = fv_address v, fd_gender = g, fd_dateOfBirth = fv_dateOfBirth v,
                       fd_photoData = None, fd_photo = None\<rparr>)"

text \<open>The six \<open>setValue\<close> calls of the load effect (lines 63--68).\<close>

definition values_of :: "registrant \<Rightarrow> form_values" where
  "values_of r =
     \<lparr>fv_fullName = fullName r, fv_email = email r, fv_phone = phone r, fv_address = address r,
      fv_gender = gender_name (gender r), fv_dateOfBirth = dateOfBirth r\<rparr>"

text \<open>The load effect (lines 48--76); the argument is the route's \<open>id\<close>.\<close>

definition edit_load :: "string option \<Rightarrow> edit_page \<times> local_storage \<Rightarrow> edit_page \<times> local_storage" where
  "edit_load i s =
     (let (ed, st) = s
      in case i of
           None \<Rightarrow> (ed\<lparr>ed_nav := Some dashboard_path\<rparr>, st)
         | Some rid \<Rightarrow>
             (let (reg, st1) = getRegistrantById rid st
              in case reg of
                   None \<Rightarrow> (ed\<lparr>ed_error := Some ''Registrant not found'', ed_isLoading := False\<rparr>, st1)
                 | Some r \<Rightarrow>
                     (ed\<lparr>ed_values := values_of r,
                         ed_photoData := (if js_truthy (photoData r) then the (photoData r) else ed_photoData ed),
                         ed_isLoading := False\<rparr>, st1)))"

text \<open>\<open>onSubmit\<close> (lines 92--114) after the resolver; \<open>now\<close> is \<open>Date.now()\<close> at
  the update.\<close>

definition edit_onSubmit ::
  "form_env \<Rightarrow> nat \<Rightarrow> string option \<Rightarrow> edit_page \<times> local_storage \<Rightarrow> edit_page \<times> local_storage" where
  "edit_onSubmit fenv now i s =
     (let (ed, st) = s
      in case edit_validate fenv (ed_values ed) of
           Inl errs \<Rightarrow> (ed\<lparr>ed_errors := errs\<rparr>, st)
         | Inr data \<Rightarrow>
             (case i of
                None \<Rightarrow> (ed\<lparr>ed_errors := []\<rparr>, st)
              | Some rid \<Rightarrow>
                  (let (result, st') = updateRegistrant rid (data\<lparr>fd_photoData := Some (ed_photoData ed)\<rparr>) now st
                   in case result of
                        Some _ \<Rightarrow> (ed\<lparr>ed_errors := [], ed_nav := Some dashboard_path, ed_isSubmitting := False\<rparr>, st')
                      | None \<Rightarrow> (ed\<lparr>ed_errors := [], ed_error := Some ''Failed to update registrant'',
                                    ed_isSubmitting := False\<rparr>, st'))))"

text \<open>The toggle (lines 300--329): another value unmounts the shown child and
  mounts a fresh one; the camera gets the page's current photo as
  \<open>existingImage\<close> (line 326).\<close>

definition edit_choose_upload :: "upload_type \<Rightarrow> edit_page \<Rightarrow> edit_page" where
  "edit_choose_upload t ed =
     (if t = ed_uploadType ed then ed
      else ed\<lparr>ed_uploadType := t, ed_upload := fu_initial,
              ed_camera := (if t = UploadCamera then camera_sys_initial (Some (ed_photoData ed))
                            else cam_unmount (ed_camera ed))\<rparr>)"

datatype edit_event =
  EdEditValues form_values | EdChooseUpload upload_type | EdCameraEvent cam_event
  | EdFileChosen "js_file option" | EdFileCleared | EdSubmit nat

text \<open>One event on the page: the form is rendered once loaded, without an error,
  and while the page has not navigated away (lines 116--141); the controls are
  those of the registration page, with the camera or the upload by the toggle
  (lines 325--329) and the submit button disabled while submitting (line 352).\<close>

fun edit_step ::
  "form_env \<Rightarrow> string option \<Rightarrow> edit_event \<Rightarrow> edit_page \<times> local_storage \<Rightarrow> (edit_page \<times> local_storage) option" where
  "edit_step fenv i e (ed, st) =
     (if ed_isLoading ed \<or> ed_error ed \<noteq> None \<or> ed_nav ed \<noteq> None then None
      else case e of
        EdEditValues v \<Rightarrow> Some (ed\<lparr>ed_values := v\<rparr>, st)
      | EdChooseUpload t \<Rightarrow> Some (edit_choose_upload t ed, st)
      | EdCameraEvent ce \<Rightarrow>
          (if ed_uploadType ed = UploadCamera
           then (case cam_step ce (ed_camera ed) of
                   None \<Rightarrow> None
                 | Some (c, None) \<Rightarrow> Some (ed\<lparr>ed_camera := c\<rparr>, st)
                 | Some (c, Some img) \<Rightarrow> Some (ed\<lparr>ed_camera := c, ed_photoData := img\<rparr>, st))
           else None)
      | EdFileChosen sel \<Rightarrow>
          (if ed_uploadType ed = UploadFile \<and> file_input_enabled (ed_upload ed)
           then Some (let (fu, p) = upload_select sel (ed_upload ed) (ed_photoData ed)
                      in (ed\<lparr>ed_upload := fu, ed_photoData := p\<rparr>, st))
           else None)
      | EdFileCleared \<Rightarrow>
          (if ed_uploadType ed = UploadFile \<and> fu_preview (ed_upload ed) \<noteq> None
           then Some (let (fu, p) = upload_clear (ed_upload ed) (ed_photoData ed)
                      in (ed\<lparr>ed_upload := fu, ed_photoData := p\<rparr>, st))
           else None)
      | EdSubmit now \<Rightarrow>
          (if ed_isSubmitting ed then None else Some (edit_onSubmit fenv now i (ed, st))))"

text \<open>A stored registrant with a photo, for the examples.\<close>

definition sample_registrant :: "string option \<Rightarrow> registrant" where
  "sample_registrant p =
     \<lparr>reg_id = ''r1'', fullName = ''Ada Lovelace'', email = ''ada@example.org'', phone = ''0123456789'',
      address = ''1 Main Street'', gender = Female, dateOfBirth = ''1990-04-01'',
      photoPath = (if js_truthy p then ''photo_1.jpg'' else []), photoData = p,
      createdAt = ''2025-01-01T00:00:00.000Z''\<rparr>"

section \<open>Lemmas\<close>

text \<open>The two pages validate alike: same checks, same messages, same parsed data.\<close>

lemma editSchema_eq: "editSchema_errors = schema_errors"
  by (simp add: fun_eq_iff editSchema_errors_def schema_errors_def)

lemma edit_validate_eq [simp]: "edit_validate = validate_form"
  by (simp add: fun_eq_iff edit_validate_def validate_form_def editSchema_eq)

lemma edit_load_found:
  "abs_store st i = Some r \<Longrightarrow>
   edit_load (Some i) (ed, st) =
     (ed\<lparr>ed_values := values_of r,
         ed_photoData := (if js_truthy (photoData r) then the (photoData r) else ed_photoData ed),
         ed_isLoading := False\<rparr>, initializeStorage st)"
  by (simp add: edit_load_def getRegistrantById_eq find_reg_map abs_store_def)

lemma edit_load_missing:
  "abs_store st i = None \<Longrightarrow>
   edit_load (Some i) (ed, st) = (ed\<lparr>ed_error := Some ''Registrant not found'', ed_isLoading := False\<rparr>, initializeStorage st)"
  by (simp add: edit_load_def getRegistrantById_eq find_reg_map abs_store_def)

lemma validate_values_of:
  "schema_errors fenv (values_of r) = [] \<Longrightarrow>
   validate_form fenv (values_of r) =
     Inr \<lparr>fd_fullName = fullName r, fd_email = email r, fd_phone = phone r, fd_address = address r,
          fd_gender = gender r, fd_dateOfBirth = dateOfBirth r, fd_photoData = None, fd_photo = None\<rparr>"
  by (simp add: validate_form_def values_of_def del: parse_gender.simps)

lemma updated_registrant_same_fields:
  "updated_registrant
     \<lparr>fd_fullName = fullName r, fd_email = email r, fd_phone = phone r, fd_address = address r,
      fd_gender = gender r, fd_dateOfBirth = dateOfBirth r, fd_photoData = Some p, fd_photo = None\<rparr> now r =
   (if p \<noteq> [] then r\<lparr>photoData := Some p, photoPath := photo_file_name now\<rparr> else r)"
  by (simp add: updated_registrant_def)

lemma abs_store_initializeStorage [simp]: "abs_store (initializeStorage st) = abs_store st"
  by (simp add: abs_store_def)

lemma edit_onSubmit_valid:
  assumes "validate_form fenv (ed_values ed) = Inr data"
  shows "edit_onSubmit fenv now (Some i) (ed, st) =
           (case abs_store st i of
              Some old \<Rightarrow> (ed\<lparr>ed_errors := [], ed_nav := Some dashboard_path, ed_isSubmitting := False\<rparr>,
                           snd (updateRegistrant i (data\<lparr>fd_photoData := Some (ed_photoData ed)\<rparr>) now st))
            | None \<Rightarrow> (ed\<lparr>ed_errors := [], ed_error := Some ''Failed to update registrant'', ed_isSubmitting := False\<rparr>,
                       initializeStorage st))"
  using assms by (simp add: edit_onSubmit_def updateRegistrant_eq case_prod_beta split: option.splits)

section \<open>Properties of the edit page\<close>

text \<open>
  C37 (a finding against spec section 8, "update preserves untouched photo").
  Opening the edit page of a registrant that has a photo and saving without touching
  the photo does not keep the photo pair: the page preloads the stored photo into its
  state and submits it as a new photo, so the store keeps the picture but replaces
  \<open>photoPath\<close> with a new \<open>photo_<now>.jpg\<close>; nothing else changes.
\<close>

theorem edit_untouched_photo_regenerates_path:
  assumes "abs_store st i = Some r" and "photoData r = Some p" and "p \<noteq> []"
    and "schema_errors fenv (values_of r) = []"
  shows "abs_store (snd (edit_onSubmit fenv now (Some i) (edit_load (Some i) (ed, st)))) =
           (abs_store st)(i \<mapsto> r\<lparr>photoPath := photo_file_name now\<rparr>) \<and>
         ed_nav (fst (edit_onSubmit fenv now (Some i) (edit_load (Some i) (ed, st)))) = Some dashboard_path"
proof -
  have u: "r\<lparr>photoData := Some p, photoPath := photo_file_name now\<rparr> = r\<lparr>photoPath := photo_file_name now\<rparr>"
    using assms(2) by (cases r) simp
  from assms show ?thesis
    by (simp add: edit_load_found edit_onSubmit_valid validate_values_of abs_store_updateRegistrant
        updated_registrant_same_fields u del: fun_upd_apply)
qed

theorem edit_untouched_photo_regenerates_path_witness:
  "abs_store (snd (edit_onSubmit sample_fenv 2 (Some ''r1'')
      (edit_load (Some ''r1'') (edit_initial,
         empty_storage\<lparr>registrants_item := Some [sample_registrant (Some ''data:image/png;base64,AA'')]\<rparr>)))) =
     (abs_store (empty_storage\<lparr>registrants_item := Some [sample_registrant (Some ''data:image/png;base64,AA'')]\<rparr>))
       (''r1'' \<mapsto> (sample_registrant (Some ''data:image/png;base64,AA''))\<lparr>photoPath := photo_file_name 2\<rparr>) \<and>
   ed_nav (fst (edit_onSubmit sample_fenv 2 (Some ''r1'')
      (edit_load (Some ''r1'') (edit_initial,
         empty_storage\<lparr>registrants_item := Some [sample_registrant (Some ''data:image/png;base64,AA'')]\<rparr>)))) =
     Some dashboard_path"
proof (rule edit_untouched_photo_regenerates_path [where p = "''data:image/png;base64,AA''"])
  show "abs_store (empty_storage\<lparr>registrants_item := Some [sample_registrant (Some ''data:image/png;base64,AA'')]\<rparr>) ''r1'' =
          Some (sample_registrant (Some ''data:image/png;base64,AA''))"
    by (simp add: abs_store_def sample_registrant_def)
  show "schema_errors sample_fenv (values_of (sample_registrant (Some ''data:image/png;base64,AA''))) = []"
    by (simp add: sample_registrant_def schema_errors_def values_of_def sample_fenv_def)
qed (simp_all add: sample_registrant_def)

text \<open>
  For a registrant without a photo, opening the edit page and
  saving it unchanged writes back exactly the stored record: the loaded values
  parse to the record's fields and the empty photo keeps the empty pair.
\<close>

theorem edit_roundtrip_without_photo:
  assumes "abs_store st i = Some r" and "\<not> js_truthy (photoData r)"
    and "schema_errors fenv (values_of r) = []"
  shows "abs_store (snd (edit_onSubmit fenv now (Some i) (edit_load (Some i) (edit_initial, st)))) = abs_store st \<and>
         ed_nav (fst (edit_onSubmit fenv now (Some i) (edit_load (Some i) (edit_initial, st)))) = Some dashboard_path"
proof -
  have "(abs_store st)(i \<mapsto> r) = abs_store st"
    using assms(1) by auto
  with assms show ?thesis
    by (simp add: edit_load_found edit_onSubmit_valid validate_values_of abs_store_updateRegistrant
        updated_registrant_same_fields edit_initial_def del: fun_upd_apply)
qed

theorem edit_roundtrip_without_photo_witness:
  "abs_store (snd (edit_onSubmit sample_fenv 2 (Some ''r1'')
      (edit_load (Some ''r1'') (edit_initial, empty_storage\<lparr>registrants_item := Some [sample_registrant None]\<rparr>)))) =
     abs_store (empty_storage\<lparr>registrants_item := Some [sample_registrant None]\<rparr>) \<and>
   ed_nav (fst (edit_onSubmit sample_fenv 2 (Some ''r1'')
      (edit_load (Some ''r1'') (edit_initial, empty_storage\<lparr>registrants_item := Some [sample_registrant None]\<rparr>)))) =
     Some dashboard_path"
proof (rule edit_roundtrip_without_photo [where r = "sample_registrant None"])
  show "abs_store (empty_storage\<lparr>registrants_item := Some [sample_registrant None]\<rparr>) ''r1'' = Some (sample_registrant None)"
    by (simp add: abs_store_def sample_registrant_def)
  show "schema_errors sample_fenv (values_of (sample_registrant None)) = []"
    by (simp add: sample_registrant_def schema_errors_def values_of_def sample_fenv_def)
qed (simp add: sample_registrant_def)

text \<open>
  C39 (error, spec section 6 "redirect-and-message for edit-target-not-found").
  Opening the edit page of an id no record has shows the message
  \<open>Registrant not found\<close> but does not redirect; the stored records are unchanged
  and the form accepts no event.
\<close>

theorem edit_missing_record_error:
  assumes "abs_store st i = None"
  shows "ed_error (fst (edit_load (Some i) (ed, st))) = Some ''Registrant not found'' \<and>
         ed_nav (fst (edit_load (Some i) (ed, st))) = ed_nav ed \<and>
         stored (snd (edit_load (Some i) (ed, st))) = stored st \<and>
         edit_step fenv (Some i) e (edit_load (Some i) (ed, st)) = None"
  using assms by (simp add: edit_load_missing)

theorem edit_missing_record_error_witness:
  "ed_error (fst (edit_load (Some ''r9'') (edit_initial, empty_storage))) = Some ''Registrant not found'' \<and>
   ed_nav (fst (edit_load (Some ''r9'') (edit_initial, empty_storage))) = ed_nav edit_initial \<and>
   stored (snd (edit_load (Some ''r9'') (edit_initial, empty_storage))) = stored empty_storage \<and>
   edit_step sample_fenv (Some ''r9'') (EdSubmit 2) (edit_load (Some ''r9'') (edit_initial, empty_storage)) = None"
  by (rule edit_missing_record_error) (simp add: abs_store_def)

text \<open>
  C13 (error). If the record is gone when a valid edit is saved (deleted in the
  meantime, for instance from the dashboard of another tab), the page shows \<open>Failed to update registrant\<close>, stays where it is,
  and the stored records are unchanged.
\<close>

theorem edit_vanished_record_error:
  assumes "abs_store st i = None" and "validate_form fenv (ed_values ed) = Inr data"
  shows "ed_error (fst (edit_onSubmit fenv now (Some i) (ed, st))) = Some ''Failed to update registrant'' \<and>
         ed_nav (fst (edit_onSubmit fenv now (Some i) (ed, st))) = ed_nav ed \<and>
         stored (snd (edit_onSubmit fenv now (Some i) (ed, st))) = stored st"
  using assms by (simp add: edit_onSubmit_valid)

theorem edit_vanished_record_error_witness:
  "ed_error (fst (edit_onSubmit sample_fenv 2 (Some ''r1'') (edit_initial\<lparr>ed_values := sample_values, ed_isLoading := False\<rparr>,
      empty_storage))) = Some ''Failed to update registrant'' \<and>
   ed_nav (fst (edit_onSubmit sample_fenv 2 (Some ''r1'') (edit_initial\<lparr>ed_values := sample_values, ed_isLoading := False\<rparr>,
      empty_storage))) = ed_nav (edit_initial\<lparr>ed_values := sample_values, ed_isLoading := False\<rparr>) \<and>
   stored (snd (edit_onSubmit sample_fenv 2 (Some ''r1'') (edit_initial\<lparr>ed_values := sample_values, ed_isLoading := False\<rparr>,
      empty_storage))) = stored empty_storage"
proof -
  have v: "validate_form sample_fenv (ed_values (edit_initial\<lparr>ed_values := sample_values, ed_isLoading := False\<rparr>)) =
             Inr (projr (validate_form sample_fenv sample_values))"
    by (simp add: validate_form_def schema_errors_def sample_fenv_def sample_values_def)
  show ?thesis
    by (rule edit_vanished_record_error [OF _ v]) (simp add: abs_store_def)
qed

text \<open>
  C14 (equivalence). The edit page carries its own copy of the schema
  (\<open>editSchema\<close>, lines 13--26 of \<open>EditRegistrant.tsx\<close>); it fails the same checks
  with the same messages as the registration page's \<open>registrationSchema\<close>, and its
  resolver yields the same parsed data, so an edit is accepted exactly when the
  same values would be accepted at registration.
\<close>

theorem edit_page_validates_like_registration:
  "editSchema_errors env v = schema_errors env v \<and> edit_validate env v = validate_form env v"
  by (simp add: editSchema_errors_def schema_errors_def edit_validate_def validate_form_def)

end
