(* ===== verification/Routes.thy ===== *)
theory Routes
  imports Auth Edit
begin

text \<open>
  The route table of \<open>src/unnamed/part_000\<close> (\<open>App.tsx\<close>) and the page chrome of
  \<open>src/src/components/AppLayout.tsx\<close>. A location's path is split into segments
  and matched against the five child routes of the layout route as react-router
  matches them: static segments case-insensitively, a trailing slash ignored, the
  dynamic segment \<open>:id\<close> taking one non-empty segment. The two protected routes
  are wrapped in \<open>ProtectedRoute\<close> (modelled in \<open>Auth\<close>); the layout shows its
  links by \<open>isAuthenticated\<close> and calls \<open>logout\<close> from its button.
\<close>

section \<open>Definitions\<close>

text \<open>A path split at each \<open>/\<close>.\<close>

fun split_slash :: "string \<Rightarrow> string list" where
  "split_slash [] = [[]]"
| "split_slash (c # cs) =
     (if c = CHR ''/'' then [] # split_slash cs
      else (case split_slash cs of [] \<Rightarrow> [[c]] | w # ws \<Rightarrow> (c # w) # ws))"

text \<open>The segments of a pathname (which starts with \<open>/\<close>), without the empty
  segment a trailing slash leaves.\<close>

definition path_segments :: "string \<Rightarrow> string list" where
  "path_segments p = (let segs = split_slash (drop 1 p) in if last segs = [] then butlast segs else segs)"

definition seg_is :: "string \<Rightarrow> string \<Rightarrow> bool" where
  "seg_is lit s = (js_to_lower s = lit)"

datatype route =
  RouteIndex | RouteAdminLogin | RouteAdminDashboard | RouteAdminEdit string | RouteCatchAll

text \<open>The child routes of \<open><Route path="/" element={<AppLayout />}>\<close> (lines
  16--36): \<open>index\<close>, \<open>admin/login\<close>, \<open>admin/dashboard\<close>, \<open>admin/edit/:id\<close>
  and \<open>*\<close>.\<close>

fun match_segments :: "string list \<Rightarrow> route" where
  "match_segments [] = RouteIndex"
| "match_segments [a, b] =
     (if seg_is ''admin'' a \<and> seg_is ''login'' b then RouteAdminLogin
      else if seg_is ''admin'' a \<and> seg_is ''dashboard'' b then RouteAdminDashboard
      else RouteCatchAll)"
| "match_segments [a, b, i] =
     (if seg_is ''admin'' a \<and> seg_is ''edit'' b \<and> i \<noteq> [] then RouteAdminEdit i else RouteCatchAll)"
| "match_segments _ = RouteCatchAll"

definition route_match :: "string \<Rightarrow> route" where
  "route_match p = match_segments (path_segments p)"

text \<open>\<open><Navigate to="/\" replace />\<close> (line 35): in a JSX attribute a backslash is
  not an escape, so the target is the two characters \<open>/\<close> and backslash.\<close>

definition catch_all_target :: string where
  "catch_all_target = [CHR ''/'', CHR 0x5C]"

definition login_path :: string where
  "login_path = ''/admin/login''"

datatype screen =
  ShowRegistration | ShowLogin | ShowDashboard | ShowEdit string | NavigateTo string

text \<open>\<open><ProtectedRoute>\<close> around an element: the element, or the redirect to the
  login page.\<close>

definition guarded :: "auth_state \<Rightarrow> screen \<Rightarrow> screen" where
  "guarded a s = (case protected_route a of RenderChild \<Rightarrow> s | RedirectToLogin \<Rightarrow> NavigateTo login_path)"

text \<open>What the outlet of the layout shows at a path.\<close>

definition app_screen :: "auth_state \<Rightarrow> string \<Rightarrow> screen" where
  "app_screen a p =
     (case route_match p of
        RouteIndex \<Rightarrow> ShowRegistration
      | RouteAdminLogin \<Rightarrow> ShowLogin
      | RouteAdminDashboard \<Rightarrow> guarded a ShowDashboard
      | RouteAdminEdit i \<Rightarrow> guarded a (ShowEdit i)
      | RouteCatchAll \<Rightarrow> NavigateTo catch_all_target)"

text \<open>The links of the header (lines 15--44), as label and target.\<close>

definition layout_links :: "auth_state \<Rightarrow> (string \<times> string) list" where
  "layout_links a =
     (''Bax Registration App'', ''/'') #
     (if isAuthenticated a then [(''Dashboard'', ''/admin/dashboard'')] else [(''Admin Login'', login_path)])"

text \<open>The header's logout button (lines 29--35), rendered only for an
  authenticated user; it calls \<open>logout\<close> and does not navigate.\<close>

definition layout_logout ::
  "auth_state \<times> local_storage \<Rightarrow> (auth_state \<times> local_storage) option" where
  "layout_logout s = (if isAuthenticated (fst s) then Some (logout s) else None)"

text \<open>The dashboard's edit link for a registrant (\<open>AdminDashboard.tsx\<close>, line 252).\<close>

definition edit_link :: "registrant \<Rightarrow> string" where
  "edit_link r = ''/admin/edit/'' @ reg_id r"

text \<open>The characters of \<open>crypto.randomUUID()\<close>: lower-case hexadecimal digits and
  hyphens.\<close>

definition is_uuid_char :: "char \<Rightarrow> bool" where
  "is_uuid_char c =
     ((48 \<le> (of_char c::nat) \<and> (of_char c::nat) \<le> 57) \<or> (97 \<le> (of_char c::nat) \<and> (of_char c::nat) \<le> 102)
      \<or> c = CHR ''-'')"

section \<open>Lemmas\<close>

lemma split_slash_no_slash: "CHR ''/'' \<notin> set w \<Longrightarrow> split_slash w = [w]"
  by (induction w) auto

lemma route_match_edit_link:
  "reg_id r \<noteq> [] \<Longrightarrow> CHR ''/'' \<notin> set (reg_id r) \<Longrightarrow> route_match (edit_link r) = RouteAdminEdit (reg_id r)"
  by (simp add: route_match_def edit_link_def path_segments_def split_slash_no_slash seg_is_def to_lower_char_def)

lemma uuid_no_slash: "\<forall>c \<in> set i. is_uuid_char c \<Longrightarrow> CHR ''/'' \<notin> set i"
  by (auto simp: is_uuid_char_def)

lemma guarded_auth [simp]: "isAuthenticated a \<Longrightarrow> guarded a s = s"
  by (simp add: guarded_def protected_route_def)

lemma guarded_unauth [simp]: "\<not> isAuthenticated a \<Longrightarrow> guarded a s = NavigateTo login_path"
  by (simp add: guarded_def protected_route_def)

lemma route_match_catch_all_target [simp]: "route_match catch_all_target = RouteCatchAll"
  by (simp add: route_match_def path_segments_def catch_all_target_def)

lemma catch_all_target_not_home [simp]: "catch_all_target \<noteq> ''/''"
  by (simp add: catch_all_target_def)

lemma route_match_dashboard [simp]: "route_match ''/admin/dashboard'' = RouteAdminDashboard"
  by (simp add: route_match_def path_segments_def seg_is_def to_lower_char_def)

lemma app_screen_admin:
  "app_screen a p = ShowDashboard \<or> (\<exists>i. app_screen a p = ShowEdit i) \<Longrightarrow> isAuthenticated a"
  by (cases "isAuthenticated a") (auto simp: app_screen_def split: route.splits)

section \<open>Properties of the routes and the layout\<close>

text \<open>
  C23 (safety). In every session reachable in a browser that started without a
  stored session, the dashboard or an edit page is shown at some path only when the
  stored session is the one the valid login writes.
\<close>

theorem admin_screens_need_login:
  assumes "auth_reach (a, st)" and "app_screen a p = ShowDashboard \<or> (\<exists>i. app_screen a p = ShowEdit i)"
  shows "admin_item st = Some the_admin"
proof -
  have "isAuthenticated a"
    using assms(2) by (rule app_screen_admin)
  with auth_reach_inv [OF assms(1)] show ?thesis
    by (auto simp: auth_inv_def)
qed

theorem admin_screens_need_login_witness:
  "admin_item (snd (auth_step (Login ''admin'' ''admin123'') (app_start empty_storage, empty_storage))) = Some the_admin"
proof (rule admin_screens_need_login [where p = "''/admin/dashboard''"
      and a = "fst (auth_step (Login ''admin'' ''admin123'') (app_start empty_storage, empty_storage))"])
  show "auth_reach (fst (auth_step (Login ''admin'' ''admin123'') (app_start empty_storage, empty_storage)),
                    snd (auth_step (Login ''admin'' ''admin123'') (app_start empty_storage, empty_storage)))"
    using auth_event [OF auth_fresh, of empty_storage "Login ''admin'' ''admin123''"] by (simp add: empty_storage_def)
  show "app_screen (fst (auth_step (Login ''admin'' ''admin123'') (app_start empty_storage, empty_storage))) ''/admin/dashboard''
          = ShowDashboard \<or> (\<exists>i. app_screen (fst (auth_step (Login ''admin'' ''admin123'') (app_start empty_storage, empty_storage))) ''/admin/dashboard'' = ShowEdit i)"
    by (simp add: app_screen_def login_valid)
qed

text \<open>
  C24 (a finding). Every path no route claims is sent to the catch-all's target,
  which is not \<open>/\<close> but \<open>/\<close> followed by a backslash; that target is itself
  claimed by no route but the catch-all, so the redirect never reaches the
  registration page, whether or not the user is logged in.
\<close>

theorem catch_all_never_reaches_home:
  assumes "route_match p = RouteCatchAll"
  shows "app_screen a p = NavigateTo catch_all_target \<and>
         app_screen a catch_all_target = NavigateTo catch_all_target \<and>
         catch_all_target \<noteq> ''/'' \<and> app_screen a catch_all_target \<noteq> ShowRegistration"
  using assms by (simp add: app_screen_def)

theorem catch_all_never_reaches_home_witness:
  "app_screen auth_initial ''/about'' = NavigateTo catch_all_target \<and>
   app_screen auth_initial catch_all_target = NavigateTo catch_all_target \<and>
   catch_all_target \<noteq> ''/'' \<and> app_screen auth_initial catch_all_target \<noteq> ShowRegistration"
  by (rule catch_all_never_reaches_home)
    (simp add: route_match_def path_segments_def)

text \<open>
  The dashboard's edit link of a stored registrant whose id has the
  form of \<open>crypto.randomUUID()\<close> routes, for a logged-in user, to the edit page of
  exactly that id, and the page's load effect fills the form from that registrant.
\<close>

theorem edit_link_roundtrip:
  assumes "abs_store st (reg_id r) = Some r" and "reg_id r \<noteq> []"
    and "\<forall>c \<in> set (reg_id r). is_uuid_char c" and "isAuthenticated a"
  shows "app_screen a (edit_link r) = ShowEdit (reg_id r) \<and>
         ed_values (fst (edit_load (Some (reg_id r)) (ed, st))) = values_of r \<and>
         ed_error (fst (edit_load (Some (reg_id r)) (ed, st))) = ed_error ed"
  using assms
  by (simp add: app_screen_def route_match_edit_link uuid_no_slash edit_load_found)

theorem edit_link_roundtrip_witness:
  "app_screen (fst (snd (login ''admin'' ''admin123'' (auth_initial, empty_storage))))
     (edit_link ((sample_registrant None)\<lparr>reg_id := ''1b9d-4f''\<rparr>)) = ShowEdit ''1b9d-4f'' \<and>
   ed_values (fst (edit_load (Some ''1b9d-4f'')
     (edit_initial, empty_storage\<lparr>registrants_item := Some [(sample_registrant None)\<lparr>reg_id := ''1b9d-4f''\<rparr>]\<rparr>))) =
     values_of ((sample_registrant None)\<lparr>reg_id := ''1b9d-4f''\<rparr>) \<and>
   ed_error (fst (edit_load (Some ''1b9d-4f'')
     (edit_initial, empty_storage\<lparr>registrants_item := Some [(sample_registrant None)\<lparr>reg_id := ''1b9d-4f''\<rparr>]\<rparr>))) =
     ed_error edit_initial"
proof -
  have "app_screen (fst (snd (login ''admin'' ''admin123'' (auth_initial, empty_storage))))
          (edit_link ((sample_registrant None)\<lparr>reg_id := ''1b9d-4f''\<rparr>)) = ShowEdit (reg_id ((sample_registrant None)\<lparr>reg_id := ''1b9d-4f''\<rparr>)) \<and>
        ed_values (fst (edit_load (Some (reg_id ((sample_registrant None)\<lparr>reg_id := ''1b9d-4f''\<rparr>)))
          (edit_initial, empty_storage\<lparr>registrants_item := Some [(sample_registrant None)\<lparr>reg_id := ''1b9d-4f''\<rparr>]\<rparr>))) =
          values_of ((sample_registrant None)\<lparr>reg_id := ''1b9d-4f''\<rparr>) \<and>
        ed_error (fst (edit_load (Some (reg_id ((sample_registrant None)\<lparr>reg_id := ''1b9d-4f''\<rparr>)))
          (edit_initial, empty_storage\<lparr>registrants_item := Some [(sample_registrant None)\<lparr>reg_id := ''1b9d-4f''\<rparr>]\<rparr>))) =
          ed_error edit_initial"
    by (rule edit_link_roundtrip)
      (simp_all add: abs_store_def is_uuid_char_def login_valid auth_initial_def)
  then show ?thesis
    by (simp add: edit_link_def)
qed

text \<open>
  Every link of the header leads to a route of the table, never
  to the catch-all; the Dashboard link is offered exactly when the dashboard route
  shows the dashboard; the logout button exists exactly for a logged-in user, and
  after it the dashboard route redirects to the login page.
\<close>

theorem layout_links_consistent:
  "(\<forall>(label, target) \<in> set (layout_links a). route_match target \<noteq> RouteCatchAll) \<and>
   ((''Dashboard'', ''/admin/dashboard'') \<in> set (layout_links a) \<longleftrightarrow>
      app_screen a ''/admin/dashboard'' = ShowDashboard) \<and>
   (layout_logout (a, st) \<noteq> None \<longleftrightarrow> isAuthenticated a) \<and>
   (\<forall>s'. layout_logout (a, st) = Some s' \<longrightarrow> app_screen (fst s') ''/admin/dashboard'' = NavigateTo login_path)"
  by (auto simp: layout_links_def layout_logout_def app_screen_def logout_def login_path_def
      route_match_def path_segments_def seg_is_def to_lower_char_def)

theorem layout_links_consistent_witness:
  "route_match ''/'' \<noteq> RouteCatchAll \<and> route_match ''/admin/dashboard'' \<noteq> RouteCatchAll \<and>
   (''Dashboard'', ''/admin/dashboard'') \<in> set (layout_links (app_start (snd (snd (login ''admin'' ''admin123'' (auth_initial, empty_storage)))))) \<and>
   app_screen (fst (logout (app_start (snd (snd (login ''admin'' ''admin123'' (auth_initial, empty_storage)))),
                            snd (snd (login ''admin'' ''admin123'' (auth_initial, empty_storage)))))) ''/admin/dashboard''
     = NavigateTo login_path"
proof -
  let ?a = "app_start (snd (snd (login ''admin'' ''admin123'' (auth_initial, empty_storage))))"
  let ?st = "snd (snd (login ''admin'' ''admin123'' (auth_initial, empty_storage)))"
  have auth: "isAuthenticated ?a"
    by (simp add: login_valid app_start_Some the_admin_def)
  note l = layout_links_consistent [of ?a ?st]
  from l auth have "route_match ''/'' \<noteq> RouteCatchAll \<and> route_match ''/admin/dashboard'' \<noteq> RouteCatchAll"
    by (simp add: layout_links_def)
  moreover from l auth have "(''Dashboard'', ''/admin/dashboard'') \<in> set (layout_links ?a)"
    by (simp add: app_screen_def)
  moreover from l auth have "app_screen (fst (logout (?a, ?st))) ''/admin/dashboard'' = NavigateTo login_path"
    by (simp add: layout_logout_def)
  ultimately show ?thesis
    by blast
qed

end
