(* ===== verification/Provider.thy ===== *)
theory Provider
  imports Routes
begin

text \<open>
  The context plumbing of \<open>src/src/contexts/AuthContext.tsx\<close>: the context is
  created empty (line 15), \<open>useAuth\<close> throws outside a provider (lines 17--23) and
  \<open>AuthProvider\<close> publishes its state (lines 58--62). \<open>App\<close>
  (\<open>src/unnamed/part_000\<close>) renders \<open>AppLayout\<close>, the only caller of \<open>useAuth\<close>,
  inside \<open>AuthProvider\<close>; the render of the whole tree is an error value or the
  header links and the outlet's screen.
\<close>

section \<open>Definitions\<close>

text \<open>The context value: the provider's state, whose \<open>login\<close> and \<open>logout\<close> are
  the operations of \<open>Auth\<close>. \<open>None\<close> is \<open>undefined\<close>, the default of
  \<open>createContext\<close>.\<close>

type_synonym auth_context = "auth_state option"

definition default_context :: auth_context where
  "default_context = None"

definition useAuth_error :: string where
  "useAuth_error = ''useAuth must be used within an AuthProvider''"

definition useAuth :: "auth_context \<Rightarrow> string + auth_state" where
  "useAuth context = (case context of None \<Rightarrow> Inl useAuth_error | Some c \<Rightarrow> Inr c)"

definition provider_value :: "auth_state \<Rightarrow> auth_context" where
  "provider_value a = Some a"

text \<open>\<open>AppLayout\<close> (lines 6--7 and the header): it reads the context and renders the
  links of the session it finds, then the outlet.\<close>

definition render_layout :: "auth_context \<Rightarrow> string \<Rightarrow> string + (string \<times> string) list \<times> screen" where
  "render_layout context p =
     (case useAuth context of
        Inl e \<Rightarrow> Inl e
      | Inr c \<Rightarrow> Inr (layout_links c, app_screen c p))"

text \<open>\<open>App\<close>: the router, \<open>AuthProvider\<close> holding the session \<open>a\<close>, and the layout
  route under it.\<close>

definition app_render :: "auth_state \<Rightarrow> string \<Rightarrow> string + (string \<times> string) list \<times> screen" where
  "app_render a p = render_layout (provider_value a) p"

section \<open>Properties\<close>

lemma useAuth_Some [simp]: "useAuth (Some c) = Inr c"
  by (simp add: useAuth_def)

text \<open>
  \<open>useAuth\<close> throws its message exactly when no provider is above the
  caller, so \<open>AppLayout\<close> rendered on its own fails; \<open>App\<close> renders it under
  \<open>AuthProvider\<close>, so on every path and for every session the render never throws
  and shows the links and the screen of the provider's session.
\<close>

theorem app_render_never_throws:
  "useAuth default_context = Inl useAuth_error \<and>
   render_layout default_context p = Inl ''useAuth must be used within an AuthProvider'' \<and>
   app_render a p = Inr (layout_links a, app_screen a p)"
  by (simp add: useAuth_def default_context_def useAuth_error_def render_layout_def
                app_render_def provider_value_def)

end
