(* ===== verification/Wellformed.thy ===== *)
theory Wellformed
  imports Store
begin

text \<open>
  The shape every stored registrant has (spec section 3: \<open>photoPath\<close> is empty
  exactly when no photo was supplied, and otherwise the synthetic label
  \<open>photo_<time>.jpg\<close>), as a bool-valued well-formedness predicate, and its
  preservation by every operation of \<open>registrationService.ts\<close>.
\<close>

section \<open>Definitions\<close>

definition photo_path_ok :: "string \<Rightarrow> bool" where
  "photo_path_ok p = (prefix ''photo_'' p \<and> suffix ''.jpg'' p)"

definition wf_registrant :: "registrant \<Rightarrow> bool" where
  "wf_registrant r = (if js_truthy (photoData r) then photo_path_ok (photoPath r) else photoPath r = [])"

section \<open>Lemmas\<close>

lemma photo_path_ok_file_name [simp]: "photo_path_ok (photo_file_name t)"
proof -
  have "photo_file_name t = ''photo_'' @ (show_nat t @ ''.jpg'')"
    and "photo_file_name t = (''photo_'' @ show_nat t) @ ''.jpg''"
    by (simp_all add: photo_file_name_def)
  then show ?thesis
    unfolding photo_path_ok_def by (metis prefixI suffixI)
qed

lemma wf_new_registrant: "wf_registrant (new_registrant data env)"
  by (simp add: wf_registrant_def new_registrant_def)

lemma wf_updated_registrant: "wf_registrant old \<Longrightarrow> wf_registrant (updated_registrant data now old)"
  by (cases "js_truthy (fd_photoData data)") (simp_all add: wf_registrant_def updated_registrant_def)

lemma list_all_update: "list_all P xs \<Longrightarrow> P x \<Longrightarrow> list_all P (xs[k := x])"
  by (induction xs arbitrary: k) (auto split: nat.splits)

lemma store_exec_wf:
  assumes "list_all wf_registrant (stored st)"
  shows "list_all wf_registrant (stored (snd (store_exec op st)))"
proof (cases op)
  case (OpAdd data env)
  with assms show ?thesis
    by (simp add: addRegistrant_eq wf_new_registrant)
next
  case (OpUpdate i data now)
  show ?thesis
  proof (cases "abs_store st i")
    case (Some old)
    then have "old \<in> set (stored st)"
      by (simp add: abs_store_def reg_map_Some_set)
    with assms have "wf_registrant old"
      by (simp add: list_all_iff)
    with Some OpUpdate assms show ?thesis
      by (simp add: updateRegistrant_eq case_prod_beta list_all_update wf_updated_registrant)
  qed (use OpUpdate assms in \<open>simp add: updateRegistrant_eq case_prod_beta\<close>)
next
  case (OpDelete i)
  with assms show ?thesis
    by (simp add: deleteRegistrant_eq case_prod_beta list_all_iff)
qed (use assms in \<open>simp_all add: getAllRegistrants_eq getRegistrantById_eq case_prod_beta\<close>)

section \<open>The well-formedness of stored records\<close>

text \<open>
  C11 (type). In every storage reachable from an empty browser storage by the
  operations of the service, every stored registrant is well formed: its
  \<open>photoPath\<close> is empty when it has no photo and a \<open>photo_...jpg\<close> label when it
  has one.
\<close>

theorem stored_records_well_formed:
  assumes "store_reach st"
  shows "list_all wf_registrant (stored st)"
  using assms by (induction rule: store_reach.induct) (simp_all add: store_exec_wf)

theorem stored_records_well_formed_witness:
  "list_all wf_registrant
     (stored (snd (store_exec (OpAdd (sample_form ''Ada'' ''ada@example.org'' ''0123456789'' (Some ''data:image/png;base64,AA''))
        (sample_env ''u1'' 7)) empty_storage)))"
proof (rule stored_records_well_formed)
  show "store_reach (snd (store_exec (OpAdd (sample_form ''Ada'' ''ada@example.org'' ''0123456789''
          (Some ''data:image/png;base64,AA'')) (sample_env ''u1'' 7)) empty_storage))"
    by (rule store_step [OF store_init]) simp
qed

end
