(* ===== verification/Async_Upload.thy ===== *)
theory Async_Upload
  imports Forms
begin

text \<open>
  The file strategy with its asynchronous reads. A selection in \<open>FileUpload\<close>
  (\<open>handleFileChange\<close>, lines 13--42 of \<open>src/src/components/FileUpload.tsx\<close>)
  starts two \<open>FileReader\<close> reads of the same file: the upload's own, whose
  \<open>onload\<close> sets the preview, and, through \<open>onFileSelect\<close>, the page's
  (\<open>handleFileUpload\<close>, lines 51--59 of \<open>src/unnamed/part_002\<close>), whose
  \<open>onload\<close> sets \<open>photoData\<close>. The reads are pending until the browser
  completes them, in any order (spec section 5: ordering is by completion). The
  state is the upload's state, the page's photo, and the list of started reads, each
  with the \<open>File\<close> it reads. A ghost field records which file the page's photo
  was read from; the code has no such variable, it only serves the statements. The clear button (\<open>clearImage\<close>) starts one more
  read, of the empty file; the user's events are enabled by what
  \<open>FileUpload\<close> renders (\<open>fu_view\<close>).
\<close>

section \<open>Definitions\<close>

datatype read_target = ToPreview | ToParent

text \<open>\<open>io_photo_file\<close> is a ghost field, like the auxiliary variable \<open>safe\<close> of
  the hotel key card model: the file whose read last set \<open>photoData\<close>.\<close>

record upload_io =
  io_upload :: file_upload
  io_photo :: string
  io_pending :: "(read_target \<times> js_file) list"
  io_photo_file :: "js_file option"

text \<open>A selection: the upload's handler; a read for the preview is started first
  (line 38), then \<open>onFileSelect\<close> starts the page's read (line 41).\<close>

definition select_async :: "js_file option \<Rightarrow> upload_io \<Rightarrow> upload_io" where
  "select_async sel s =
     (let (fu1, cb, rd) = handleFileChange sel (io_upload s)
      in s\<lparr>io_upload := fu1,
           io_pending := io_pending s @
             (case rd of None \<Rightarrow> [] | Some f \<Rightarrow> [(ToPreview, f)]) @
             (case cb of None \<Rightarrow> [] | Some f \<Rightarrow> [(ToParent, f)])\<rparr>)"

text \<open>A read's \<open>onload\<close> with the result \<open>readAsDataURL\<close> delivers: the upload's
  sets the preview (lines 33--37), the page's sets \<open>photoData\<close> (lines 53--57).\<close>

definition deliver_read :: "read_target \<times> js_file \<Rightarrow> upload_io \<Rightarrow> upload_io" where
  "deliver_read rd s =
     (case rd of
        (ToPreview, f) \<Rightarrow> s\<lparr>io_upload := fu_onload (read_as_data_url f) (io_upload s)\<rparr>
      | (ToParent, f) \<Rightarrow>
          s\<lparr>io_photo := parent_onload (read_as_data_url f) (io_photo s),
            io_photo_file := (if read_as_data_url f \<noteq> [] then Some f else io_photo_file s)\<rparr>)"

definition remove_nth :: "nat \<Rightarrow> 'a list \<Rightarrow> 'a list" where
  "remove_nth k xs = take k xs @ drop (Suc k) xs"

text \<open>The browser completes the \<open>k\<close>-th pending read.\<close>

definition complete_read :: "nat \<Rightarrow> upload_io \<Rightarrow> upload_io option" where
  "complete_read k s =
     (if k < length (io_pending s)
      then Some (deliver_read (io_pending s ! k) (s\<lparr>io_pending := remove_nth k (io_pending s)\<rparr>))
      else None)"

text \<open>The clear button (\<open>clearImage\<close>, lines 48--54): the preview goes, and
  \<open>onFileSelect(new File([], ''))\<close> starts the page's read of the empty file.\<close>

definition clear_async :: "upload_io \<Rightarrow> upload_io" where
  "clear_async s =
     (let (fu1, f) = fu_clearImage (io_upload s)
      in s\<lparr>io_upload := fu1, io_pending := io_pending s @ [(ToParent, f)]\<rparr>)"

text \<open>The user's events are enabled by the render: a file can be chosen while the
  drop zone is shown, the clear button is there with a preview.\<close>

datatype io_event = Select "js_file option" | Clear | Complete nat

fun io_step :: "io_event \<Rightarrow> upload_io \<Rightarrow> upload_io option" where
  "io_step (Select sel) s = (if file_input_enabled (io_upload s) then Some (select_async sel s) else None)"
| "io_step Clear s = (if ClearButton \<in> set (fu_view (io_upload s)) then Some (clear_async s) else None)"
| "io_step (Complete k) s = complete_read k s"

fun io_run :: "io_event list \<Rightarrow> upload_io \<Rightarrow> upload_io option" where
  "io_run [] s = Some s"
| "io_run (e # es) s = (case io_step e s of None \<Rightarrow> None | Some s' \<Rightarrow> io_run es s')"

definition io_initial :: upload_io where
  "io_initial = \<lparr>io_upload = fu_initial, io_photo = [], io_pending = [], io_photo_file = None\<rparr>"

text \<open>Every started read is of a file satisfying \<open>P\<close>, and the photo is empty
  before any read delivered, else the data URL of its file, which satisfies \<open>P\<close>.\<close>

definition photo_from :: "(js_file \<Rightarrow> bool) \<Rightarrow> upload_io \<Rightarrow> bool" where
  "photo_from P s =
     ((\<forall>x \<in> set (io_pending s). P (snd x)) \<and>
      (case io_photo_file s of
         None \<Rightarrow> io_photo s = []
       | Some f \<Rightarrow> io_photo s = read_as_data_url f \<and> P f))"

section \<open>Lemmas\<close>

lemma select_async_accept:
  "image_type_ok (file_type f) \<Longrightarrow> file_size f \<le> max_upload_size \<Longrightarrow>
   select_async (Some f) s =
     s\<lparr>io_upload := (io_upload s)\<lparr>fu_error := None\<rparr>,
       io_pending := io_pending s @ [(ToPreview, f), (ToParent, f)]\<rparr>"
  by (simp add: select_async_def handleFileChange_accept)

lemma complete_read_nth:
  "k < length (io_pending s) \<Longrightarrow>
   complete_read k s = Some (deliver_read (io_pending s ! k) (s\<lparr>io_pending := remove_nth k (io_pending s)\<rparr>))"
  by (simp add: complete_read_def)

lemma onload_data_url [simp]:
  "fu_onload (read_as_data_url f) fu = fu\<lparr>fu_preview := Some (read_as_data_url f)\<rparr>"
  "parent_onload (read_as_data_url f) p = read_as_data_url f"
  by (simp_all add: fu_onload_def parent_onload_def read_as_data_url_nonempty)

lemma deliver_read_simps [simp]:
  "deliver_read (ToPreview, f) s = s\<lparr>io_upload := (io_upload s)\<lparr>fu_preview := Some (read_as_data_url f)\<rparr>\<rparr>"
  "deliver_read (ToParent, f) s = s\<lparr>io_photo := read_as_data_url f, io_photo_file := Some f\<rparr>"
  by (simp_all add: deliver_read_def read_as_data_url_nonempty)

lemma remove_nth_simps [simp]:
  "remove_nth 0 (x # xs) = xs"
  "remove_nth (Suc k) (x # xs) = x # remove_nth k xs"
  by (simp_all add: remove_nth_def)

section \<open>Properties of the asynchronous reads\<close>

text \<open>
  C34 (safety, a finding on ordering). While the drop zone is shown and no read is
  pending, after selecting an image \<open>a\<close> and then, before its reads complete, an
  image \<open>b\<close>, the outcome depends on the order in which the browser completes the
  four reads. In the order they were started, the preview and the page's photo
  both show \<open>b\<close>. In another order the browser may choose, the preview shows
  \<open>b\<close> while the page holds \<open>a\<close>, read from the file \<open>a\<close>, so the form would
  submit a picture other than the one on the screen.
\<close>

theorem read_order_decides_photo:
  assumes "image_type_ok (file_type a)" and "file_size a \<le> max_upload_size"
    and "image_type_ok (file_type b)" and "file_size b \<le> max_upload_size"
    and "io_pending s = []" and "\<not> js_truthy (fu_preview (io_upload s))"
  shows "io_run [Select (Some a), Select (Some b), Complete 0, Complete 0, Complete 0, Complete 0] s =
           Some (s\<lparr>io_upload := (io_upload s)\<lparr>fu_error := None, fu_preview := Some (read_as_data_url b)\<rparr>,
                   io_photo := read_as_data_url b, io_photo_file := Some b\<rparr>) \<and>
         io_run [Select (Some a), Select (Some b), Complete 0, Complete 1, Complete 1, Complete 0] s =
           Some (s\<lparr>io_upload := (io_upload s)\<lparr>fu_error := None, fu_preview := Some (read_as_data_url b)\<rparr>,
                   io_photo := read_as_data_url a, io_photo_file := Some a\<rparr>)"
  using assms by (simp add: select_async_accept complete_read_nth)

theorem read_order_decides_photo_witness:
  "io_run [Select (Some (sample_file ''image/png'' 10)), Select (Some (sample_file ''image/jpeg'' 20)),
      Complete 0, Complete 0, Complete 0, Complete 0] io_initial =
     Some (io_initial\<lparr>io_upload := (io_upload io_initial)\<lparr>fu_error := None,
             fu_preview := Some (read_as_data_url (sample_file ''image/jpeg'' 20))\<rparr>,
           io_photo := read_as_data_url (sample_file ''image/jpeg'' 20),
           io_photo_file := Some (sample_file ''image/jpeg'' 20)\<rparr>) \<and>
   io_run [Select (Some (sample_file ''image/png'' 10)), Select (Some (sample_file ''image/jpeg'' 20)),
      Complete 0, Complete 1, Complete 1, Complete 0] io_initial =
     Some (io_initial\<lparr>io_upload := (io_upload io_initial)\<lparr>fu_error := None,
             fu_preview := Some (read_as_data_url (sample_file ''image/jpeg'' 20))\<rparr>,
           io_photo := read_as_data_url (sample_file ''image/png'' 10),
           io_photo_file := Some (sample_file ''image/png'' 10)\<rparr>)"
  by (rule read_order_decides_photo)
    (simp_all add: image_type_ok_def sample_file_def max_upload_size_def io_initial_def fu_initial_def)

lemma handleFileChange_same_file: "snd (snd (handleFileChange sel fu)) = fst (snd (handleFileChange sel fu))"
  by (simp add: handleFileChange_def split: option.splits)

lemma set_remove_nth: "set (remove_nth k xs) \<subseteq> set xs"
  by (auto simp: remove_nth_def dest: in_set_takeD in_set_dropD)

lemma io_step_photo_from:
  assumes "io_step e s = Some s'" and "photo_from P s"
    and ok: "\<And>f. image_type_ok (file_type f) \<Longrightarrow> file_size f \<le> max_upload_size \<Longrightarrow> P f"
    and ok_clear: "P empty_file"
  shows "photo_from P s'"
proof (cases e)
  case Clear
  with assms(1) have "s' = clear_async s"
    by (simp split: if_splits)
  with assms(2) ok_clear show ?thesis
    by (auto simp: clear_async_def fu_clearImage_def photo_from_def split: option.splits)
next
  case (Select sel)
  from assms(1) Select have s': "s' = select_async sel s"
    by (simp split: if_splits)
  obtain fu1 cb rd where h: "handleFileChange sel (io_upload s) = (fu1, cb, rd)"
    by (cases "handleFileChange sel (io_upload s)") auto
  then have rd: "rd = cb"
    using handleFileChange_same_file [of sel "io_upload s"] by simp
  show ?thesis
  proof (cases cb)
    case None
    with s' assms(2) h rd show ?thesis
      by (auto simp: select_async_def photo_from_def split: option.splits)
  next
    case (Some f)
    with h have "image_type_ok (file_type f) \<and> file_size f \<le> max_upload_size"
      using handleFileChange_passes by blast
    then have "P f"
      using ok by blast
    with s' assms(2) h rd Some show ?thesis
      by (auto simp: select_async_def photo_from_def split: option.splits)
  qed
next
  case (Complete k)
  with assms(1) have k: "k < length (io_pending s)"
    by (simp add: complete_read_def split: if_splits)
  obtain t f where e: "io_pending s ! k = (t, f)"
    by (cases "io_pending s ! k") auto
  let ?s1 = "s\<lparr>io_pending := remove_nth k (io_pending s)\<rparr>"
  from Complete assms(1) k e have s': "s' = deliver_read (t, f) ?s1"
    by (simp add: complete_read_def)
  have "(t, f) \<in> set (io_pending s)"
    using k e nth_mem by metis
  then have d: "P f"
    using assms(2) by (force simp: photo_from_def)
  have r: "\<forall>x \<in> set (remove_nth k (io_pending s)). P (snd x)"
    using set_remove_nth [of k "io_pending s"] assms(2) by (auto simp: photo_from_def)
  show ?thesis
  proof (cases t)
    case ToPreview
    with s' r assms(2) show ?thesis
      by (simp add: photo_from_def split: option.splits)
  next
    case ToParent
    with s' r d show ?thesis
      by (simp add: photo_from_def)
  qed
qed

lemma io_run_photo_from:
  assumes "io_run es s = Some s'" and "photo_from P s"
    and "\<And>f. image_type_ok (file_type f) \<Longrightarrow> file_size f \<le> max_upload_size \<Longrightarrow> P f"
    and "P empty_file"
  shows "photo_from P s'"
  using assms(1,2)
proof (induction es arbitrary: s)
  case (Cons e es)
  then obtain s1 where step: "io_step e s = Some s1" and run: "io_run es s1 = Some s'"
    by (auto split: option.splits)
  have "photo_from P s1"
    by (rule io_step_photo_from [OF step Cons.prems(2) assms(3) assms(4)])
  with run show ?case
    by (rule Cons.IH)
qed simp

text \<open>
  C38 (safety). Whatever files the user selects or clears and in whatever order
  the browser completes the reads, the page's photo is still empty, or it is the
  data URL of the file it was read from, and that file is either the empty file the
  clear button passes on or a file that passed the upload's type test and whose
  size is at most 5 MiB: a rejected file never reaches the form.
\<close>

theorem rejected_file_never_reaches_photo:
  assumes "io_run es io_initial = Some s"
  shows "(io_photo_file s = None \<and> io_photo s = []) \<or>
         (\<exists>f. io_photo_file s = Some f \<and> io_photo s = read_as_data_url f \<and>
              (f = empty_file \<or> image_type_ok (file_type f) \<and> file_size f \<le> max_upload_size))"
proof -
  have "photo_from (\<lambda>f. f = empty_file \<or> image_type_ok (file_type f) \<and> file_size f \<le> max_upload_size) s"
    by (rule io_run_photo_from [OF assms]) (auto simp: io_initial_def photo_from_def)
  then show ?thesis
    by (auto simp: photo_from_def split: option.splits)
qed

theorem rejected_file_never_reaches_photo_witness:
  "(io_photo_file (the (io_run [Select (Some (sample_file ''text/plain'' 10)), Select (Some (sample_file ''image/png'' 10)),
      Complete 1] io_initial)) = None \<and>
    io_photo (the (io_run [Select (Some (sample_file ''text/plain'' 10)), Select (Some (sample_file ''image/png'' 10)),
      Complete 1] io_initial)) = []) \<or>
   (\<exists>f. io_photo_file (the (io_run [Select (Some (sample_file ''text/plain'' 10)), Select (Some (sample_file ''image/png'' 10)),
      Complete 1] io_initial)) = Some f \<and>
      io_photo (the (io_run [Select (Some (sample_file ''text/plain'' 10)), Select (Some (sample_file ''image/png'' 10)),
        Complete 1] io_initial)) = read_as_data_url f \<and>
      (f = empty_file \<or> image_type_ok (file_type f) \<and> file_size f \<le> max_upload_size))"
  by (rule rejected_file_never_reaches_photo [where es = "[Select (Some (sample_file ''text/plain'' 10)),
      Select (Some (sample_file ''image/png'' 10)), Complete 1]"])
    (simp add: io_initial_def fu_initial_def select_async_def handleFileChange_def image_type_ok_def
      sample_file_def max_upload_size_def complete_read_def)

end
