(* ===== verification/Tabs.thy ===== *)
theory Tabs
  imports Dashboard Edit Wellformed Async_Upload
begin

text \<open>
  Several tabs of one browser over one \<open>localStorage\<close>. Each tab holds one page of
  the application (the dashboard, an edit page, the registration page) with its own
  React state; the only state the tabs share is the storage, which every handler
  reads and writes whole through \<open>registrationService.ts\<close> (spec section 5: the
  interleaving of tabs is not coordinated). A browser event opens a page in a new
  tab (its mount effects run), closes a tab, or delivers one event of a page to one
  tab; the events of different tabs interleave in any order, as in the \<open>Parallel\<close>
  rule of an interleaving semantics. The session guard of the admin pages is not
  repeated here: each tab is taken as already past it.
\<close>

section \<open>Definitions\<close>

datatype tab = DashTab dashboard | EditTab "string option" edit_page | RegTab reg_form

datatype page = DashboardPage | EditPage "string option" | RegistrationPage

datatype tab_event = DashEv dashboard_event | EditEv edit_event | RegEv form_event

text \<open>A page's first render and mount effects: the dashboard's load (\<open>AdminDashboard\<close>
  lines 29--47), the edit page's load of the route's id (\<open>EditRegistrant\<close> lines
  48--76), the registration page's initial state (no effect).\<close>

fun open_page :: "page \<Rightarrow> local_storage \<Rightarrow> tab \<times> local_storage" where
  "open_page DashboardPage st = (let (d, st') = dashboard_mount st in (DashTab d, st'))"
| "open_page (EditPage i) st = (let (ed, st') = edit_load i (edit_initial, st) in (EditTab i ed, st'))"
| "open_page RegistrationPage st = (RegTab reg_form_initial, st)"

text \<open>One event of the page a tab shows, by that page's step function; an event of
  another page is not possible there.\<close>

fun tab_step :: "form_env \<Rightarrow> tab_event \<Rightarrow> tab \<times> local_storage \<Rightarrow> (tab \<times> local_storage) option" where
  "tab_step fenv (DashEv e) (DashTab d, st) = (let (d', st') = dashboard_step e (d, st) in Some (DashTab d', st'))"
| "tab_step fenv (EditEv e) (EditTab i ed, st) =
     (case edit_step fenv i e (ed, st) of None \<Rightarrow> None | Some (ed', st') \<Rightarrow> Some (EditTab i ed', st'))"
| "tab_step fenv (RegEv e) (RegTab rf, st) =
     (case reg_step fenv e (rf, st) of None \<Rightarrow> None | Some (rf', st') \<Rightarrow> Some (RegTab rf', st'))"
| "tab_step fenv e (t, st) = None"

record browser =
  br_tabs :: "tab list"
  br_storage :: local_storage

datatype browser_event = OpenTab page | CloseTab nat | TabEvent nat tab_event

fun browser_step :: "form_env \<Rightarrow> browser_event \<Rightarrow> browser \<Rightarrow> browser option" where
  "browser_step fenv (OpenTab p) b =
     (let (t, st) = open_page p (br_storage b) in Some (b\<lparr>br_tabs := br_tabs b @ [t], br_storage := st\<rparr>))"
| "browser_step fenv (CloseTab k) b =
     (if k < length (br_tabs b) then Some (b\<lparr>br_tabs := remove_nth k (br_tabs b)\<rparr>) else None)"
| "browser_step fenv (TabEvent k e) b =
     (if k < length (br_tabs b)
      then (case tab_step fenv e (br_tabs b ! k, br_storage b) of
              None \<Rightarrow> None
            | Some (t, st) \<Rightarrow> Some (b\<lparr>br_tabs := (br_tabs b)[k := t], br_storage := st\<rparr>))
      else None)"

fun browser_run :: "form_env \<Rightarrow> browser_event list \<Rightarrow> browser \<Rightarrow> browser option" where
  "browser_run fenv [] b = Some b"
| "browser_run fenv (e # es) b = (case browser_step fenv e b of None \<Rightarrow> None | Some b' \<Rightarrow> browser_run fenv es b')"

text \<open>\<open>crypto.randomUUID()\<close> returns an identifier not yet stored, as in \<open>store_reach\<close>.\<close>

fun uuid_fresh :: "browser_event \<Rightarrow> browser \<Rightarrow> bool" where
  "uuid_fresh (TabEvent k (RegEv (SubmitForm aenv))) b = (env_uuid aenv \<notin> reg_id ` set (stored (br_storage b)))"
| "uuid_fresh e b = True"

definition browser_initial :: browser where
  "browser_initial = \<lparr>br_tabs = [], br_storage = empty_storage\<rparr>"

inductive browser_reach :: "form_env \<Rightarrow> browser \<Rightarrow> bool" for fenv where
  browser_start: "browser_reach fenv browser_initial"
| browser_event: "browser_reach fenv b \<Longrightarrow> uuid_fresh e b \<Longrightarrow> browser_step fenv e b = Some b' \<Longrightarrow> browser_reach fenv b'"

text \<open>The storage invariant of the store, on the stored list only.\<close>

definition storage_ok :: "local_storage \<Rightarrow> bool" where
  "storage_ok st = (distinct (map reg_id (stored st)) \<and> list_all wf_registrant (stored st))"

section \<open>The storage invariant under every handler\<close>

text \<open>Each handler's write is one operation of the store, so the invariant of the
  store carries over to every page.\<close>

lemma storage_ok_exec:
  assumes "storage_ok st" and "op_fresh op st"
  shows "storage_ok (snd (store_exec op st))"
proof -
  have "ids_distinct (snd (store_exec op st))"
    using assms by (intro store_exec_ids_distinct) (simp_all add: storage_ok_def ids_distinct_def)
  moreover have "list_all wf_registrant (stored (snd (store_exec op st)))"
    using assms by (intro store_exec_wf) (simp add: storage_ok_def)
  ultimately show ?thesis
    by (simp add: storage_ok_def ids_distinct_def)
qed

lemma storage_ok_initializeStorage [simp]: "storage_ok (initializeStorage st) = storage_ok st"
  by (simp add: storage_ok_def)

lemma storage_ok_delete: "storage_ok st \<Longrightarrow> storage_ok (snd (deleteRegistrant i st))"
  using storage_ok_exec [of st "OpDelete i"] by (simp add: case_prod_beta)

lemma storage_ok_update: "storage_ok st \<Longrightarrow> storage_ok (snd (updateRegistrant i data now st))"
  using storage_ok_exec [of st "OpUpdate i data now"] by (simp add: case_prod_beta)

lemma storage_ok_add:
  "storage_ok st \<Longrightarrow> env_uuid env \<notin> reg_id ` set (stored st) \<Longrightarrow> storage_ok (snd (addRegistrant data env st))"
  using storage_ok_exec [of st "OpAdd data env"] by (simp add: case_prod_beta)

lemma storage_ok_dashboard_step: "storage_ok st \<Longrightarrow> storage_ok (snd (dashboard_step e (d, st)))"
proof (cases e)
  case (DeleteClick i)
  moreover have "storage_ok st \<Longrightarrow> storage_ok (snd (handleDelete i (d, st)))"
    by (cases "deleteConfirm d = Some i") (simp_all add: handleDelete_confirmed handleDelete_arm storage_ok_delete)
  ultimately show "storage_ok st \<Longrightarrow> ?thesis"
    by simp
next
  case CancelClick
  then show "storage_ok st \<Longrightarrow> ?thesis"
    by (simp split: option.splits)
qed simp_all

lemma storage_ok_open_page: "storage_ok st \<Longrightarrow> storage_ok (snd (open_page p st))"
  by (cases p)
     (simp_all add: case_prod_beta dashboard_mount_def loadRegistrants_eq edit_load_def getRegistrantById_eq
      split: option.splits)

lemma storage_ok_edit_onSubmit: "storage_ok st \<Longrightarrow> storage_ok (snd (edit_onSubmit fenv now i (ed, st)))"
  by (simp add: edit_onSubmit_def case_prod_beta storage_ok_update split: sum.splits option.splits)

lemma storage_ok_edit_step:
  assumes "edit_step fenv i e (ed, st) = Some (ed', st')" and "storage_ok st"
  shows "storage_ok st'"
proof (cases e)
  case (EdSubmit now)
  with assms(1) have "edit_onSubmit fenv now i (ed, st) = (ed', st')"
    by (simp split: if_splits)
  then show ?thesis
    using storage_ok_edit_onSubmit [OF assms(2), of fenv now i ed] by simp
qed (use assms in \<open>auto simp: case_prod_beta split: if_splits option.splits\<close>)

lemma storage_ok_reg_step:
  assumes "reg_step fenv e (rf, st) = Some (rf', st')" and "storage_ok st"
    and "\<And>aenv. e = SubmitForm aenv \<Longrightarrow> env_uuid aenv \<notin> reg_id ` set (stored st)"
  shows "storage_ok st'"
proof (cases e)
  case (SubmitForm aenv)
  with assms(1) have "reg_onSubmit fenv aenv (rf, st) = (rf', st')"
    by (simp split: if_splits)
  moreover have "storage_ok (snd (reg_onSubmit fenv aenv (rf, st)))"
    using assms(2) assms(3) [OF SubmitForm]
    by (simp add: reg_onSubmit_def case_prod_beta storage_ok_add split: sum.splits)
  ultimately show ?thesis
    by simp
qed (use assms in \<open>auto simp: case_prod_beta split: if_splits option.splits\<close>)

lemma storage_ok_tab_step:
  assumes "tab_step fenv te (t, st) = Some (t', st')" and "storage_ok st"
    and "\<And>aenv. te = RegEv (SubmitForm aenv) \<Longrightarrow> env_uuid aenv \<notin> reg_id ` set (stored st)"
  shows "storage_ok st'"
proof (cases te)
  case (DashEv e)
  with assms(1) obtain d where "t = DashTab d" and "st' = snd (dashboard_step e (d, st))"
    by (cases t) (auto simp: case_prod_beta)
  with assms(2) show ?thesis
    by (simp add: storage_ok_dashboard_step)
next
  case (EditEv e)
  with assms(1) obtain i ed ed' where "edit_step fenv i e (ed, st) = Some (ed', st')"
    by (cases t) (auto split: option.splits)
  then show ?thesis
    using assms(2) by (rule storage_ok_edit_step)
next
  case (RegEv e)
  with assms(1) obtain rf rf' where "reg_step fenv e (rf, st) = Some (rf', st')"
    by (cases t) (auto split: option.splits)
  then show ?thesis
    using assms(2) by (rule storage_ok_reg_step) (use assms(3) RegEv in simp)
qed

lemma storage_ok_browser_step:
  assumes "browser_step fenv e b = Some b'" and "uuid_fresh e b" and "storage_ok (br_storage b)"
  shows "storage_ok (br_storage b')"
proof (cases e)
  case (OpenTab p)
  with assms(1) have "br_storage b' = snd (open_page p (br_storage b))"
    by (auto simp: case_prod_beta)
  then show ?thesis
    using storage_ok_open_page [OF assms(3)] by simp
next
  case (CloseTab k)
  with assms(1,3) show ?thesis
    by (auto split: if_splits)
next
  case (TabEvent k te)
  with assms(1) obtain t st where
    ts: "tab_step fenv te (br_tabs b ! k, br_storage b) = Some (t, st)" and b': "br_storage b' = st"
    by (auto split: if_splits option.splits)
  have "storage_ok st"
  proof (rule storage_ok_tab_step [OF ts assms(3)])
    fix aenv
    assume "te = RegEv (SubmitForm aenv)"
    with assms(2) TabEvent show "env_uuid aenv \<notin> reg_id ` set (stored (br_storage b))"
      by simp
  qed
  with b' show ?thesis
    by simp
qed

lemma browser_reach_storage_ok: "browser_reach fenv b \<Longrightarrow> storage_ok (br_storage b)"
proof (induction rule: browser_reach.induct)
  case browser_start
  show ?case
    by (simp add: browser_initial_def storage_ok_def)
next
  case (browser_event b e b')
  then show ?case
    by (blast intro: storage_ok_browser_step)
qed

section \<open>Properties of several tabs\<close>

text \<open>
  C25 (invariant, composition of the pages over the shared storage). Whatever pages
  the user opens in however many tabs, and however the events of the tabs
  interleave, the stored registrants keep pairwise distinct identifiers (while each
  \<open>crypto.randomUUID()\<close> is fresh) and are well formed: every handler writes the
  whole list as one store operation, so interleaving cannot corrupt the stored
  list, only lose updates (below).
\<close>

theorem tabs_keep_storage_consistent:
  assumes "browser_reach fenv b"
  shows "distinct (map reg_id (stored (br_storage b))) \<and> list_all wf_registrant (stored (br_storage b))"
  using browser_reach_storage_ok [OF assms] by (simp add: storage_ok_def)

theorem tabs_keep_storage_consistent_witness:
  "distinct (map reg_id (stored (br_storage \<lparr>br_tabs = [RegTab reg_form_initial], br_storage = empty_storage\<rparr>))) \<and>
   list_all wf_registrant (stored (br_storage \<lparr>br_tabs = [RegTab reg_form_initial], br_storage = empty_storage\<rparr>))"
proof (rule tabs_keep_storage_consistent)
  have step: "browser_step sample_fenv (OpenTab RegistrationPage) browser_initial =
          Some \<lparr>br_tabs = [RegTab reg_form_initial], br_storage = empty_storage\<rparr>"
    by (simp add: browser_initial_def)
  show "browser_reach sample_fenv \<lparr>br_tabs = [RegTab reg_form_initial], br_storage = empty_storage\<rparr>"
    by (rule browser_event [OF browser_start _ step]) simp
qed

lemma updated_registrant_overwrites:
  "js_truthy (fd_photoData dB) \<Longrightarrow>
   updated_registrant dB tB (updated_registrant dA tA r) = updated_registrant dB tB r"
  by (simp add: updated_registrant_def js_or_def)

text \<open>
  C29 (safety, a finding on spec section 5 and its open question on concurrent
  writers). Two tabs open the edit page of the same registrant, which has a photo.
  The first changes the fields, uploads a new picture through the file input (the
  edit page starts on the file upload, whose drop zone is shown) and saves; the save
  is reported and the tab goes to the dashboard. The second tab then saves its own
  values. The stored record is exactly what the second save alone would have made of
  the original: every change of the first save is lost, its new picture included,
  since the second page resends the photo it loaded. The behaviour is
  last-writer-wins on the whole record, with no conflict detected.
\<close>

theorem concurrent_edits_last_writer_wins:
  assumes "abs_store st rid = Some r" and "photoData r = Some p" and "p \<noteq> []"
    and "validate_form fenv vA = Inr dA" and "validate_form fenv vB = Inr dB"
    and "image_type_ok (file_type fA)" and "file_size fA \<le> max_upload_size"
  shows "\<exists>b'. browser_run fenv
            [OpenTab (EditPage (Some rid)), OpenTab (EditPage (Some rid)),
             TabEvent 0 (EditEv (EdEditValues vA)), TabEvent 0 (EditEv (EdFileChosen (Some fA))),
             TabEvent 0 (EditEv (EdSubmit tA)),
             TabEvent 1 (EditEv (EdEditValues vB)), TabEvent 1 (EditEv (EdSubmit tB))]
            \<lparr>br_tabs = [], br_storage = st\<rparr> = Some b' \<and>
          (\<exists>ed. br_tabs b' ! 0 = EditTab (Some rid) ed \<and> ed_nav ed = Some dashboard_path) \<and>
          abs_store (br_storage b') rid = Some (updated_registrant (dB\<lparr>fd_photoData := Some p\<rparr>) tB r)"
  using assms
  by (simp add: edit_load_found edit_onSubmit_valid abs_store_updateRegistrant edit_initial_def fu_initial_def
      upload_select_accepted updated_registrant_overwrites case_prod_beta)

theorem concurrent_edits_last_writer_wins_witness:
  "\<exists>b'. browser_run sample_fenv
     [OpenTab (EditPage (Some ''r1'')), OpenTab (EditPage (Some ''r1'')),
      TabEvent 0 (EditEv (EdEditValues sample_values)),
      TabEvent 0 (EditEv (EdFileChosen (Some (sample_file ''image/jpeg'' 2048)))), TabEvent 0 (EditEv (EdSubmit 5)),
      TabEvent 1 (EditEv (EdEditValues (sample_values\<lparr>fv_fullName := ''Ada King''\<rparr>))), TabEvent 1 (EditEv (EdSubmit 7))]
     \<lparr>br_tabs = [], br_storage = empty_storage\<lparr>registrants_item := Some [sample_registrant (Some ''data:image/png;base64,AA'')]\<rparr>\<rparr>
       = Some b' \<and>
   (\<exists>ed. br_tabs b' ! 0 = EditTab (Some ''r1'') ed \<and> ed_nav ed = Some dashboard_path) \<and>
   abs_store (br_storage b') ''r1'' =
     Some (updated_registrant
       (\<lparr>fd_fullName = ''Ada King'', fd_email = ''ada@example.org'', fd_phone = ''0123456789'',
          fd_address = ''1 Main Street'', fd_gender = Female, fd_dateOfBirth = ''1990-04-01'',
          fd_photoData = None, fd_photo = None\<rparr>\<lparr>fd_photoData := Some ''data:image/png;base64,AA''\<rparr>)
       7 (sample_registrant (Some ''data:image/png;base64,AA'')))"
proof (rule concurrent_edits_last_writer_wins)
  show "abs_store (empty_storage\<lparr>registrants_item := Some [sample_registrant (Some ''data:image/png;base64,AA'')]\<rparr>) ''r1'' =
          Some (sample_registrant (Some ''data:image/png;base64,AA''))"
    by (simp add: abs_store_def sample_registrant_def)
  show "validate_form sample_fenv sample_values =
          Inr \<lparr>fd_fullName = ''Ada Lovelace'', fd_email = ''ada@example.org'', fd_phone = ''0123456789'',
               fd_address = ''1 Main Street'', fd_gender = Female, fd_dateOfBirth = ''1990-04-01'',
               fd_photoData = None, fd_photo = None\<rparr>"
    by (simp add: validate_form_def schema_errors_def sample_values_def sample_fenv_def)
  show "validate_form sample_fenv (sample_values\<lparr>fv_fullName := ''Ada King''\<rparr>) =
          Inr \<lparr>fd_fullName = ''Ada King'', fd_email = ''ada@example.org'', fd_phone = ''0123456789'',
               fd_address = ''1 Main Street'', fd_gender = Female, fd_dateOfBirth = ''1990-04-01'',
               fd_photoData = None, fd_photo = None\<rparr>"
    by (simp add: validate_form_def schema_errors_def sample_values_def sample_fenv_def)
qed (simp_all add: sample_registrant_def image_type_ok_def sample_file_def max_upload_size_def)

text \<open>
  C33 (safety, ordering of tabs). The dashboard reads the store only when it
  mounts and after a confirmed delete; it does not follow writes of other tabs. With
  a dashboard open in one tab and a registration completed in another (values the
  schema accepts, the file upload chosen on the toggle, an image selected through its
  drop zone, submit), the store holds the new record but the open dashboard keeps
  listing the old records, also after a new search; a dashboard opened afterwards
  lists the new record.
\<close>

theorem open_dashboard_misses_other_tab_write:
  assumes "validate_form fenv v = Inr data"
    and "image_type_ok (file_type f)" and "file_size f \<le> max_upload_size"
  shows "\<exists>b'. browser_run fenv
            [OpenTab DashboardPage, OpenTab RegistrationPage,
             TabEvent 1 (RegEv (EditValues v)), TabEvent 1 (RegEv (ChooseUpload UploadFile)),
             TabEvent 1 (RegEv (FileChosen (Some f))), TabEvent 1 (RegEv (SubmitForm aenv)),
             TabEvent 0 (DashEv (SearchInput term)), OpenTab DashboardPage]
            \<lparr>br_tabs = [], br_storage = st\<rparr> = Some b' \<and>
          stored (br_storage b') = stored st @ [new_registrant (data\<lparr>fd_photoData := Some (read_as_data_url f)\<rparr>) aenv] \<and>
          (\<exists>d. br_tabs b' ! 0 = DashTab d \<and> registrants d = stored st \<and>
               filteredRegistrants d = filter_registrants (searchTerm d) (stored st)) \<and>
          (\<exists>d. br_tabs b' ! 2 = DashTab d \<and> registrants d = stored (br_storage b'))"
  using assms
  by (simp add: dashboard_mount_def loadRegistrants_eq dashboard_initial_def reg_form_initial_def choose_upload_def
      fu_initial_def upload_select_accepted reg_onSubmit_valid read_as_data_url_nonempty setSearchTerm_def
      case_prod_beta)

theorem open_dashboard_misses_other_tab_write_witness:
  "\<exists>b'. browser_run sample_fenv
     [OpenTab DashboardPage, OpenTab RegistrationPage,
      TabEvent 1 (RegEv (EditValues sample_values)), TabEvent 1 (RegEv (ChooseUpload UploadFile)),
      TabEvent 1 (RegEv (FileChosen (Some (sample_file ''image/png'' 2048)))),
      TabEvent 1 (RegEv (SubmitForm (sample_env ''u1'' 3))), TabEvent 0 (DashEv (SearchInput ''Ada'')),
      OpenTab DashboardPage]
     \<lparr>br_tabs = [], br_storage = empty_storage\<rparr> = Some b' \<and>
   stored (br_storage b') = stored empty_storage @
     [new_registrant (\<lparr>fd_fullName = ''Ada Lovelace'', fd_email = ''ada@example.org'', fd_phone = ''0123456789'',
          fd_address = ''1 Main Street'', fd_gender = Female, fd_dateOfBirth = ''1990-04-01'',
          fd_photoData = None, fd_photo = None\<rparr>\<lparr>fd_photoData := Some (read_as_data_url (sample_file ''image/png'' 2048))\<rparr>)
        (sample_env ''u1'' 3)] \<and>
   (\<exists>d. br_tabs b' ! 0 = DashTab d \<and> registrants d = stored empty_storage \<and>
        filteredRegistrants d = filter_registrants (searchTerm d) (stored empty_storage)) \<and>
   (\<exists>d. br_tabs b' ! 2 = DashTab d \<and> registrants d = stored (br_storage b'))"
proof (rule open_dashboard_misses_other_tab_write)
  show "validate_form sample_fenv sample_values =
          Inr \<lparr>fd_fullName = ''Ada Lovelace'', fd_email = ''ada@example.org'', fd_phone = ''0123456789'',
               fd_address = ''1 Main Street'', fd_gender = Female, fd_dateOfBirth = ''1990-04-01'',
               fd_photoData = None, fd_photo = None\<rparr>"
    by (simp add: validate_form_def schema_errors_def sample_values_def sample_fenv_def)
qed (simp_all add: image_type_ok_def sample_file_def max_upload_size_def)

end
