(* ===== verification/Reference.thy ===== *)
theory Reference
  imports View
begin

text \<open>
  Reference definitions for the JavaScript built-ins of \<open>Prelude\<close> and the
  equivalence of the executable versions with them: \<open>includes\<close> is the substring
  relation of the ECMAScript specification, \<open>findIndex\<close> is the least index whose
  element passes the test (or -1), and the decimal text of a number in a template
  literal reads back as the number, so that the photo file names of
  \<open>registrationService.ts\<close> are distinct for distinct times.
\<close>

section \<open>Definitions\<close>

definition is_digit :: "char \<Rightarrow> bool" where
  "is_digit c = (48 \<le> (of_char c::nat) \<and> (of_char c::nat) \<le> 57)"

text \<open>Reading a string of decimal digits, most significant first.\<close>

definition decimal_value :: "string \<Rightarrow> nat" where
  "decimal_value s = foldl (\<lambda>n c. 10 * n + (of_char c - 48)) 0 s"

section \<open>Lemmas\<close>

lemma of_char_digit_char: "d < 10 \<Longrightarrow> (of_char (digit_char d)::nat) = 48 + d"
  by (simp add: digit_char_def)

lemma is_digit_digit_char: "d < 10 \<Longrightarrow> is_digit (digit_char d)"
  by (simp add: is_digit_def of_char_digit_char)

lemma decimal_value_snoc: "decimal_value (s @ [c]) = 10 * decimal_value s + (of_char c - 48)"
  by (simp add: decimal_value_def)

lemma show_nat_digits: "decimal_value (show_nat n) = n \<and> list_all is_digit (show_nat n)"
proof (induction n rule: show_nat.induct)
  case (1 n)
  show ?case
  proof (cases "n < 10")
    case True
    then show ?thesis
      unfolding show_nat.simps [of n] by (simp add: decimal_value_def of_char_digit_char is_digit_digit_char)
  next
    case False
    then have "decimal_value (show_nat (n div 10)) = n div 10 \<and> list_all is_digit (show_nat (n div 10))"
      using "1.IH" by simp
    with False show ?thesis
      unfolding show_nat.simps [of n] by (simp add: decimal_value_snoc of_char_digit_char is_digit_digit_char)
  qed
qed

lemma show_nat_inj: "show_nat a = show_nat b \<Longrightarrow> a = b"
proof -
  assume "show_nat a = show_nat b"
  then have "decimal_value (show_nat a) = decimal_value (show_nat b)"
    by simp
  then show "a = b"
    using show_nat_digits [of a] show_nat_digits [of b] by simp
qed

lemma js_find_index_least:
  assumes "\<exists>x \<in> set xs. P x"
  shows "js_find_index P xs = int (LEAST i. i < length xs \<and> P (xs ! i))"
proof -
  have ne: "js_find_index P xs \<noteq> -1"
    using assms by (simp add: js_find_index_none)
  have b: "0 \<le> js_find_index P xs \<and> js_find_index P xs < int (length xs)"
    by (rule js_find_index_bounds [OF ne])
  have "(LEAST i. i < length xs \<and> P (xs ! i)) = nat (js_find_index P xs)"
  proof (rule Least_equality)
    have "nat (js_find_index P xs) < length xs"
      using b by linarith
    then show "nat (js_find_index P xs) < length xs \<and> P (xs ! nat (js_find_index P xs))"
      using js_find_index_nth [OF ne] by blast
    fix j
    assume j: "j < length xs \<and> P (xs ! j)"
    show "nat (js_find_index P xs) \<le> j"
    proof (rule ccontr)
      assume "\<not> nat (js_find_index P xs) \<le> j"
      then have "j < nat (js_find_index P xs)"
        by simp
      with js_find_index_first [OF ne] j show False
        by blast
    qed
  qed
  with b show ?thesis
    by linarith
qed

lemma show_nat_eq_iff: "show_nat a = show_nat b \<longleftrightarrow> a = b"
  using show_nat_inj by blast

section \<open>Equivalence with the references\<close>

text \<open>
  \<open>haystack.includes(needle)\<close>, computed by scanning the start
  positions, holds exactly when the haystack is some string, then the needle, then
  some string: the definition of the ECMAScript specification.
\<close>

theorem includes_is_substring: "str_includes s n \<longleftrightarrow> (\<exists>a b. s = a @ n @ b)"
  by (simp add: str_includes_sublist sublist_def)

text \<open>
  \<open>findIndex\<close> returns the least index whose element passes the
  test, and -1 when no element does.
\<close>

theorem find_index_is_least:
  "js_find_index P xs = (if \<exists>x \<in> set xs. P x then int (LEAST i. i < length xs \<and> P (xs ! i)) else -1)"
  using js_find_index_least [of xs P] js_find_index_none [of P xs] by auto

theorem find_index_is_least_witness:
  "js_find_index (\<lambda>x. 2 < x) [1, 5, 7::nat] =
     (if \<exists>x \<in> set [1, 5, 7::nat]. 2 < x then int (LEAST i. i < length [1, 5, 7::nat] \<and> 2 < [1, 5, 7::nat] ! i) else -1) \<and>
   js_find_index (\<lambda>x. 2 < x) [1, 5, 7::nat] = 1"
  using find_index_is_least [of "\<lambda>x. 2 < x" "[1, 5, 7::nat]"] by (simp add: Let_def)

text \<open>
  The decimal text of \<open>Date.now()\<close> in a template literal reads
  back as the number and consists of digits only; hence \<open>photo_${Date.now()}.jpg\<close>
  gives distinct file names for distinct times.
\<close>

theorem photo_file_name_roundtrip:
  "decimal_value (show_nat n) = n \<and> list_all is_digit (show_nat n) \<and>
   (photo_file_name a = photo_file_name b \<longleftrightarrow> a = b)"
  by (simp add: show_nat_digits photo_file_name_def show_nat_eq_iff)

end
