(* ===== verification/Spec2Isabelle.thy ===== *)
theory Spec2Isabelle
  imports Export Routes Provider Tabs Reference
begin

text \<open>
  \<^bold>\<open>A verification library for the quick-registration application.\<close>

  The program is a browser application: a public registration form
  (\<open>src/unnamed/part_002\<close>, \<open>RegistrationForm\<close>) that collects a registrant's
  details and a photo from the camera (\<open>src/src/components/CameraCapture.tsx\<close>) or
  from a file (\<open>src/src/components/FileUpload.tsx\<close>), and an administration area
  behind a hard-coded login (\<open>src/src/contexts/AuthContext.tsx\<close>) with a dashboard
  that searches, pages, deletes and exports the registrants
  (\<open>src/src/components/AdminDashboard.tsx\<close>) and an edit page
  (\<open>src/src/components/EditRegistrant.tsx\<close>). All persistence goes through
  \<open>src/unnamed/part_001\<close> (\<open>registrationService.ts\<close>) onto the browser's
  \<open>localStorage\<close>; the routes are wired in \<open>src/unnamed/part_000\<close> (\<open>App.tsx\<close>).

  \<^bold>\<open>How the code is modelled.\<close> Every stateful piece is a record of its state
  and one function per handler or effect that takes and returns the state, with the
  \<open>localStorage\<close> keys as an explicit record \<open>local_storage\<close> passed along. React
  state updates of one handler are applied together, then the effects whose
  dependencies changed run, in the order React runs them. A control can only be used
  while the JSX renders it: each component's \<open>*_step\<close> function returns
  \<open>None\<close> for an event whose button is not rendered. Values the code receives from
  the outside (\<open>crypto.randomUUID()\<close>, \<open>Date.now()\<close>, the browser's answer to
  \<open>getUserMedia\<close>, the JPEG drawn by the canvas, zod's e-mail regex and the
  \<open>Date\<close> comparison) are arguments. Errors and early returns are values (\<open>option\<close>,
  sums, message fields). JSON serialisation is taken to be a round trip.

  \<^bold>\<open>Theories.\<close>
  \<^item> \<open>Prelude\<close>: the JavaScript built-ins the code calls (truthiness of optional
    strings and \<open>||\<close>, \<open>trim\<close>, \<open>toLowerCase\<close>, \<open>includes\<close>, \<open>findIndex\<close>,
    \<open>slice\<close>, \<open>Math.ceil\<close> of a quotient, numbers in template literals) as
    executable functions, each with the lemma that says what it computes.
  \<^item> \<open>Reference\<close>: reference definitions for those built-ins (the substring
    relation, the least passing index, reading decimal digits) and the equivalence
    of the executable versions with them; these are lemmas about the model of the
    built-ins, used by the other theories, not claims about the program.
  \<^item> \<open>Model\<close>: the data of \<open>types/index.ts\<close>, the \<open>Admin\<close> record and the
    two \<open>localStorage\<close> keys.
  \<^item> \<open>Store\<close>: \<open>registrationService.ts\<close>, one definition per exported function;
    \<open>store_exec\<close> dispatches the operations of \<open>store_op\<close>; \<open>abs_store\<close> reads
    the stored list as a map from ids to records and \<open>abs_exec\<close> is the map
    contract of spec section 4.1; \<open>store_reach\<close> is the inductive set of storages
    reachable from an empty browser storage.
  \<^item> \<open>Wellformed\<close>: the well-formedness predicate of a stored registrant (the
    photo pair of spec section 3) and its preservation by every store operation.
  \<^item> \<open>View\<close>: the dashboard's pure query layer (search filter, \<open>slice\<close> pages,
    page count, the showing range, the PDF table rows).
  \<^item> \<open>Dashboard\<close>: \<open>AdminDashboard\<close>'s state, its effects, \<open>loadRegistrants\<close>,
    the two-click \<open>handleDelete\<close>, pagination and search handlers, the render
    guards, the inductive \<open>dash_reach\<close>, and \<open>effect_cycle\<close>, React's re-run rule
    for an effect with a dependency list, with fuel.
  \<^item> \<open>Auth\<close>: \<open>AuthContext\<close>'s \<open>login\<close>, \<open>logout\<close> and session restore, the
    provider restarted by a reload (\<open>app_start\<close>), \<open>ProtectedRoute\<close> (absent from
    the repository; modelled from spec section 4.4) and the inductive
    \<open>auth_reach\<close>.
  \<^item> \<open>Capture\<close>: \<open>FileUpload\<close> (type and size checks, preview, clear) and
    \<open>CameraCapture\<close> as a state machine together with the browser's live streams and
    pending requests (\<open>camera_sys\<close>, \<open>cam_step\<close>, \<open>cam_reach\<close>); the upload's
    render (\<open>fu_view\<close>) decides which of its controls the pages' step functions
    accept (\<open>file_input_enabled\<close>: the hidden input opens only from the drop zone).
  \<^item> \<open>Forms\<close>: the zod schema (\<open>schema_errors\<close>, \<open>validate_form\<close>), the photo
    input both forms share (\<open>upload_select\<close>, \<open>upload_clear\<close>), the camera
    composed into the page through \<open>onCapture\<close> (the page holds the camera's
    \<open>camera_sys\<close> and passes it the camera's own events; the toggle mounts and
    unmounts it, \<open>choose_upload\<close>), and
    \<open>RegistrationForm\<close>'s submission composed with \<open>addRegistrant\<close>, its event
    function \<open>reg_step\<close> and the inductive \<open>reg_reach\<close>.
  \<^item> \<open>Edit\<close>: \<open>EditRegistrant\<close>'s own schema (\<open>editSchema_errors\<close>, proved equal to
    the registration page's), the camera composed as on the registration page but
    mounted with the page's photo as \<open>existingImage\<close> (\<open>edit_choose_upload\<close>), its
    load effect composed with
    \<open>getRegistrantById\<close>, its submission composed with \<open>updateRegistrant\<close>, and
    \<open>edit_step\<close>.
  \<^item> \<open>Routes\<close>: the route table of \<open>App.tsx\<close> (\<open>route_match\<close> over path
    segments as react-router matches them, \<open>app_screen\<close> with the
    \<open>ProtectedRoute\<close> wrapping) and \<open>AppLayout\<close>'s links and logout button.
  \<^item> \<open>Export\<close>: what the dashboard shows (\<open>dashboard_view\<close>: spinner, the two
    empty messages or the rows of the current page, with the capitalised gender
    badge) and \<open>exportToPDF\<close> as the document handed to jsPDF.
  \<^item> \<open>Provider\<close>: the context of \<open>AuthContext.tsx\<close> (the undefined default,
    \<open>useAuth\<close>'s throw, the provider value) and \<open>App\<close>'s nesting of the layout
    under \<open>AuthProvider\<close> (\<open>app_render\<close>).
  \<^item> \<open>Async_Upload\<close>: the file strategy with its two \<open>FileReader\<close> reads per
    selection (\<open>FileUpload\<close>'s for the preview, \<open>handleFileUpload\<close>'s for
    \<open>photoData\<close>) pending until the browser completes them in any order
    (\<open>select_async\<close>, \<open>clear_async\<close>, \<open>complete_read\<close>, \<open>io_run\<close>); each
    pending read carries the \<open>File\<close> it reads, and a ghost field records which
    file the photo was read from.
  \<^item> \<open>Tabs\<close>: several tabs of one browser over one \<open>localStorage\<close>; each tab
    renders one page with its own state (\<open>open_page\<close>, \<open>tab_step\<close> over the pages'
    step functions), and \<open>browser_step\<close> interleaves the tabs' events in any
    order, with the inductive \<open>browser_reach\<close>.

  \<^bold>\<open>What is proved\<close> (claims C1--C40, each after a text block naming it).
  \<^item> Store (C1--C10): creation then lookup returns the created record; ids stay
    unique in every reachable storage when generated ids are fresh; update keeps the
    photo pair without a new photo and replaces it atomically with one; delete and
    update of an unknown id change nothing; every operation refines the map
    contract; id and creation time never change; delete removes exactly one record;
    a colliding uuid is not guarded (finding).
  \<^item> Types, error paths and the two schemas (C11--C14): every stored record is
    well formed in every reachable storage; a file failing the type or size test is
    rejected with its message, the type test first; saving an edit of a record
    deleted meanwhile shows the failure and writes nothing; the edit page's copy of
    the schema validates exactly like the registration page's.
  \<^item> View, Dashboard and Export (C15--C19, C21, C26): the pages partition the
    listing; page count and page sizes are bounded by \<open>Math.ceil\<close>; the search
    effect's render cycle ends after one run; every reachable dashboard state keeps
    the page index in range and the view consistent with the store; deletion needs a
    confirming second click; the export lists every search result of the store, all
    pages together, whatever page is shown; the rendered body is a function of the
    store, and the table shows exactly under the render guard of its controls.
  \<^item> Auth and Routes (C20, C22--C24): the valid login persists across reloads; a
    stored flag is trusted without a password (finding); the admin screens show only
    for the valid session; the catch-all redirects to \<open>/\<close> and a backslash, never
    home (finding).
  \<^item> Capture and the file reads (C27, C28, C30, C31, C34, C38): the camera can never
    become active and a granted stream is never stopped (findings); the upload
    passes on only files passing its checks, and its type check is an unanchored
    match (finding); reads completing out of order leave the preview showing one
    file and \<open>photoData\<close> holding another (finding); in any order of completion
    \<open>photoData\<close> is only ever read from a file that passed the type and size checks
    or from the empty file of the clear button.
  \<^item> Forms and Edit (C32, C35--C37, C39): a valid submission with photo stores the
    built record; clearing an upload leaves a bogus non-empty photo (finding); from
    every reachable page state a registration can still be completed (liveness); an
    edit of a record with a photo always regenerates \<open>photoPath\<close> (finding); a
    missing record gives the error page without redirect (finding).
  \<^item> Tabs (C25, C29, C33): however the tabs' events interleave, the stored list keeps
    distinct ids and well-formed records; two tabs editing one registrant lose the
    first save entirely, its uploaded picture included (last writer wins, finding);
    an open dashboard does not see another tab's registration, even after a new
    search (finding). Both runs use only controls the pages render: the file upload,
    never a camera picture, which the camera cannot deliver (C27).
  \<^item> Further lemmas, not among the claims, show that the models of
    \<open>includes\<close>, \<open>findIndex\<close> and of numbers in template literals meet their
    reference definitions (\<open>Reference\<close>), that a bad login changes nothing,
    that the header's links agree with the routes, that the edit link routes to the
    edit page of its registrant, that \<open>useAuth\<close> throws outside the provider and
    the application's render never does, that denial messages are distinct, that
    invalid values or a missing photo write nothing and that an edit without photo is
    a round trip.
  \<^item> Across components (C40, below): a submitted registrant appears on the dashboard
    and is found by a search for its name.

  \<^bold>\<open>Bounds and fuel.\<close> No loop of the program can run forever: every recursion
  of the model is structural (over lists, strings or event sequences), so the model
  needs no fuel except in \<open>effect_cycle\<close>, where the rounds of React's
  render--effect loop are bounded; two rounds are enough for the search effect
  (C17), and more rounds give the same state. Reachability is stated with inductive
  relations over arbitrary event sequences, so the invariants hold for runs of any
  length.

  \<^bold>\<open>Further work.\<close> The percent-decoding of route parameters; the camera's
  asynchronous \<open>getUserMedia\<close> composed with the file reads of \<open>Async_Upload\<close>;
  the asynchronous file reads inside the tabs of \<open>Tabs\<close>.

  \<^bold>\<open>Not modelled.\<close> Rendering and styling (JSX markup, CSS classes, the layout
  footer of \<open>AppLayout\<close>), the \<open>AdminLogin\<close> page (imported by \<open>App.tsx\<close>
  but absent from the repository), the \<open>jsPDF\<close> drawing calls, the \<open>setTimeout\<close> of the
  success message beyond an event, React's scheduler beyond the order of updates and
  effects, the session guard and the \<open>admin\<close> key across tabs (\<open>Tabs\<close> models the
  registrants key), and the browser's media
  and file APIs beyond the values the code receives from them (in \<open>Capture\<close> and
  \<open>Forms\<close> a \<open>FileReader\<close> read completes right after its selection;
  \<open>Async_Upload\<close> lifts that restriction for the file strategy).
\<close>

section \<open>Properties across components\<close>

lemma dashboard_mount_registrants:
  "registrants (fst (dashboard_mount st)) = stored st \<and>
   filteredRegistrants (fst (dashboard_mount st)) = stored st"
  by (simp add: dashboard_mount_def loadRegistrants_eq dashboard_initial_def filter_registrants_def js_trim_def)

lemma str_includes_self: "str_includes s s"
  using str_includes_append_prefix [of s "[]"] by simp

text \<open>
  C40 (functional, the control flow of spec section 2). A registrant submitted
  through the registration page reaches the administration area: after a valid
  submission holding a photo, the dashboard mounted on the resulting storage lists
  the earlier records followed by the new one, and a search for the new record's
  full name keeps it in the view.
\<close>

theorem submitted_registrant_on_dashboard:
  assumes "validate_form fenv (rf_values rf) = Inr data" and "rf_photoData rf = photo" and "photo \<noteq> []"
  shows "registrants (fst (dashboard_mount (snd (reg_onSubmit fenv aenv (rf, st))))) =
           stored st @ [new_registrant (data\<lparr>fd_photoData := Some photo\<rparr>) aenv] \<and>
         new_registrant (data\<lparr>fd_photoData := Some photo\<rparr>) aenv \<in>
           set (filter_registrants (fullName (new_registrant (data\<lparr>fd_photoData := Some photo\<rparr>) aenv))
                  (registrants (fst (dashboard_mount (snd (reg_onSubmit fenv aenv (rf, st)))))))"
proof -
  let ?r = "new_registrant (data\<lparr>fd_photoData := Some photo\<rparr>) aenv"
  have l: "registrants (fst (dashboard_mount (snd (reg_onSubmit fenv aenv (rf, st))))) = stored st @ [?r]"
    using assms by (simp add: dashboard_mount_registrants reg_onSubmit_valid)
  have "search_matches (fullName ?r) ?r"
    by (rule name_match_search) (rule str_includes_self)
  then have "?r \<in> set (filter_registrants (fullName ?r) (stored st @ [?r]))"
    by (simp add: filter_registrants_def)
  with l show ?thesis
    by simp
qed

theorem submitted_registrant_on_dashboard_witness:
  "registrants (fst (dashboard_mount (snd (reg_onSubmit sample_fenv (sample_env ''u1'' 17)
      (reg_form_initial\<lparr>rf_values := sample_values, rf_photoData := ''data:image/png;base64,AA''\<rparr>, empty_storage))))) =
     stored empty_storage @
       [new_registrant ((projr (validate_form sample_fenv sample_values))\<lparr>fd_photoData := Some ''data:image/png;base64,AA''\<rparr>)
          (sample_env ''u1'' 17)] \<and>
   new_registrant ((projr (validate_form sample_fenv sample_values))\<lparr>fd_photoData := Some ''data:image/png;base64,AA''\<rparr>)
     (sample_env ''u1'' 17) \<in>
     set (filter_registrants
       (fullName (new_registrant ((projr (validate_form sample_fenv sample_values))\<lparr>fd_photoData := Some ''data:image/png;base64,AA''\<rparr>)
          (sample_env ''u1'' 17)))
       (registrants (fst (dashboard_mount (snd (reg_onSubmit sample_fenv (sample_env ''u1'' 17)
          (reg_form_initial\<lparr>rf_values := sample_values, rf_photoData := ''data:image/png;base64,AA''\<rparr>, empty_storage)))))))"
proof -
  have v: "validate_form sample_fenv (rf_values (reg_form_initial\<lparr>rf_values := sample_values,
             rf_photoData := ''data:image/png;base64,AA''\<rparr>)) = Inr (projr (validate_form sample_fenv sample_values))"
    by (simp add: validate_form_def schema_errors_def sample_fenv_def sample_values_def)
  show ?thesis
    by (rule submitted_registrant_on_dashboard [OF v]) simp_all
qed

end
